theory Spec2Isabelle
  imports Main "HOL-Library.Sublist"
begin

section \<open>Text primitives of the host language\<close>

text \<open>
  The generator of \<^verbatim>\<open>script_v22_modified.py\<close> is a Python program that builds lists of
  text lines.  A Python \<^verbatim>\<open>str\<close> is a sequence of code points.  The model works on text whose
  code points are below 256: a \<^verbatim>\<open>str\<close> is a \<^typ>\<open>string\<close>, one \<^typ>\<open>char\<close> for each code
  point, and \<open>of_char\<close> gives the code point of a \<^typ>\<open>char\<close>.  On that range the white space
  of the model is the white space of Python.  The case mappings below change the letters
  A to Z and a to z only; Python also maps the accented letters above code point 127.
  Printing to the terminal is not modelled.
\<close>

definition white_space_codes :: "nat list" where
  \<comment> \<open>The code points for which \<^verbatim>\<open>str.isspace\<close> holds, which are those \<^verbatim>\<open>str.strip()\<close>
      removes: TAB, LF, VT, FF, CR, FS, GS, RS, US, the blank, NEL, the no-break space,
      and the white space of Unicode above code point 255.\<close>
  "white_space_codes =
     [0x09, 0x0A, 0x0B, 0x0C, 0x0D, 0x1C, 0x1D, 0x1E, 0x1F, 0x20, 0x85, 0xA0,
      0x1680, 0x2000, 0x2001, 0x2002, 0x2003, 0x2004, 0x2005, 0x2006, 0x2007, 0x2008, 0x2009,
      0x200A, 0x2028, 0x2029, 0x202F, 0x205F, 0x3000]"

definition is_space_code :: "nat \<Rightarrow> bool" where
  "is_space_code n \<longleftrightarrow> n \<in> set white_space_codes"

definition is_space :: "char \<Rightarrow> bool" where
  \<comment> \<open>\<^verbatim>\<open>str.isspace\<close> below code point 256: the first twelve entries of the table.\<close>
  "is_space c \<longleftrightarrow> c \<in> set [CHR 0x09, CHR 0x0A, CHR 0x0B, CHR 0x0C, CHR 0x0D,
                            CHR 0x1C, CHR 0x1D, CHR 0x1E, CHR 0x1F, CHR '' '', CHR 0x85, CHR 0xA0]"

definition is_digit :: "char \<Rightarrow> bool" where
  "is_digit c \<longleftrightarrow> c \<in> set ''0123456789''"

definition lower_char :: "char \<Rightarrow> char" where
  "lower_char c =
     (case map_of (zip ''ABCDEFGHIJKLMNOPQRSTUVWXYZ'' ''abcdefghijklmnopqrstuvwxyz'') c of
        Some d \<Rightarrow> d | None \<Rightarrow> c)"

definition upper_char :: "char \<Rightarrow> char" where
  "upper_char c =
     (case map_of (zip ''abcdefghijklmnopqrstuvwxyz'' ''ABCDEFGHIJKLMNOPQRSTUVWXYZ'') c of
        Some d \<Rightarrow> d | None \<Rightarrow> c)"

definition py_lower :: "string \<Rightarrow> string" where
  "py_lower s = map lower_char s"

definition py_upper :: "string \<Rightarrow> string" where
  "py_upper s = map upper_char s"

definition py_strip :: "string \<Rightarrow> string" where
  \<comment> \<open>\<^verbatim>\<open>s.strip()\<close>: white space removed at both ends.\<close>
  "py_strip s = rev (dropWhile is_space (rev (dropWhile is_space s)))"

fun py_split :: "'a \<Rightarrow> 'a list \<Rightarrow> 'a list list" where
  \<comment> \<open>\<^verbatim>\<open>s.split(sep)\<close> for a separator of one character; the result is never empty.\<close>
  "py_split sep [] = [[]]"
| "py_split sep (c # cs) =
     (if c = sep then [] # py_split sep cs
      else (case py_split sep cs of
              seg # segs \<Rightarrow> (c # seg) # segs
            | [] \<Rightarrow> [[c]]))"

fun py_join :: "'a list \<Rightarrow> 'a list list \<Rightarrow> 'a list" where
  \<comment> \<open>\<^verbatim>\<open>sep.join(xs)\<close>\<close>
  "py_join sep [] = []"
| "py_join sep [x] = x"
| "py_join sep (x # y # ys) = x @ sep @ py_join sep (y # ys)"

definition endswith :: "string \<Rightarrow> string \<Rightarrow> bool" where
  "endswith s t \<longleftrightarrow> suffix t s"

definition zfill :: "nat \<Rightarrow> string \<Rightarrow> string" where
  \<comment> \<open>\<^verbatim>\<open>s.zfill(width)\<close>: zeros on the left up to the width, after a leading sign.\<close>
  "zfill width s =
     (if width \<le> length s then s
      else (case s of
              [] \<Rightarrow> replicate width CHR ''0''
            | c # cs \<Rightarrow>
                if c = CHR ''+'' \<or> c = CHR ''-''
                then c # replicate (width - length s) CHR ''0'' @ cs
                else replicate (width - length s) CHR ''0'' @ s))"

fun py_replace :: "string \<Rightarrow> string \<Rightarrow> string \<Rightarrow> string" where
  \<comment> \<open>\<^verbatim>\<open>s.replace(old, new)\<close> for a non-empty \<open>old\<close>: every occurrence, left to right,
      without overlap.  (The program only calls it with \<^verbatim>\<open>"Plot_"\<close>.)\<close>
  "py_replace [] new s = s"
| "py_replace (a # as) new [] = []"
| "py_replace (a # as) new (c # cs) =
     (if prefix (a # as) (c # cs) then new @ py_replace (a # as) new (drop (length as) cs)
      else c # py_replace (a # as) new cs)"

definition digit_char :: "nat \<Rightarrow> char" where
  "digit_char d = ''0123456789'' ! d"

function str_nat :: "nat \<Rightarrow> string" where
  \<comment> \<open>\<^verbatim>\<open>str(n)\<close>, as an f-string renders a non-negative integer.\<close>
  "str_nat n = (if n < 10 then [digit_char n] else str_nat (n div 10) @ [digit_char (n mod 10)])"
  by pat_completeness auto
termination
  by (relation "measure id") auto

declare str_nat.simps [simp del]

section \<open>Naming utility\<close>

text \<open>
  \<^verbatim>\<open>get_axis_mapping\<close> returns \<^verbatim>\<open>list(all_axes - removed_axes)[0]\<close>.  The order in which
  Python lists the elements of a set is not fixed by the language, so the conversion of a
  set to a list is a parameter \<open>to_list\<close> of the model.  The difference has at least one
  element (three axes, at most two removed), so taking element 0 never raises.
\<close>

definition get_axis_mapping :: "(string set \<Rightarrow> string list) \<Rightarrow> string \<Rightarrow> string \<Rightarrow> string" where
  "get_axis_mapping to_list cutplane_axis cutline_axis =
     (let all_axes = {''X'', ''Y'', ''Z''};
          removed_axes = {py_upper cutplane_axis, py_upper cutline_axis}
      in hd (to_list (all_axes - removed_axes)))"

definition lists_sets :: "(string set \<Rightarrow> string list) \<Rightarrow> bool" where
  \<comment> \<open>What \<^verbatim>\<open>list(s)\<close> guarantees for the subsets of the three axes: the elements of \<open>s\<close>.\<close>
  "lists_sets to_list \<longleftrightarrow> (\<forall>S. S \<subseteq> {''X'', ''Y'', ''Z''} \<longrightarrow> set (to_list S) = S)"

definition axis_order :: "string set \<Rightarrow> string list" where
  \<comment> \<open>One possible listing, used to run the model on concrete inputs.\<close>
  "axis_order S = filter (\<lambda>a. a \<in> S) [''X'', ''Y'', ''Z'']"

definition format_tdr_code :: "string \<Rightarrow> string" where
  "format_tdr_code user_input = ''00'' @ zfill 2 user_input"

definition parse_parameters :: "string \<Rightarrow> string list" where
  \<comment> \<open>\<^verbatim>\<open>[param.strip() for param in param_string.split(',') if param.strip()]\<close>\<close>
  "parse_parameters param_string =
     map py_strip (filter (\<lambda>param. py_strip param \<noteq> []) (py_split CHR '','' param_string))"

text \<open>
  \<^verbatim>\<open>parse_parameters\<close> is the one place where the program calls \<^verbatim>\<open>str.strip()\<close>, so its
  result depends on what counts as white space.  It is therefore also given on text of
  any code points, a list of numbers, with the white space of the whole table; the comma
  is code point 44.  On text below code point 256 the two agree
  (\<open>parse_parameters_codes_of_char\<close> below).
\<close>

definition strip_codes :: "nat list \<Rightarrow> nat list" where
  \<comment> \<open>\<^verbatim>\<open>s.strip()\<close> on code points.\<close>
  "strip_codes s = rev (dropWhile is_space_code (rev (dropWhile is_space_code s)))"

definition parse_parameters_codes :: "nat list \<Rightarrow> nat list list" where
  \<comment> \<open>\<^verbatim>\<open>[param.strip() for param in param_string.split(',') if param.strip()]\<close>\<close>
  "parse_parameters_codes param_string =
     map strip_codes (filter (\<lambda>param. strip_codes param \<noteq> []) (py_split 0x2C param_string))"

section \<open>Exceptions, early returns and the input stream\<close>

text \<open>
  The three generators read their request with \<^verbatim>\<open>input()\<close>.  The lines the user will
  type are a list of strings, consumed from the front; reading past its end raises
  \<^verbatim>\<open>EOFError\<close>.  A step of a generator either raises, or leaves the function with
  \<^verbatim>\<open>return\<close>, or goes on with a value.
\<close>

datatype py_error = ValueError | KeyboardInterrupt | IndexError | EOFError | ZeroDivisionError

datatype 'a flow = Raise py_error | Return "string list" | Next 'a

definition bind_flow :: "'a flow \<Rightarrow> ('a \<Rightarrow> 'b flow) \<Rightarrow> 'b flow" where
  "bind_flow m f = (case m of Raise e \<Rightarrow> Raise e | Return cmds \<Rightarrow> Return cmds | Next x \<Rightarrow> f x)"

lemma bind_flow_cong [fundef_cong]:
  "m = m' \<Longrightarrow> (\<And>x. m' = Next x \<Longrightarrow> f x = f' x) \<Longrightarrow> bind_flow m f = bind_flow m' f'"
  by (cases m') (simp_all add: bind_flow_def)

definition handler :: "string list flow \<Rightarrow> py_error + string list" where
  \<comment> \<open>\<^verbatim>\<open>try: ... return cmds  except (ValueError, KeyboardInterrupt): return []\<close>;
      every other exception leaves the generator.\<close>
  "handler body =
     (case body of
        Raise e \<Rightarrow> if e = ValueError \<or> e = KeyboardInterrupt then Inr [] else Inl e
      | Return cmds \<Rightarrow> Inr cmds
      | Next cmds \<Rightarrow> Inr cmds)"

definition input_line :: "string list \<Rightarrow> (string \<times> string list) flow" where
  \<comment> \<open>\<^verbatim>\<open>input(prompt)\<close>\<close>
  "input_line inp = (case inp of [] \<Rightarrow> Raise EOFError | l # ls \<Rightarrow> Next (l, ls))"

definition is_int_space :: "char \<Rightarrow> bool" where
  \<comment> \<open>The white space \<^verbatim>\<open>int()\<close> skips around a numeral: TAB, LF, VT, FF, CR, the blank, NEL
      and the no-break space; unlike \<^verbatim>\<open>str.strip()\<close>, not FS, GS, RS and US.\<close>
  "is_int_space c \<longleftrightarrow> c \<in> set [CHR 0x09, CHR 0x0A, CHR 0x0B, CHR 0x0C, CHR 0x0D, CHR '' '',
                                CHR 0x85, CHR 0xA0]"

definition digit_val :: "char \<Rightarrow> nat" where
  "digit_val c =
     (case map_of (zip ''0123456789'' [0, 1, 2, 3, 4, 5, 6, 7, 8, 9]) c of
        Some d \<Rightarrow> d | None \<Rightarrow> 0)"

fun digits_value :: "nat \<Rightarrow> string \<Rightarrow> nat option" where
  \<comment> \<open>Decimal digits, single underscores allowed between two digits.\<close>
  "digits_value acc [] = Some acc"
| "digits_value acc [c] = (if is_digit c then Some (10 * acc + digit_val c) else None)"
| "digits_value acc (c # d # ds) =
     (if is_digit c then digits_value (10 * acc + digit_val c) (d # ds)
      else if c = CHR ''_'' \<and> is_digit d then digits_value (10 * acc + digit_val d) ds
      else None)"

definition py_int :: "string \<Rightarrow> int flow" where
  \<comment> \<open>\<^verbatim>\<open>int(s)\<close>: white space around, an optional sign, decimal digits; below code point
      256 the decimal digits are 0 to 9.  (The interpreter's optional limit on the number
      of digits is not modelled.)\<close>
  "py_int s =
     (let t = rev (dropWhile is_int_space (rev (dropWhile is_int_space s))) in
      case t of
        [] \<Rightarrow> Raise ValueError
      | c # cs \<Rightarrow>
          (let body = (if c = CHR ''+'' \<or> c = CHR ''-'' then cs else t) in
           case body of
             [] \<Rightarrow> Raise ValueError
           | d # ds \<Rightarrow>
               if is_digit d then
                 (case digits_value 0 body of
                    None \<Rightarrow> Raise ValueError
                  | Some n \<Rightarrow> Next (if c = CHR ''-'' then - int n else int n))
               else Raise ValueError))"

definition add_slash :: "string \<Rightarrow> string" where
  \<comment> \<open>\<^verbatim>\<open>if not path.endswith('/'): path += '/'\<close>\<close>
  "add_slash path = (if \<not> endswith path ''/'' then path @ ''/'' else path)"

definition console_header :: "string list" where
  "console_header =
     [''################################################'',
      ''# Sentaurus Visual Console - Tcl version 8.6.6 #'',
      ''################################################'',
      ''# '']"

section \<open>Mode 2: different nodes with PLT files\<close>

record mode2_request =
  m2_base_path :: string
  plt_prefix :: string
  nodes_data :: "(string \<times> string) list"
  m2_csv_export_path :: string
  m2_csv_filename :: string
  plot_title :: string
  x_axis_title :: string
  y_axis_title :: string
  y2_axis_title :: string
  legend_x :: string
  legend_y :: string
  png_export_path :: string

fun read_nodes :: "nat \<Rightarrow> string list \<Rightarrow> ((string \<times> string) list \<times> string list) flow" where
  \<comment> \<open>\<^verbatim>\<open>for i in range(num_nodes): version = input(..); node_id = input(..); nodes_data.append(..)\<close>\<close>
  "read_nodes 0 inp = Next ([], inp)"
| "read_nodes (Suc k) inp =
     bind_flow (input_line inp) (\<lambda>(version, inp1).
     bind_flow (input_line inp1) (\<lambda>(node_id, inp2).
     bind_flow (read_nodes k inp2) (\<lambda>(rest, inp3).
     Next ((version, node_id) # rest, inp3))))"

definition read_mode2 :: "string list \<Rightarrow> mode2_request flow" where
  \<comment> \<open>Lines 296 to 333: the prompts of Mode 2, in order.\<close>
  "read_mode2 inp0 =
     bind_flow (input_line inp0) (\<lambda>(base_path, inp1).
     bind_flow (input_line inp1) (\<lambda>(pfx, inp2).
     bind_flow (input_line inp2) (\<lambda>(count, inp3).
     bind_flow (py_int count) (\<lambda>num_nodes.
     bind_flow (read_nodes (nat num_nodes) inp3) (\<lambda>(nodes, inp4).
     bind_flow (input_line inp4) (\<lambda>(csv_export_path, inp5).
     bind_flow (input_line inp5) (\<lambda>(csv_filename, inp6).
     bind_flow (input_line inp6) (\<lambda>(title, inp7).
     bind_flow (input_line inp7) (\<lambda>(x_title, inp8).
     bind_flow (input_line inp8) (\<lambda>(y_title, inp9).
     bind_flow (input_line inp9) (\<lambda>(y2_title, inp10).
     bind_flow (input_line inp10) (\<lambda>(leg_x, inp11).
     bind_flow (input_line inp11) (\<lambda>(leg_y, inp12).
     bind_flow (input_line inp12) (\<lambda>(png, inp13).
     Next \<lparr> m2_base_path = add_slash base_path, plt_prefix = pfx, nodes_data = nodes,
            m2_csv_export_path = add_slash csv_export_path, m2_csv_filename = csv_filename,
            plot_title = title, x_axis_title = x_title, y_axis_title = y_title,
            y2_axis_title = y2_title, legend_x = leg_x, legend_y = leg_y,
            png_export_path = png \<rparr>))))))))))))))"

definition colors :: "string list" where
  "colors = [''#ff0000'', ''#00ff00'', ''#0000ff'', ''#ff8000'', ''#800080'', ''#008080'']"

definition curve_names :: "nat \<Rightarrow> nat \<Rightarrow> string" where
  \<comment> \<open>\<^verbatim>\<open>' '.join(f'Curve_{i}' for i in range(lo, hi))\<close>\<close>
  "curve_names lo hi = py_join '' '' (map (\<lambda>i. ''Curve_'' @ str_nat i) [lo..<hi])"

definition mode2_dataset :: "string \<Rightarrow> string \<times> string \<Rightarrow> string" where
  \<comment> \<open>\<^verbatim>\<open>f"{plt_prefix}_{version}_{node_id}_des"\<close>\<close>
  "mode2_dataset pfx = (\<lambda>(version, node_id). pfx @ ''_'' @ version @ ''_'' @ node_id @ ''_des'')"

definition tmax_style :: "nat \<Rightarrow> nat \<Rightarrow> string list" where
  \<comment> \<open>Lines 386 to 397: the body of the loop over the Y2 curves, for index \<open>i\<close>.\<close>
  "tmax_style tmax_curve_start i =
     (let curve_num = tmax_curve_start + i;
          color = colors ! (i mod length colors)
      in [''set_curve_prop {Curve_'' @ str_nat curve_num @ ''} -plot Plot_1 -line_style dash'',
          ''# 0'',
          ''set_curve_prop {Curve_'' @ str_nat curve_num @ ''} -plot Plot_1 -line_width 2'',
          ''# 0'',
          ''set_curve_prop {Curve_'' @ str_nat curve_num @ ''} -plot Plot_1 -color '' @ color,
          ''# 0'',
          ''set_curve_prop {Curve_'' @ str_nat curve_num @ ''} -plot Plot_1 -hide_legend'',
          ''# 0''])"

definition voltage_style :: "nat \<Rightarrow> string list" where
  \<comment> \<open>Lines 401 to 405: the body of the loop over the Y curves, for index \<open>i\<close>.\<close>
  "voltage_style i =
     (let curve_num = i + 1
      in [''set_curve_prop {Curve_'' @ str_nat curve_num @ ''} -plot Plot_1 -line_width 2'',
          ''# 0''])"

definition voltage_label :: "nat \<times> string \<times> string \<Rightarrow> string list" where
  \<comment> \<open>Lines 445 to 449: the body of the relabelling loop.\<close>
  \<open>voltage_label = (\<lambda>(i, version, node_id).
     (let curve_num = i + 1
      in [''set_curve_prop {Curve_'' @ str_nat curve_num @ ''} -plot Plot_1 -label "drain OuterVoltage_''
            @ version @ ''"'',
          ''# 0'']))\<close>

definition mode2_body :: "mode2_request \<Rightarrow> string \<times> string \<Rightarrow> string list" where
  \<comment> \<open>Lines 347 to 459: the command list, once \<^verbatim>\<open>nodes_data[0]\<close> has been read.\<close>
  \<open>mode2_body r = (\<lambda>(first_version, first_node).
     (let first_filename = plt_prefix r @ ''_'' @ first_version @ ''_'' @ first_node @ ''_des.plt'';
          first_dataset = plt_prefix r @ ''_'' @ first_version @ ''_'' @ first_node @ ''_des'';
          all_datasets = py_join '' '' (map (mode2_dataset (plt_prefix r)) (nodes_data r));
          n = length (nodes_data r);
          tmax_curve_start = n + 1;
          tmax_curve_end = n * 2;
          all_curves = curve_names 1 (n * 2 + 1);
          csv_full_path = m2_csv_export_path r @ m2_csv_filename r @ ''.csv''
      in console_header
         @ [''load_file '' @ m2_base_path r @ first_filename,
            ''create_plot -1d'',
            ''select_plots {Plot_1}'',
            ''# Plot_1'', [], ''# Plot_1'', [], ''# '' @ first_dataset]
         @ concat (map (\<lambda>(version, node_id).
              [''load_file '' @ m2_base_path r @ plt_prefix r @ ''_'' @ version @ ''_'' @ node_id @ ''_des.plt'',
               ''# '' @ plt_prefix r @ ''_'' @ version @ ''_'' @ node_id @ ''_des''])
              (drop 1 (nodes_data r)))
         @ [''create_curve -axisX time -axisY {drain OuterVoltage} -dataset {'' @ all_datasets
              @ ''} -plot Plot_1'',
            ''# '' @ curve_names 1 (n + 1)]
         @ [''create_curve -axisX time -axisY2 Tmax -dataset {'' @ all_datasets @ ''} -plot Plot_1'',
            ''# '' @ curve_names tmax_curve_start (tmax_curve_end + 1)]
         @ concat (map (\<lambda>(i, version, node_id). tmax_style tmax_curve_start i)
                       (enumerate 0 (nodes_data r)))
         @ concat (map (\<lambda>(i, version, node_id). voltage_style i) (enumerate 0 (nodes_data r)))
         @ [''set_axis_prop -plot Plot_1 -axis y2 -title "'' @ y2_axis_title r @ ''"'',
            ''# 0'',
            ''set_axis_prop -plot Plot_1 -axis x -title "'' @ x_axis_title r @ ''"'',
            ''# 0'',
            ''set_axis_prop -plot Plot_1 -axis y -title "'' @ y_axis_title r @ ''"'',
            ''# 0'']
         @ [''set_plot_prop -plot {Plot_1} -title "'' @ plot_title r @ ''"'',
            ''# 0'',
            ''set_plot_prop -plot {Plot_1} -frame_width 2'',
            ''# 0'']
         @ [''set_legend_prop -plot Plot_1 -position {'' @ legend_x r @ '' '' @ legend_y r @ ''}'',
            ''# 0'']
         @ [''export_view {'' @ png_export_path r @ ''} -format png'',
            ''# 0'']
         @ [''move_plot -plot Plot_1 -position {0 0}'',
            ''# 0'']
         @ concat (map voltage_label (enumerate 0 (nodes_data r)))
         @ [''export_curves {'' @ all_curves @ ''} -plot Plot_1 -filename '' @ csv_full_path
              @ '' -format csv'',
            ''# '' @ csv_full_path]))\<close>

definition mode2_commands :: "mode2_request \<Rightarrow> string list flow" where
  \<comment> \<open>Lines 335 to 459.  \<^verbatim>\<open>nodes_data[0]\<close> raises \<^verbatim>\<open>IndexError\<close> on the empty list;
      the header collected before it is lost with the exception.\<close>
  "mode2_commands r =
     (case nodes_data r of
        [] \<Rightarrow> Raise IndexError
      | first_pair # remaining \<Rightarrow> Return (mode2_body r first_pair))"

definition generate_mode2_commands :: "string list \<Rightarrow> py_error + string list" where
  "generate_mode2_commands inp = handler (bind_flow (read_mode2 inp) mode2_commands)"

section \<open>Cutplane and cutline sets\<close>

record cutset =
  cutplane_axis :: string
  cutplane_position :: string
  cutline_axis :: string
  cutline_positions :: "string list"
  parameters :: "string list"

definition parameter_names :: "string list" where
  \<comment> \<open>The list \<^verbatim>\<open>parameters\<close> of Modes 1 and 3 (lines 67 to 75 and 470 to 478).\<close>
  "parameter_names =
     [''ConductionBandEnergy'', ''ConductionCurrentDensity'', ''DopingConcentration'',
      ''EffectiveIntrinsicDensity'', ''ElectricField'', ''ElectrostaticPotential'',
      ''EquilibriumPotential'', ''Impactionization'', ''IntrinsicDensity'',
      ''LatticeTemperature'', ''QuasiFermiPotential'', ''SpaceCharge'',
      ''ValenceBandEnergy'', ''eAlphaAvalanche'', ''eCurrentDensity'', ''eDensity'',
      ''eMobility'', ''eQuasiFermiPotential'', ''hAlphaAvalanche'', ''hCurrentDensity'',
      ''hDensity'', ''hMobility'', ''hQuasiFermiPotential'']"

section \<open>Mode 3: several cutplane, cutline and parameter sets\<close>

text \<open>
  The request of Mode 3 holds the local variables of \<^verbatim>\<open>generate_mode3_commands\<close> at line
  559, where the command list starts.  The list \<^verbatim>\<open>plot_names\<close> is only appended to and
  never read, so it is left out.
\<close>

record mode3_request =
  m3_tdr_codes :: "string list"
  m3_base_path :: string
  m3_file_prefix :: string
  m3_current_value :: string
  m3_sets :: "cutset list"
  m3_y_axis_type :: string
  m3_csv_export_path :: string
  m3_csv_filename :: string

definition m3_dset :: "mode3_request \<Rightarrow> string \<Rightarrow> string \<Rightarrow> string" where
  \<comment> \<open>\<^verbatim>\<open>f"{current_value}_{parameter}_{code}_des"\<close>\<close>
  "m3_dset r parameter code = m3_current_value r @ ''_'' @ parameter @ ''_'' @ code @ ''_des''"

definition m3_header :: "nat \<Rightarrow> string \<Rightarrow> string list" where
  \<comment> \<open>Lines 576 to 581.\<close>
  "m3_header set_idx parameter =
     [''################################################'',
      ''# Sentaurus Visual Console - Tcl version 8.6.6 #'',
      ''################################################'',
      ''# --- Set '' @ str_nat set_idx @ '', Parameter: '' @ parameter @ '' ---'']"

definition m3_load :: "mode3_request \<Rightarrow> string \<Rightarrow> string \<Rightarrow> string list" where
  \<comment> \<open>Lines 585 to 594, for one TDR code.\<close>
  "m3_load r parameter code =
     (let fname = m3_current_value r @ ''_'' @ parameter @ ''_'' @ code @ ''_des.tdr'';
          dset = m3_dset r parameter code;
          plot = ''Plot_'' @ dset
      in [''load_file '' @ m3_base_path r @ fname @ '' -fod'',
          ''create_plot -dataset '' @ dset,
          ''select_plots {'' @ plot @ ''}'',
          ''# '' @ plot, [], ''# '' @ plot, [], ''# '' @ dset])"

definition m3_link :: "mode3_request \<Rightarrow> string \<Rightarrow> string \<Rightarrow> string list" where
  \<comment> \<open>Lines 597 to 607; \<open>code0\<close> is \<^verbatim>\<open>tdr_codes[0]\<close>.\<close>
  "m3_link r parameter code0 =
     (let first_plot = ''Plot_'' @ m3_dset r parameter code0;
          all_plots = py_join '' '' (map (\<lambda>code. ''Plot_'' @ m3_dset r parameter code) (m3_tdr_codes r))
      in [''select_plots {'' @ first_plot @ ''}'',
          ''# '' @ first_plot,
          ''select_plots {'' @ all_plots @ ''}'',
          ''# '' @ all_plots,
          ''link_plots {'' @ all_plots @ ''}'',
          ''# 1''])"

definition m3_field :: "mode3_request \<Rightarrow> string \<Rightarrow> string \<Rightarrow> string list" where
  \<comment> \<open>Lines 610 to 616; \<open>code_last\<close> is \<^verbatim>\<open>tdr_codes[-1]\<close>.\<close>
  "m3_field r parameter code_last =
     (let last_plot = ''Plot_'' @ m3_dset r parameter code_last;
          last_dset = m3_dset r parameter code_last
      in [''set_field_prop '' @ parameter @ '' -plot '' @ last_plot @ '' -geom '' @ last_dset
            @ '' -show_bands'',
          ''# 0''])"

definition m3_cutplane :: "mode3_request \<Rightarrow> nat \<Rightarrow> cutset \<Rightarrow> string \<Rightarrow> string \<Rightarrow> string list" where
  \<comment> \<open>Lines 620 to 626, for one TDR code.\<close>
  "m3_cutplane r set_parameter_counter cutset parameter code =
     (let plot = ''Plot_'' @ m3_dset r parameter code
      in [''select_plots {'' @ plot @ ''}'',
          ''# '' @ plot,
          ''create_cutplane -plot '' @ plot @ '' -type '' @ cutplane_axis cutset @ '' -at ''
            @ cutplane_position cutset,
          ''# C'' @ str_nat set_parameter_counter @ ''('' @ m3_dset r parameter code @ '')''])"

definition m3_cutplane_plot :: "mode3_request \<Rightarrow> nat \<Rightarrow> string \<Rightarrow> string \<Rightarrow> string list" where
  \<comment> \<open>Lines 630 to 636, for one TDR code.\<close>
  "m3_cutplane_plot r set_parameter_counter parameter code =
     (let cp_dset = ''C'' @ str_nat set_parameter_counter @ ''('' @ m3_dset r parameter code @ '')'';
          plot = ''Plot_'' @ m3_dset r parameter code
      in [''create_plot -dataset '' @ cp_dset @ '' -ref_plot '' @ plot,
          ''select_plots {Plot_'' @ cp_dset @ ''}'',
          ''# Plot_'' @ cp_dset, [], ''# Plot_'' @ cp_dset])"

definition m3_cutline :: "mode3_request \<Rightarrow> nat \<Rightarrow> cutset \<Rightarrow> string \<Rightarrow> string \<Rightarrow> string \<Rightarrow> string list" where
  \<comment> \<open>Lines 640 to 647, for one TDR code, once \<^verbatim>\<open>cl_positions[tdr_idx]\<close> has been read.\<close>
  "m3_cutline r set_parameter_counter cutset parameter code cl_pos =
     (let cp_plot = ''Plot_C'' @ str_nat set_parameter_counter @ ''('' @ m3_dset r parameter code @ '')''
      in [''select_plots {'' @ cp_plot @ ''}'',
          ''# '' @ cp_plot,
          ''create_cutline -plot '' @ cp_plot @ '' -type '' @ cutline_axis cutset @ '' -at '' @ cl_pos,
          ''# C1(C'' @ str_nat set_parameter_counter @ ''('' @ m3_dset r parameter code @ ''))''])"

fun m3_cutlines ::
  "mode3_request \<Rightarrow> nat \<Rightarrow> cutset \<Rightarrow> string \<Rightarrow> (nat \<times> string) list \<Rightarrow> string list flow" where
  \<comment> \<open>The loop of lines 639 to 647 over \<^verbatim>\<open>enumerate(tdr_codes)\<close>; \<^verbatim>\<open>cl_positions[tdr_idx]\<close>
      raises \<^verbatim>\<open>IndexError\<close> when the set has no position for that index.\<close>
  "m3_cutlines r set_parameter_counter cutset parameter [] = Next []"
| "m3_cutlines r set_parameter_counter cutset parameter ((tdr_idx, code) # rest) =
     (if tdr_idx < length (cutline_positions cutset) then
        bind_flow (m3_cutlines r set_parameter_counter cutset parameter rest) (\<lambda>lines.
        Next (m3_cutline r set_parameter_counter cutset parameter code
                (cutline_positions cutset ! tdr_idx) @ lines))
      else Raise IndexError)"

definition m3_plot1d :: "mode3_request \<Rightarrow> nat \<Rightarrow> string \<Rightarrow> string \<Rightarrow> string list" where
  \<comment> \<open>Lines 650 to 658; \<open>code0\<close> is \<^verbatim>\<open>tdr_codes[0]\<close>.\<close>
  "m3_plot1d r set_parameter_counter parameter code0 =
     (let plot1d_name = ''Plot_C1(C'' @ str_nat set_parameter_counter @ ''('' @ m3_dset r parameter code0 @ ''))'';
          first_cl_dset = ''C1(C'' @ str_nat set_parameter_counter @ ''('' @ m3_dset r parameter code0 @ ''))''
      in [''create_plot -dataset '' @ first_cl_dset @ '' -1d'',
          ''select_plots {'' @ plot1d_name @ ''}'',
          ''# '' @ plot1d_name, [], ''# '' @ plot1d_name])"

definition m3_curve ::
  "(string set \<Rightarrow> string list) \<Rightarrow> mode3_request \<Rightarrow> nat \<Rightarrow> cutset \<Rightarrow> string \<Rightarrow> string
     \<Rightarrow> nat \<times> string \<Rightarrow> string list" where
  \<comment> \<open>Lines 662 to 669, for one entry of \<^verbatim>\<open>enumerate(tdr_codes)\<close>.\<close>
  "m3_curve to_list r set_parameter_counter cutset parameter code0 = (\<lambda>(tdr_idx, code).
     (let axis_x = get_axis_mapping to_list (cutplane_axis cutset) (cutline_axis cutset);
          plot1d_name = ''Plot_C1(C'' @ str_nat set_parameter_counter @ ''('' @ m3_dset r parameter code0 @ ''))'';
          cl_dset = ''C1(C'' @ str_nat set_parameter_counter @ ''('' @ m3_dset r parameter code @ ''))''
      in [''create_curve -axisX '' @ axis_x @ '' -axisY '' @ parameter @ '' -dataset {'' @ cl_dset
            @ ''} -plot '' @ plot1d_name,
          ''# Curve_'' @ str_nat (tdr_idx + 1),
          ''set_axis_prop -plot '' @ plot1d_name @ '' -axis y -type '' @ m3_y_axis_type r,
          ''set_axis_prop -plot '' @ plot1d_name @ '' -axis x -range {-0.9 9.0}'',
          ''# 0'']))"

definition m3_export :: "mode3_request \<Rightarrow> nat \<Rightarrow> nat \<Rightarrow> nat \<Rightarrow> string \<Rightarrow> string \<Rightarrow> string list" where
  \<comment> \<open>Lines 672 to 680.\<close>
  "m3_export r set_parameter_counter set_idx param_idx parameter code0 =
     (let plot1d_name = ''Plot_C1(C'' @ str_nat set_parameter_counter @ ''('' @ m3_dset r parameter code0 @ ''))'';
          all_curve_names = py_join '' '' (map (\<lambda>i. ''Curve_'' @ str_nat (i + 1)) [0..<length (m3_tdr_codes r)]);
          csv_full_path = m3_csv_export_path r @ m3_csv_filename r @ ''_set'' @ str_nat set_idx
             @ ''_param'' @ str_nat (param_idx + 1) @ ''_'' @ parameter @ ''.csv''
      in [''select_plots {'' @ plot1d_name @ ''}'',
          ''# '' @ plot1d_name,
          ''export_curves {'' @ all_curve_names @ ''} -plot '' @ plot1d_name @ '' -filename ''
            @ csv_full_path @ '' -format csv'',
          ''# '' @ csv_full_path])"

definition m3_block_lines ::
  "(string set \<Rightarrow> string list) \<Rightarrow> mode3_request \<Rightarrow> nat \<Rightarrow> nat \<Rightarrow> cutset \<Rightarrow> nat \<Rightarrow> string
     \<Rightarrow> string \<Rightarrow> string list \<Rightarrow> string list" where
  \<comment> \<open>Lines 576 to 680 in order, given \<^verbatim>\<open>tdr_codes[0]\<close> and the lines of the cutline loop.\<close>
  "m3_block_lines to_list r set_parameter_counter set_idx cutset param_idx parameter code0 cutlines =
     m3_header set_idx parameter
     @ concat (map (m3_load r parameter) (m3_tdr_codes r))
     @ m3_link r parameter code0
     @ m3_field r parameter (last (m3_tdr_codes r))
     @ concat (map (m3_cutplane r set_parameter_counter cutset parameter) (m3_tdr_codes r))
     @ concat (map (m3_cutplane_plot r set_parameter_counter parameter) (m3_tdr_codes r))
     @ cutlines
     @ m3_plot1d r set_parameter_counter parameter code0
     @ concat (map (m3_curve to_list r set_parameter_counter cutset parameter code0)
                   (enumerate 0 (m3_tdr_codes r)))
     @ m3_export r set_parameter_counter set_idx param_idx parameter code0"

definition m3_block ::
  "(string set \<Rightarrow> string list) \<Rightarrow> mode3_request \<Rightarrow> nat \<Rightarrow> nat \<Rightarrow> cutset \<Rightarrow> nat \<Rightarrow> string
     \<Rightarrow> string list flow" where
  \<comment> \<open>Lines 568 to 680: what one pass of the inner loop appends to \<^verbatim>\<open>cmds\<close>, the counter
      already incremented.  \<^verbatim>\<open>tdr_codes[0]\<close> raises \<^verbatim>\<open>IndexError\<close> on the empty list, and
      so does a missing cutline position; both are \<^verbatim>\<open>IndexError\<close>, so their order is not
      observable.\<close>
  "m3_block to_list r set_parameter_counter set_idx cutset param_idx parameter =
     (case m3_tdr_codes r of
        [] \<Rightarrow> Raise IndexError
      | code0 # others \<Rightarrow>
          bind_flow (m3_cutlines r set_parameter_counter cutset parameter (enumerate 0 (m3_tdr_codes r)))
            (\<lambda>cutlines.
          Next (m3_block_lines to_list r set_parameter_counter set_idx cutset param_idx parameter
                  code0 cutlines)))"

fun m3_parameters ::
  "(string set \<Rightarrow> string list) \<Rightarrow> mode3_request \<Rightarrow> nat \<Rightarrow> cutset \<Rightarrow> (nat \<times> string) list
     \<Rightarrow> nat \<times> string list \<Rightarrow> (nat \<times> string list) flow" where
  \<comment> \<open>The inner loop (line 565) over \<^verbatim>\<open>enumerate(cutset['parameters'])\<close>; the state is
      \<^verbatim>\<open>set_parameter_counter\<close> and \<^verbatim>\<open>cmds\<close>.\<close>
  "m3_parameters to_list r set_idx cutset [] (set_parameter_counter, cmds) =
     Next (set_parameter_counter, cmds)"
| "m3_parameters to_list r set_idx cutset ((param_idx, parameter) # rest) (set_parameter_counter, cmds) =
     bind_flow (m3_block to_list r (set_parameter_counter + 1) set_idx cutset param_idx parameter)
       (\<lambda>block.
     m3_parameters to_list r set_idx cutset rest (set_parameter_counter + 1, cmds @ block))"

fun m3_sets_loop ::
  "(string set \<Rightarrow> string list) \<Rightarrow> mode3_request \<Rightarrow> (nat \<times> cutset) list
     \<Rightarrow> nat \<times> string list \<Rightarrow> (nat \<times> string list) flow" where
  \<comment> \<open>The outer loop (line 564) over \<^verbatim>\<open>enumerate(cutplane_cutline_sets, start=1)\<close>.\<close>
  "m3_sets_loop to_list r [] st = Next st"
| "m3_sets_loop to_list r ((set_idx, cutset) # rest) st =
     bind_flow (m3_parameters to_list r set_idx cutset (enumerate 0 (parameters cutset)) st)
       (\<lambda>st'. m3_sets_loop to_list r rest st')"

definition mode3_commands :: "(string set \<Rightarrow> string list) \<Rightarrow> mode3_request \<Rightarrow> string list flow" where
  \<comment> \<open>Lines 559 to 682.\<close>
  "mode3_commands to_list r =
     bind_flow (m3_sets_loop to_list r (enumerate 1 (m3_sets r)) (0, []))
       (\<lambda>(set_parameter_counter, cmds). Return cmds)"

section \<open>Mode 1: many nodes with user TDRs\<close>

text \<open>
  The request of Mode 1 holds the local variables of \<^verbatim>\<open>generate_mode1_commands\<close> at line
  135, where the command list starts.  The list \<^verbatim>\<open>unified_1d_plots\<close> is only appended to
  and never read, so it is left out.
\<close>

record mode1_request =
  node_names :: "string list"
  m1_tdr_codes :: "string list"
  need_last_tdr :: string
  m1_base_path :: string
  m1_current_value :: string
  m1_sets :: "cutset list"
  m1_y_axis_type :: string
  m1_csv_export_path :: string
  m1_csv_filename :: string

definition m1_file_base :: "mode1_request \<Rightarrow> string \<Rightarrow> string \<Rightarrow> string" where
  \<comment> \<open>\<^verbatim>\<open>f"{current_value}_{parameter}_{code}"\<close>, and the same with \<^verbatim>\<open>last_prefix\<close> for the code.\<close>
  "m1_file_base r parameter code = m1_current_value r @ ''_'' @ parameter @ ''_'' @ code"

definition m1_load :: "mode1_request \<Rightarrow> string \<Rightarrow> string list" where
  \<comment> \<open>Lines 163 to 172, and again lines 179 to 188, for one file base.\<close>
  "m1_load r file_base =
     (let fname = file_base @ ''_des.tdr'';
          dset = file_base @ ''_des'';
          plot = ''Plot_'' @ dset
      in [''load_file '' @ m1_base_path r @ fname @ '' -fod'',
          ''create_plot -dataset '' @ dset,
          ''select_plots {'' @ plot @ ''}'',
          ''# '' @ plot, [], ''# '' @ plot, [], ''# '' @ dset])"

definition wants_last_tdr :: "mode1_request \<Rightarrow> bool" where
  \<comment> \<open>\<^verbatim>\<open>need_last_tdr in ['yes', 'y']\<close>\<close>
  "wants_last_tdr r \<longleftrightarrow> need_last_tdr r \<in> set [''yes'', ''y'']"

definition cross_file_bases :: "mode1_request \<Rightarrow> string \<Rightarrow> string list" where
  \<comment> \<open>Lines 159 to 162: \<^verbatim>\<open>for node in node_names: for code in tdr_codes\<close>; the file base does
      not mention the node.\<close>
  "cross_file_bases r parameter =
     concat (map (\<lambda>node. map (\<lambda>code. m1_file_base r parameter code) (m1_tdr_codes r)) (node_names r))"

definition m1_file_bases :: "mode1_request \<Rightarrow> string \<Rightarrow> string list flow" where
  \<comment> \<open>\<^verbatim>\<open>file_bases_for_param\<close> at line 190.  With the last TDR asked for,
      \<^verbatim>\<open>node_names[0]\<close> raises \<^verbatim>\<open>IndexError\<close> on the empty list; \<^verbatim>\<open>split('_')[0]\<close> is the text
      before the first underscore.\<close>
  "m1_file_bases r parameter =
     (if wants_last_tdr r then
        (case node_names r of
           [] \<Rightarrow> Raise IndexError
         | node0 # others \<Rightarrow>
             (let last_prefix = hd (py_split CHR ''_'' node0)
              in Next (cross_file_bases r parameter @ [m1_file_base r parameter last_prefix])))
      else Next (cross_file_bases r parameter))"

definition m1_link :: "string list \<Rightarrow> string \<Rightarrow> string list" where
  \<comment> \<open>Lines 191 to 202; \<open>fb0\<close> is \<^verbatim>\<open>file_bases_for_param[0]\<close>.\<close>
  "m1_link file_bases fb0 =
     (let first_plot = ''Plot_'' @ fb0 @ ''_des'';
          all_plots_for_param = map (\<lambda>fb. ''Plot_'' @ fb @ ''_des'') file_bases;
          all_plots_str = py_join '' '' all_plots_for_param
      in [''select_plots {'' @ first_plot @ ''}'',
          ''# '' @ first_plot,
          ''select_plots {'' @ all_plots_str @ ''}'',
          ''# '' @ all_plots_str,
          ''link_plots {'' @ all_plots_str @ ''}'',
          ''# 1''])"

definition m1_field :: "string list \<Rightarrow> string \<Rightarrow> string list" where
  \<comment> \<open>Lines 205 to 211, on a non-empty list of file bases.\<close>
  "m1_field file_bases parameter =
     (let all_plots_for_param = map (\<lambda>fb. ''Plot_'' @ fb @ ''_des'') file_bases;
          last_plot = last all_plots_for_param;
          last_dset = py_replace ''Plot_'' [] last_plot
      in [''set_field_prop '' @ parameter @ '' -plot '' @ last_plot @ '' -geom '' @ last_dset
            @ '' -show_bands'',
          ''# 0''])"

definition m1_cutplane :: "nat \<Rightarrow> cutset \<Rightarrow> string \<Rightarrow> string list" where
  \<comment> \<open>Lines 215 to 221, for one file base.\<close>
  "m1_cutplane set_idx cutset file_base =
     (let plot = ''Plot_'' @ file_base @ ''_des''
      in [''select_plots {'' @ plot @ ''}'',
          ''# '' @ plot,
          ''create_cutplane -plot '' @ plot @ '' -type '' @ cutplane_axis cutset @ '' -at ''
            @ cutplane_position cutset,
          ''# C'' @ str_nat set_idx @ ''('' @ file_base @ ''_des)''])"

definition m1_cutplane_plot :: "nat \<Rightarrow> string \<Rightarrow> string list" where
  \<comment> \<open>Lines 225 to 231, for one file base.\<close>
  "m1_cutplane_plot set_idx file_base =
     (let cp_dset = ''C'' @ str_nat set_idx @ ''('' @ file_base @ ''_des)'';
          plot = ''Plot_'' @ file_base @ ''_des''
      in [''create_plot -dataset '' @ cp_dset @ '' -ref_plot '' @ plot,
          ''select_plots {Plot_'' @ cp_dset @ ''}'',
          ''# Plot_'' @ cp_dset, [], ''# Plot_'' @ cp_dset])"

definition m1_cutline :: "nat \<Rightarrow> cutset \<Rightarrow> nat \<times> string \<Rightarrow> string list" where
  \<comment> \<open>Lines 235 to 242, for one entry of \<^verbatim>\<open>enumerate(file_bases_for_param)\<close>, on a non-empty
      list of cutline positions.\<close>
  "m1_cutline set_idx cutset = (\<lambda>(i, file_base).
     (let cp_plot = ''Plot_C'' @ str_nat set_idx @ ''('' @ file_base @ ''_des)'';
          cl_pos = cutline_positions cutset ! (i mod length (cutline_positions cutset))
      in [''select_plots {'' @ cp_plot @ ''}'',
          ''# '' @ cp_plot,
          ''create_cutline -plot '' @ cp_plot @ '' -type '' @ cutline_axis cutset @ '' -at '' @ cl_pos,
          ''# C1(C'' @ str_nat set_idx @ ''('' @ file_base @ ''_des))'']))"

definition unified_plot_name :: "nat \<Rightarrow> nat \<Rightarrow> string \<Rightarrow> string" where
  \<comment> \<open>\<^verbatim>\<open>f"Plot_C1(C{set_idx}({file_bases_for_param[0]}_des))_S{set_idx}P{param_idx}"\<close>\<close>
  "unified_plot_name set_idx param_idx fb0 =
     ''Plot_C1(C'' @ str_nat set_idx @ ''('' @ fb0 @ ''_des))_S'' @ str_nat set_idx @ ''P''
       @ str_nat param_idx"

definition m1_plot1d :: "nat \<Rightarrow> nat \<Rightarrow> string \<Rightarrow> string list" where
  \<comment> \<open>Lines 245 to 253.\<close>
  "m1_plot1d set_idx param_idx fb0 =
     (let unified_1d_plot = unified_plot_name set_idx param_idx fb0;
          first_cl_dset = ''C1(C'' @ str_nat set_idx @ ''('' @ fb0 @ ''_des))''
      in [''create_plot -dataset '' @ first_cl_dset @ '' -1d'',
          ''select_plots {'' @ unified_1d_plot @ ''}'',
          ''# '' @ unified_1d_plot, [], ''# '' @ unified_1d_plot])"

definition m1_curve ::
  "(string set \<Rightarrow> string list) \<Rightarrow> mode1_request \<Rightarrow> nat \<Rightarrow> cutset \<Rightarrow> nat \<Rightarrow> string \<Rightarrow> string
     \<Rightarrow> nat \<Rightarrow> string \<Rightarrow> string list" where
  \<comment> \<open>Lines 258 to 265, for one file base and the current value of \<^verbatim>\<open>curve_counter\<close>.\<close>
  "m1_curve to_list r set_idx cutset param_idx parameter fb0 curve_counter file_base =
     (let axis_x = get_axis_mapping to_list (cutplane_axis cutset) (cutline_axis cutset);
          unified_1d_plot = unified_plot_name set_idx param_idx fb0;
          cl_dset = ''C1(C'' @ str_nat set_idx @ ''('' @ file_base @ ''_des))''
      in [''create_curve -axisX '' @ axis_x @ '' -axisY '' @ parameter @ '' -dataset {'' @ cl_dset
            @ ''} -plot '' @ unified_1d_plot,
          ''# Curve_'' @ str_nat curve_counter,
          ''set_axis_prop -plot '' @ unified_1d_plot @ '' -axis y -type '' @ m1_y_axis_type r,
          ''set_axis_prop -plot '' @ unified_1d_plot @ '' -axis x -range {-0.9 9.0}'',
          ''# 0''])"

fun m1_curves ::
  "(string set \<Rightarrow> string list) \<Rightarrow> mode1_request \<Rightarrow> nat \<Rightarrow> cutset \<Rightarrow> nat \<Rightarrow> string \<Rightarrow> string
     \<Rightarrow> string list \<Rightarrow> nat \<Rightarrow> string list \<times> string list \<times> nat" where
  \<comment> \<open>The loop of lines 257 to 267: the lines appended, \<^verbatim>\<open>curves_for_this_plot\<close> and the
      new \<^verbatim>\<open>curve_counter\<close>.\<close>
  "m1_curves to_list r set_idx cutset param_idx parameter fb0 [] curve_counter =
     ([], [], curve_counter)"
| "m1_curves to_list r set_idx cutset param_idx parameter fb0 (file_base # rest) curve_counter =
     (case m1_curves to_list r set_idx cutset param_idx parameter fb0 rest (curve_counter + 1) of
        (lines, curves_for_this_plot, counter') \<Rightarrow>
          (m1_curve to_list r set_idx cutset param_idx parameter fb0 curve_counter file_base @ lines,
           (''Curve_'' @ str_nat curve_counter) # curves_for_this_plot,
           counter'))"

definition m1_export :: "mode1_request \<Rightarrow> nat \<Rightarrow> nat \<Rightarrow> string \<Rightarrow> string \<Rightarrow> string list \<Rightarrow> string list" where
  \<comment> \<open>Lines 270 to 278.\<close>
  "m1_export r set_idx param_idx parameter fb0 curves_for_this_plot =
     (let unified_1d_plot = unified_plot_name set_idx param_idx fb0;
          curve_names = py_join '' '' curves_for_this_plot;
          csv_full_path = m1_csv_export_path r @ m1_csv_filename r @ ''_set'' @ str_nat set_idx
             @ ''_param_'' @ parameter @ ''.csv''
      in [''select_plots {'' @ unified_1d_plot @ ''}'',
          ''# '' @ unified_1d_plot,
          ''export_curves {'' @ curve_names @ ''} -plot '' @ unified_1d_plot @ '' -filename ''
            @ csv_full_path @ '' -format csv'',
          ''# '' @ csv_full_path])"

definition m1_block_lines ::
  "(string set \<Rightarrow> string list) \<Rightarrow> mode1_request \<Rightarrow> nat \<Rightarrow> cutset \<Rightarrow> nat \<Rightarrow> string \<Rightarrow> nat
     \<Rightarrow> string list \<Rightarrow> string list" where
  \<comment> \<open>Lines 157 to 278 in order, for a non-empty list of file bases and a non-empty list
      of cutline positions.\<close>
  "m1_block_lines to_list r set_idx cutset param_idx parameter curve_counter file_bases =
     (case m1_curves to_list r set_idx cutset param_idx parameter (hd file_bases) file_bases curve_counter of
        (curve_lines, curves_for_this_plot, counter') \<Rightarrow>
          concat (map (m1_load r) file_bases)
          @ m1_link file_bases (hd file_bases)
          @ m1_field file_bases parameter
          @ concat (map (m1_cutplane set_idx cutset) file_bases)
          @ concat (map (m1_cutplane_plot set_idx) file_bases)
          @ concat (map (m1_cutline set_idx cutset) (enumerate 0 file_bases))
          @ m1_plot1d set_idx param_idx (hd file_bases)
          @ curve_lines
          @ m1_export r set_idx param_idx parameter (hd file_bases) curves_for_this_plot)"

definition m1_block ::
  "(string set \<Rightarrow> string list) \<Rightarrow> mode1_request \<Rightarrow> nat \<Rightarrow> cutset \<Rightarrow> nat \<Rightarrow> string \<Rightarrow> nat
     \<Rightarrow> (string list \<times> nat) flow" where
  \<comment> \<open>Lines 157 to 278: what one pass of the inner loop appends to \<^verbatim>\<open>cmds\<close>, and the new
      \<^verbatim>\<open>curve_counter\<close>.  In the order of the source: \<^verbatim>\<open>node_names[0]\<close> (line 176) and
      \<^verbatim>\<open>file_bases_for_param[0]\<close> (line 191) raise \<^verbatim>\<open>IndexError\<close> on an empty list, then
      \<^verbatim>\<open>i % len(cl_positions)\<close> (line 236) raises \<^verbatim>\<open>ZeroDivisionError\<close> when the set has no
      cutline position.\<close>
  "m1_block to_list r set_idx cutset param_idx parameter curve_counter =
     bind_flow (m1_file_bases r parameter) (\<lambda>file_bases.
     if file_bases = [] then Raise IndexError
     else if cutline_positions cutset = [] then Raise ZeroDivisionError
     else Next (m1_block_lines to_list r set_idx cutset param_idx parameter curve_counter file_bases,
                curve_counter + length file_bases))"

fun m1_parameters ::
  "(string set \<Rightarrow> string list) \<Rightarrow> mode1_request \<Rightarrow> nat \<Rightarrow> cutset \<Rightarrow> (nat \<times> string) list
     \<Rightarrow> nat \<times> string list \<Rightarrow> (nat \<times> string list) flow" where
  \<comment> \<open>The inner loop (line 156) over \<^verbatim>\<open>enumerate(parameters_list)\<close>; the state is
      \<^verbatim>\<open>curve_counter\<close> and \<^verbatim>\<open>cmds\<close>.\<close>
  "m1_parameters to_list r set_idx cutset [] (curve_counter, cmds) = Next (curve_counter, cmds)"
| "m1_parameters to_list r set_idx cutset ((param_idx, parameter) # rest) (curve_counter, cmds) =
     bind_flow (m1_block to_list r set_idx cutset param_idx parameter curve_counter)
       (\<lambda>(block, counter').
     m1_parameters to_list r set_idx cutset rest (counter', cmds @ block))"

fun m1_sets_loop ::
  "(string set \<Rightarrow> string list) \<Rightarrow> mode1_request \<Rightarrow> (nat \<times> cutset) list
     \<Rightarrow> nat \<times> string list \<Rightarrow> (nat \<times> string list) flow" where
  \<comment> \<open>The outer loop (line 147) over \<^verbatim>\<open>enumerate(cutplane_cutline_sets, start=1)\<close>.\<close>
  "m1_sets_loop to_list r [] st = Next st"
| "m1_sets_loop to_list r ((set_idx, cutset) # rest) st =
     bind_flow (m1_parameters to_list r set_idx cutset (enumerate 0 (parameters cutset)) st)
       (\<lambda>st'. m1_sets_loop to_list r rest st')"

definition mode1_commands :: "(string set \<Rightarrow> string list) \<Rightarrow> mode1_request \<Rightarrow> string list flow" where
  \<comment> \<open>Lines 135 to 280: the header, then the two loops, \<^verbatim>\<open>curve_counter\<close> starting at 1.\<close>
  "mode1_commands to_list r =
     bind_flow (m1_sets_loop to_list r (enumerate 1 (m1_sets r)) (1, console_header))
       (\<lambda>(curve_counter, cmds). Return cmds)"

section \<open>Reading the requests of Modes 1 and 3\<close>

text \<open>
  Both modes read their cutplane and cutline sets with the same \<^verbatim>\<open>while True\<close> loop (lines
  82 to 123 and 505 to 547).  One pass of the loop either leaves the generator with
  \<^verbatim>\<open>return []\<close> (equal axes), or starts the loop again without storing anything
  (\<^verbatim>\<open>continue\<close>, a parameter outside the list), or appends a set and reads the answer to
  "another set?".  An interrupt from the keyboard is not part of the input lines and is
  not modelled; the handler still names it.
\<close>

fun read_lines :: "nat \<Rightarrow> string list \<Rightarrow> (string list \<times> string list) flow" where
  \<comment> \<open>A \<^verbatim>\<open>for\<close> loop that reads one line per pass.\<close>
  "read_lines 0 inp = Next ([], inp)"
| "read_lines (Suc k) inp =
     bind_flow (input_line inp) (\<lambda>(l, inp1).
     bind_flow (read_lines k inp1) (\<lambda>(ls, inp2).
     Next (l # ls, inp2)))"

fun read_axis :: "string list \<Rightarrow> (string \<times> string list) flow" where
  \<comment> \<open>\<^verbatim>\<open>a = input(..).lower()\<close>, then \<^verbatim>\<open>while a not in {'x', 'y', 'z'}: a = input(..).lower()\<close>\<close>
  "read_axis [] = Raise EOFError"
| "read_axis (l # ls) =
     (if py_lower l \<in> set [''x'', ''y'', ''z''] then Next (py_lower l, ls) else read_axis ls)"

datatype set_step = Again | Entry cutset string

definition read_set :: "string list \<Rightarrow> string list \<Rightarrow> (set_step \<times> string list) flow" where
  \<comment> \<open>One pass of the loop: lines 83 to 121, and 506 to 545.\<close>
  "read_set tdr_codes inp0 =
     bind_flow (read_axis inp0) (\<lambda>(cp_axis, inp1).
     bind_flow (input_line inp1) (\<lambda>(cp_position, inp2).
     bind_flow (read_axis inp2) (\<lambda>(cl_axis, inp3).
     if cl_axis = cp_axis then Return []
     else
       bind_flow (read_lines (length tdr_codes) inp3) (\<lambda>(cl_positions, inp4).
       bind_flow (input_line inp4) (\<lambda>(param_input, inp5).
       (let param_list = parse_parameters param_input;
            invalid_params = filter (\<lambda>p. p \<notin> set parameter_names) param_list
        in if invalid_params \<noteq> [] then Next (Again, inp5)
           else
             bind_flow (input_line inp5) (\<lambda>(more_answer, inp6).
             Next (Entry \<lparr> cutplane_axis = cp_axis, cutplane_position = cp_position,
                           cutline_axis = cl_axis, cutline_positions = cl_positions,
                           parameters = param_list \<rparr>
                         (py_lower more_answer), inp6))))))))"

lemma read_axis_shorter: "read_axis inp = Next (a, inp') \<Longrightarrow> length inp' < length inp"
  by (induction inp) (auto split: if_splits)

lemma input_line_shorter: "input_line inp = Next (l, inp') \<Longrightarrow> length inp' < length inp"
  by (cases inp) (auto simp: input_line_def)

lemma read_lines_not_longer: "read_lines k inp = Next (ls, inp') \<Longrightarrow> length inp' \<le> length inp"
proof (induction k arbitrary: inp ls inp')
  case 0
  then show ?case by simp
next
  case (Suc k)
  from Suc.prems obtain l inp1 ls1 where
    1: "input_line inp = Next (l, inp1)" and 2: "read_lines k inp1 = Next (ls1, inp')"
    by (auto simp: bind_flow_def split: flow.splits)
  from input_line_shorter [OF 1] Suc.IH [OF 2] show ?case by simp
qed

lemma read_set_shorter:
  assumes "read_set tdr_codes inp = Next (step, inp')"
  shows "length inp' < length inp"
proof -
  from assms obtain cp_axis inp1 cp_position inp2 cl_axis inp3 cl_positions inp4 param_input inp5
    where 1: "read_axis inp = Next (cp_axis, inp1)"
      and 2: "input_line inp1 = Next (cp_position, inp2)"
      and 3: "read_axis inp2 = Next (cl_axis, inp3)"
      and 4: "read_lines (length tdr_codes) inp3 = Next (cl_positions, inp4)"
      and 5: "input_line inp4 = Next (param_input, inp5)"
      and 6: "inp' = inp5 \<or> (\<exists>m. input_line inp5 = Next (m, inp'))"
    by (auto simp: read_set_def bind_flow_def Let_def split: flow.splits if_splits)
  from 6 have "length inp' \<le> length inp5"
    by (auto dest: input_line_shorter)
  with read_axis_shorter [OF 1] input_line_shorter [OF 2] read_axis_shorter [OF 3]
    read_lines_not_longer [OF 4] input_line_shorter [OF 5]
  show ?thesis by simp
qed

function read_sets :: "string list \<Rightarrow> cutset list \<Rightarrow> string list \<Rightarrow> (cutset list \<times> string list) flow" where
  \<comment> \<open>The \<^verbatim>\<open>while True\<close> loop; \<open>sets\<close> is \<^verbatim>\<open>cutplane_cutline_sets\<close> so far.\<close>
  "read_sets tdr_codes sets inp =
     bind_flow (read_set tdr_codes inp) (\<lambda>(step, inp').
       case step of
         Again \<Rightarrow> read_sets tdr_codes sets inp'
       | Entry cutset more_answer \<Rightarrow>
           if more_answer \<notin> set [''yes'', ''y''] then Next (sets @ [cutset], inp')
           else read_sets tdr_codes (sets @ [cutset]) inp')"
  by pat_completeness auto
termination
  by (relation "measure (\<lambda>(tdr_codes, sets, inp). length inp)") (auto dest: read_set_shorter)

declare read_sets.simps [simp del]

definition y_axis_type_of :: "string \<Rightarrow> string" where
  \<comment> \<open>\<^verbatim>\<open>y = answer.lower() or 'log'\<close>, then \<^verbatim>\<open>if y not in {'linear', 'log'}: y = 'log'\<close>\<close>
  "y_axis_type_of answer =
     (let y = (if py_lower answer = [] then ''log'' else py_lower answer)
      in if y \<notin> set [''linear'', ''log''] then ''log'' else y)"

definition read_mode3 :: "string list \<Rightarrow> mode3_request flow" where
  \<comment> \<open>Lines 489 to 557: the prompts of Mode 3, in order.\<close>
  "read_mode3 inp0 =
     bind_flow (input_line inp0) (\<lambda>(count, inp1).
     bind_flow (py_int count) (\<lambda>no_of_tdrs.
     bind_flow (input_line inp1) (\<lambda>(base_path, inp2).
     bind_flow (input_line inp2) (\<lambda>(file_prefix, inp3).
     bind_flow (input_line inp3) (\<lambda>(current_value, inp4).
     bind_flow (read_lines (nat no_of_tdrs) inp4) (\<lambda>(codes, inp5).
     (let tdr_codes = map format_tdr_code codes in
     bind_flow (read_sets tdr_codes [] inp5) (\<lambda>(cutplane_cutline_sets, inp6).
     bind_flow (input_line inp6) (\<lambda>(y_answer, inp7).
     bind_flow (input_line inp7) (\<lambda>(csv_export_path, inp8).
     bind_flow (input_line inp8) (\<lambda>(csv_filename, inp9).
     Next \<lparr> m3_tdr_codes = tdr_codes, m3_base_path = add_slash base_path,
            m3_file_prefix = file_prefix, m3_current_value = current_value,
            m3_sets = cutplane_cutline_sets, m3_y_axis_type = y_axis_type_of y_answer,
            m3_csv_export_path = add_slash csv_export_path,
            m3_csv_filename = csv_filename \<rparr>)))))))))))"

definition generate_mode3_commands :: "(string set \<Rightarrow> string list) \<Rightarrow> string list \<Rightarrow> py_error + string list" where
  "generate_mode3_commands to_list inp = handler (bind_flow (read_mode3 inp) (mode3_commands to_list))"

definition read_mode1 :: "string list \<Rightarrow> mode1_request flow" where
  \<comment> \<open>Lines 44 to 133: the prompts of Mode 1, in order.\<close>
  "read_mode1 inp0 =
     bind_flow (input_line inp0) (\<lambda>(node_count, inp1).
     bind_flow (py_int node_count) (\<lambda>num_nodes.
     bind_flow (read_lines (nat num_nodes) inp1) (\<lambda>(nodes, inp2).
     bind_flow (input_line inp2) (\<lambda>(count, inp3).
     bind_flow (py_int count) (\<lambda>no_of_tdrs.
     bind_flow (read_lines (nat no_of_tdrs) inp3) (\<lambda>(codes, inp4).
     (let tdr_codes = map format_tdr_code codes in
     bind_flow (input_line inp4) (\<lambda>(last_answer, inp5).
     bind_flow (input_line inp5) (\<lambda>(base_path, inp6).
     bind_flow (input_line inp6) (\<lambda>(current_value, inp7).
     bind_flow (read_sets tdr_codes [] inp7) (\<lambda>(cutplane_cutline_sets, inp8).
     bind_flow (input_line inp8) (\<lambda>(y_answer, inp9).
     bind_flow (input_line inp9) (\<lambda>(csv_export_path, inp10).
     bind_flow (input_line inp10) (\<lambda>(csv_filename, inp11).
     Next \<lparr> node_names = nodes, m1_tdr_codes = tdr_codes, need_last_tdr = py_lower last_answer,
            m1_base_path = add_slash base_path, m1_current_value = current_value,
            m1_sets = cutplane_cutline_sets, m1_y_axis_type = y_axis_type_of y_answer,
            m1_csv_export_path = add_slash csv_export_path,
            m1_csv_filename = csv_filename \<rparr>))))))))))))))"

definition generate_mode1_commands :: "(string set \<Rightarrow> string list) \<Rightarrow> string list \<Rightarrow> py_error + string list" where
  "generate_mode1_commands to_list inp = handler (bind_flow (read_mode1 inp) (mode1_commands to_list))"

section \<open>Observing a command list\<close>

text \<open>
  Every line the generators emit starts with a fixed word: the name of a console command,
  or \<^verbatim>\<open>#\<close> for a line that echoes an identifier.  The properties below select the
  lines of one command by that word.
\<close>

definition first_word :: "string \<Rightarrow> string" where
  "first_word l = takeWhile (\<lambda>c. c \<noteq> CHR '' '') l"

definition commands_named :: "string \<Rightarrow> string list \<Rightarrow> string list" where
  "commands_named w out = filter (\<lambda>l. first_word l = w) out"

definition echoes_of :: "string \<Rightarrow> string list \<Rightarrow> string list" where
  \<comment> \<open>The line that follows each line of the command \<open>w\<close>: the identifier the console
      answers to it.\<close>
  "echoes_of w out = map snd (filter (\<lambda>(l, e). first_word l = w) (zip out (tl out)))"

definition ends_with_echo :: "string list \<Rightarrow> bool" where
  \<comment> \<open>No command is left without its answer at the end of the lines.\<close>
  "ends_with_echo ls \<longleftrightarrow> ls = [] \<or> first_word (last ls) = ''#''"

definition returned :: "string list flow \<Rightarrow> string list" where
  \<comment> \<open>The command list a generator body returns; empty when it raises.\<close>
  "returned body = (case body of Raise e \<Rightarrow> [] | Return cmds \<Rightarrow> cmds | Next cmds \<Rightarrow> cmds)"

definition digits_to_nat :: "string \<Rightarrow> nat" where
  "digits_to_nat s = foldl (\<lambda>a c. 10 * a + digit_val c) 0 s"

section \<open>The shape of the command lists of Modes 1 and 3\<close>

text \<open>
  The two nested loops of Modes 1 and 3 visit the (set, parameter) pairs in order.  The
  definitions below name the pairs, and the lines the pair at a given position
  contributes when no exception is raised; the properties relate them to the loops.
\<close>

definition pairs_of :: "(nat \<times> cutset) list \<Rightarrow> (nat \<times> cutset \<times> nat \<times> string) list" where
  \<comment> \<open>The (set, parameter) pairs of the two nested loops, in the order they are visited:
      set index, set, index of the parameter within the set, parameter.\<close>
  "pairs_of sets =
     concat (map (\<lambda>(set_idx, cutset).
                map (\<lambda>(param_idx, parameter). (set_idx, cutset, param_idx, parameter))
                    (enumerate 0 (parameters cutset))) sets)"

definition m3_pairs :: "mode3_request \<Rightarrow> (nat \<times> cutset \<times> nat \<times> string) list" where
  "m3_pairs r = pairs_of (enumerate 1 (m3_sets r))"

definition m3_lines ::
  "(string set \<Rightarrow> string list) \<Rightarrow> mode3_request \<Rightarrow> nat \<times> nat \<times> cutset \<times> nat \<times> string \<Rightarrow> string list" where
  \<comment> \<open>The lines of the pair visited at position \<open>k\<close> (from 0), emitted with counter \<open>k + 1\<close>
      and one cutline per TDR code at the position of the same index.\<close>
  "m3_lines to_list r = (\<lambda>(k, set_idx, cutset, param_idx, parameter).
     m3_block_lines to_list r (k + 1) set_idx cutset param_idx parameter (hd (m3_tdr_codes r))
       (concat (map (\<lambda>(i, code). m3_cutline r (k + 1) cutset parameter code (cutline_positions cutset ! i))
                    (enumerate 0 (m3_tdr_codes r)))))"

definition blocks_from ::
  "(string set \<Rightarrow> string list) \<Rightarrow> mode3_request \<Rightarrow> nat \<Rightarrow> (nat \<times> cutset \<times> nat \<times> string) list \<Rightarrow> string list" where
  "blocks_from to_list r c ps = concat (map (m3_lines to_list r) (enumerate c ps))"

definition m1_pairs :: "mode1_request \<Rightarrow> (nat \<times> cutset \<times> nat \<times> string) list" where
  "m1_pairs r = pairs_of (enumerate 1 (m1_sets r))"

definition file_bases_of :: "mode1_request \<Rightarrow> string \<Rightarrow> string list" where
  \<comment> \<open>The file bases of one parameter: the cross product of nodes and TDR codes, then the
      entry made from the prefix of the first node when the last TDR is asked for.\<close>
  "file_bases_of r parameter =
     cross_file_bases r parameter
     @ (if wants_last_tdr r
        then [m1_file_base r parameter (hd (py_split CHR ''_'' (hd (node_names r))))] else [])"

definition files_per_pair :: "mode1_request \<Rightarrow> nat" where
  "files_per_pair r =
     length (node_names r) * length (m1_tdr_codes r) + (if wants_last_tdr r then 1 else 0)"

definition m1_lines ::
  "(string set \<Rightarrow> string list) \<Rightarrow> mode1_request \<Rightarrow> nat \<times> nat \<times> cutset \<times> nat \<times> string \<Rightarrow> string list" where
  \<comment> \<open>The lines of the pair visited at position \<open>k\<close> (from 0): its curves are numbered
      from \<open>1 + k * files_per_pair r\<close>.\<close>
  "m1_lines to_list r = (\<lambda>(k, set_idx, cutset, param_idx, parameter).
     m1_block_lines to_list r set_idx cutset param_idx parameter (1 + k * files_per_pair r)
       (file_bases_of r parameter))"

definition m1_blocks_from ::
  "(string set \<Rightarrow> string list) \<Rightarrow> mode1_request \<Rightarrow> nat \<Rightarrow> (nat \<times> cutset \<times> nat \<times> string) list \<Rightarrow> string list" where
  "m1_blocks_from to_list r c ps = concat (map (m1_lines to_list r) (enumerate c ps))"

definition m1_ready :: "mode1_request \<Rightarrow> bool" where
  \<comment> \<open>What lets every pass of the loops of Mode 1 run to its end.\<close>
  "m1_ready r \<longleftrightarrow> node_names r \<noteq> [] \<and> (wants_last_tdr r \<or> m1_tdr_codes r \<noteq> [])"

definition accepted_set :: "string list \<Rightarrow> cutset \<Rightarrow> bool" where
  \<comment> \<open>What holds of every set the loop stores.\<close>
  "accepted_set tdr_codes cs \<longleftrightarrow>
     cutplane_axis cs \<in> set [''x'', ''y'', ''z''] \<and> cutline_axis cs \<in> set [''x'', ''y'', ''z'']
     \<and> cutplane_axis cs \<noteq> cutline_axis cs
     \<and> set (parameters cs) \<subseteq> set parameter_names
     \<and> length (cutline_positions cs) = length tdr_codes"

section \<open>Sample requests\<close>

text \<open>Concrete requests and input lines on which the generators are run.\<close>

definition demo_mode2 :: mode2_request where
  "demo_mode2 =
     \<lparr> m2_base_path = ''/data/'', plt_prefix = ''DeMOS'', nodes_data = [(''4.5'', ''n1250'')],
       m2_csv_export_path = ''/csv/'', m2_csv_filename = ''out'', plot_title = ''T'',
       x_axis_title = ''X'', y_axis_title = ''Y'', y2_axis_title = ''Y2'',
       legend_x = ''0.1'', legend_y = ''0.9'', png_export_path = ''/tmp/p.png'' \<rparr>"

definition demo_mode3 :: mode3_request where
  "demo_mode3 =
     \<lparr> m3_tdr_codes = [''0001'', ''0002'', ''0003''], m3_base_path = ''/b/'',
       m3_file_prefix = ''n1278_I5_'', m3_current_value = ''5A'',
       m3_sets =
         [\<lparr> cutplane_axis = ''x'', cutplane_position = ''0.5'', cutline_axis = ''y'',
             cutline_positions = [''1'', ''2'', ''3''], parameters = [''eDensity''] \<rparr>,
          \<lparr> cutplane_axis = ''z'', cutplane_position = ''0.7'', cutline_axis = ''y'',
             cutline_positions = [''4'', ''5'', ''6''], parameters = [''hDensity''] \<rparr>],
       m3_y_axis_type = ''log'', m3_csv_export_path = ''/c/'', m3_csv_filename = ''out'' \<rparr>"

definition demo_mode3_shared :: mode3_request where
  \<comment> \<open>Two sets that ask for the same parameter.\<close>
  "demo_mode3_shared =
     \<lparr> m3_tdr_codes = [''0001'', ''0002'', ''0003''], m3_base_path = ''/b/'',
       m3_file_prefix = ''n1278_I5_'', m3_current_value = ''5A'',
       m3_sets =
         [\<lparr> cutplane_axis = ''x'', cutplane_position = ''0.5'', cutline_axis = ''y'',
             cutline_positions = [''1'', ''2'', ''3''], parameters = [''eDensity''] \<rparr>,
          \<lparr> cutplane_axis = ''z'', cutplane_position = ''0.7'', cutline_axis = ''y'',
             cutline_positions = [''4'', ''5'', ''6''], parameters = [''eDensity''] \<rparr>],
       m3_y_axis_type = ''log'', m3_csv_export_path = ''/c/'', m3_csv_filename = ''out'' \<rparr>"

definition demo_mode1 :: mode1_request where
  "demo_mode1 =
     \<lparr> node_names = [''n1257_I4.6''], m1_tdr_codes = [''0001'', ''0002''], need_last_tdr = ''yes'',
       m1_base_path = ''/b/'', m1_current_value = ''5A'',
       m1_sets =
         [\<lparr> cutplane_axis = ''x'', cutplane_position = ''0.5'', cutline_axis = ''y'',
             cutline_positions = [''10'', ''20''], parameters = [''eDensity''] \<rparr>],
       m1_y_axis_type = ''log'', m1_csv_export_path = ''/c/'', m1_csv_filename = ''out'' \<rparr>"

definition demo_mode1_grid :: mode1_request where
  "demo_mode1_grid =
     \<lparr> node_names = [''n1257_I4.6'', ''n1258_I4.6''], m1_tdr_codes = [''0001'', ''0002''],
       need_last_tdr = ''no'', m1_base_path = ''/b/'', m1_current_value = ''5A'',
       m1_sets =
         [\<lparr> cutplane_axis = ''x'', cutplane_position = ''0.5'', cutline_axis = ''y'',
             cutline_positions = [''10'', ''20''], parameters = [''eDensity''] \<rparr>],
       m1_y_axis_type = ''log'', m1_csv_export_path = ''/c/'', m1_csv_filename = ''out'' \<rparr>"

definition retry_lines :: "string list" where
  \<comment> \<open>Mode 3: one TDR code, a first set with the unknown parameter X, then a valid set.\<close>
  "retry_lines =
     [''1'', ''/b'', ''n1_'', ''5A'', ''1'',
      ''x'', ''0.5'', ''Y'', ''7'', '' eDensity ,X'',
      ''q'', ''z'', ''0.1'', ''y'', ''8'', ''hDensity'', ''no'',
      ''linear'', ''/c'', ''out'']"

definition retry_request :: mode3_request where
  "retry_request =
     \<lparr> m3_tdr_codes = [''0001''], m3_base_path = ''/b/'', m3_file_prefix = ''n1_'',
       m3_current_value = ''5A'',
       m3_sets =
         [\<lparr> cutplane_axis = ''z'', cutplane_position = ''0.1'', cutline_axis = ''y'',
             cutline_positions = [''8''], parameters = [''hDensity''] \<rparr>],
       m3_y_axis_type = ''linear'', m3_csv_export_path = ''/c/'', m3_csv_filename = ''out'' \<rparr>"

section \<open>Properties of the naming utility\<close>

lemma lists_sets_axis_order: "lists_sets axis_order"
  by (auto simp: lists_sets_def axis_order_def)

lemma py_split_not_Nil: "py_split sep s \<noteq> []"
  by (induction s) (auto split: list.splits)

lemma py_join_Cons: "xs \<noteq> [] \<Longrightarrow> py_join sep (x # xs) = x @ sep @ py_join sep xs"
  by (cases xs) auto

lemma py_join_split: "py_join [sep] (py_split sep s) = s"
proof (induction s)
  case Nil
  show ?case by simp
next
  case (Cons c cs)
  show ?case
  proof (cases "c = sep")
    case True
    with Cons show ?thesis by (simp add: py_join_Cons py_split_not_Nil)
  next
    case False
    obtain seg segs where sp: "py_split sep cs = seg # segs"
      using py_split_not_Nil [of sep cs] by (cases "py_split sep cs") auto
    with Cons have "py_join [sep] (seg # segs) = cs" by simp
    then have "py_join [sep] ((c # seg) # segs) = c # cs"
      by (cases segs) auto
    with False sp show ?thesis by simp
  qed
qed

lemma py_split_no_sep: "seg \<in> set (py_split sep s) \<Longrightarrow> sep \<notin> set seg"
  by (induction s arbitrary: seg) (auto split: if_splits list.splits)

lemma rev_dropWhile_takeWhile:
  "m = rev (dropWhile P (rev m)) @ rev (takeWhile P (rev m))"
proof -
  have "rev (rev m) = rev (takeWhile P (rev m) @ dropWhile P (rev m))"
    by (simp only: takeWhile_dropWhile_id)
  then show ?thesis by (simp only: rev_rev_ident rev_append)
qed

lemma py_strip_decomp:
  "\<exists>pre post. s = pre @ py_strip s @ post \<and> (\<forall>c\<in>set pre. is_space c) \<and> (\<forall>c\<in>set post. is_space c)"
proof -
  let ?a = "takeWhile is_space s"
  let ?m = "dropWhile is_space s"
  let ?b = "rev (takeWhile is_space (rev ?m))"
  have 1: "s = ?a @ ?m" by simp
  have 2: "?m = py_strip s @ ?b" unfolding py_strip_def by (rule rev_dropWhile_takeWhile)
  have 3: "\<forall>c\<in>set ?a. is_space c" by (auto dest: set_takeWhileD)
  have 4: "\<forall>c\<in>set ?b. is_space c" by (auto dest: set_takeWhileD)
  from 1 2 have "s = ?a @ py_strip s @ ?b" by simp
  with 3 4 show ?thesis by blast
qed

lemma py_strip_ends:
  assumes "py_strip s \<noteq> []"
  shows "\<not> is_space (hd (py_strip s))" and "\<not> is_space (last (py_strip s))"
proof -
  let ?m = "dropWhile is_space s"
  let ?r = "dropWhile is_space (rev ?m)"
  from assms have r: "?r \<noteq> []" by (simp add: py_strip_def)
  then have hr: "\<not> is_space (hd ?r)" by (rule hd_dropWhile)
  from r show "\<not> is_space (last (py_strip s))"
    using hr by (simp add: py_strip_def last_rev)
  from r have m: "?m \<noteq> []" by (metis dropWhile.simps(1) rev_is_Nil_conv)
  then have hm: "\<not> is_space (hd ?m)" by (rule hd_dropWhile)
  have "?m = rev ?r @ rev (takeWhile is_space (rev ?m))" by (rule rev_dropWhile_takeWhile)
  moreover from r have "rev ?r \<noteq> []" by simp
  ultimately have "hd ?m = hd (rev ?r)" by (metis hd_append2)
  with hm show "\<not> is_space (hd (py_strip s))" by (simp add: py_strip_def)
qed

lemma zfill_digits:
  assumes "\<forall>c\<in>set s. is_digit c"
  shows "zfill w s = replicate (w - length s) CHR ''0'' @ s"
proof (cases s)
  case Nil
  then show ?thesis by (simp add: zfill_def)
next
  case (Cons c cs)
  with assms have "is_digit c" by simp
  then have "c \<noteq> CHR ''+''" "c \<noteq> CHR ''-''" by (auto simp: is_digit_def)
  with Cons show ?thesis by (simp add: zfill_def)
qed

lemma is_digit_zero: "is_digit CHR ''0''"
  by (simp add: is_digit_def)

text \<open>
  Claim C7.  For every string of at most two decimal digits, \<^verbatim>\<open>format_tdr_code\<close> returns
  \<^verbatim>\<open>"00"\<close> followed by the input padded with zeros on the left to two digits: the result
  has exactly four characters, all of them digits, and starts with \<^verbatim>\<open>"00"\<close>;
  \<^verbatim>\<open>format_tdr_code("2") = "0002"\<close> and \<^verbatim>\<open>format_tdr_code("15") = "0015"\<close>.
\<close>

theorem format_tdr_code_two_digits:
  assumes "\<forall>c\<in>set s. is_digit c" and "length s \<le> 2"
  shows "format_tdr_code s = ''00'' @ replicate (2 - length s) CHR ''0'' @ s
       \<and> length (format_tdr_code s) = 4
       \<and> take 2 (format_tdr_code s) = ''00''
       \<and> (\<forall>c\<in>set (format_tdr_code s). is_digit c)
       \<and> format_tdr_code ''2'' = ''0002''
       \<and> format_tdr_code ''15'' = ''0015''"
proof (intro conjI)
  show eq: "format_tdr_code s = ''00'' @ replicate (2 - length s) CHR ''0'' @ s"
    using assms(1) by (simp add: format_tdr_code_def zfill_digits)
  show "length (format_tdr_code s) = 4"
    using assms(2) by (simp add: eq)
  show "take 2 (format_tdr_code s) = ''00''"
    by (simp add: eq)
  show "\<forall>c\<in>set (format_tdr_code s). is_digit c"
    unfolding eq using assms(1) is_digit_zero by auto
  show "format_tdr_code ''2'' = ''0002''"
    by (simp add: format_tdr_code_def zfill_def)
  show "format_tdr_code ''15'' = ''0015''"
    by (simp add: format_tdr_code_def zfill_def)
qed

theorem format_tdr_code_two_digits_witness:
  "is_digit CHR ''7'' \<and> length ''7'' \<le> 2
   \<and> format_tdr_code ''7'' = ''0007'' \<and> length (format_tdr_code ''7'') = 4"
proof -
  have 0: "is_digit CHR ''7''" by (simp add: is_digit_def)
  then have 1: "\<forall>c\<in>set ''7''. is_digit c" by simp
  have 2: "length ''7'' \<le> 2" by simp
  from format_tdr_code_two_digits [OF 1 2] 0 2 show ?thesis by simp
qed

lemma three_minus_two:
  assumes "x \<noteq> y" "y \<noteq> z" "x \<noteq> z" "u \<in> {x, y, z}" "v \<in> {x, y, z}" "u \<noteq> v"
  shows "\<exists>r. {x, y, z} - {u, v} = {r}"
proof -
  from assms consider "u = x \<and> v = y" | "u = x \<and> v = z" | "u = y \<and> v = x"
    | "u = y \<and> v = z" | "u = z \<and> v = x" | "u = z \<and> v = y" by auto
  then show ?thesis
  proof cases
    case 1 with assms have "{x, y, z} - {u, v} = {z}" by auto then show ?thesis ..
  next
    case 2 with assms have "{x, y, z} - {u, v} = {y}" by auto then show ?thesis ..
  next
    case 3 with assms have "{x, y, z} - {u, v} = {z}" by auto then show ?thesis ..
  next
    case 4 with assms have "{x, y, z} - {u, v} = {x}" by auto then show ?thesis ..
  next
    case 5 with assms have "{x, y, z} - {u, v} = {y}" by auto then show ?thesis ..
  next
    case 6 with assms have "{x, y, z} - {u, v} = {x}" by auto then show ?thesis ..
  qed
qed

lemma axis_letter_cases:
  assumes "py_lower s \<in> {''x'', ''y'', ''z''}"
  shows "s \<in> {''x'', ''y'', ''z'', ''X'', ''Y'', ''Z''}"
proof -
  from assms obtain c where s: "s = [c]" by (cases s) (auto simp: py_lower_def)
  with assms have "lower_char c \<in> {CHR ''x'', CHR ''y'', CHR ''z''}" by (auto simp: py_lower_def)
  then have "c \<in> {CHR ''x'', CHR ''y'', CHR ''z'', CHR ''X'', CHR ''Y'', CHR ''Z''}"
    by (auto simp: lower_char_def split: if_splits)
  with s show ?thesis by auto
qed

lemma axis_letter_upper:
  assumes "py_lower s \<in> {''x'', ''y'', ''z''}"
  shows "py_upper s \<in> {''X'', ''Y'', ''Z''}"
    and "py_upper s = map upper_char (py_lower s)"
  using axis_letter_cases [OF assms]
  by (auto simp: py_upper_def py_lower_def upper_char_def lower_char_def)

text \<open>
  Claim C8.  For axis letters \<open>a\<close> and \<open>b\<close> among x, y, z in either letter case that differ
  when compared without case, \<^verbatim>\<open>get_axis_mapping(a, b)\<close> is the one element of
  X, Y, Z that equals neither input in upper case, whatever order Python lists a set in.
\<close>

theorem get_axis_mapping_complement:
  assumes "lists_sets to_list"
    and "py_lower a \<in> {''x'', ''y'', ''z''}" and "py_lower b \<in> {''x'', ''y'', ''z''}"
    and "py_lower a \<noteq> py_lower b"
  shows "{''X'', ''Y'', ''Z''} - {py_upper a, py_upper b} = {get_axis_mapping to_list a b}"
proof -
  have ua: "py_upper a \<in> {''X'', ''Y'', ''Z''}" by (rule axis_letter_upper(1) [OF assms(2)])
  have ub: "py_upper b \<in> {''X'', ''Y'', ''Z''}" by (rule axis_letter_upper(1) [OF assms(3)])
  have ne: "py_upper a \<noteq> py_upper b"
  proof
    assume e: "py_upper a = py_upper b"
    from assms(2) assms(3) assms(4) have "map upper_char (py_lower a) \<noteq> map upper_char (py_lower b)"
      by (auto simp: upper_char_def)
    with e axis_letter_upper(2) [OF assms(2)] axis_letter_upper(2) [OF assms(3)]
    show False by simp
  qed
  have "\<exists>r. {''X'', ''Y'', ''Z''} - {py_upper a, py_upper b} = {r}"
    by (rule three_minus_two [OF _ _ _ ua ub ne]) simp_all
  then obtain r where r: "{''X'', ''Y'', ''Z''} - {py_upper a, py_upper b} = {r}" ..
  then have sub: "{''X'', ''Y'', ''Z''} - {py_upper a, py_upper b} \<subseteq> {''X'', ''Y'', ''Z''}"
    by blast
  from assms(1) sub have "set (to_list ({''X'', ''Y'', ''Z''} - {py_upper a, py_upper b})) = {r}"
    unfolding lists_sets_def r [symmetric] by blast
  then have "hd (to_list ({''X'', ''Y'', ''Z''} - {py_upper a, py_upper b})) = r"
    by (metis empty_iff empty_set hd_in_set insert_iff)
  then have "get_axis_mapping to_list a b = r"
    by (simp add: get_axis_mapping_def Let_def)
  with r show ?thesis by simp
qed

theorem get_axis_mapping_complement_witness:
  "py_lower ''x'' \<in> {''x'', ''y'', ''z''} \<and> py_lower ''Z'' \<in> {''x'', ''y'', ''z''}
   \<and> py_lower ''x'' \<noteq> py_lower ''Z''
   \<and> get_axis_mapping axis_order ''x'' ''Z'' = ''Y''"
proof -
  have 1: "lists_sets axis_order" by (rule lists_sets_axis_order)
  have 2: "py_lower ''x'' \<in> {''x'', ''y'', ''z''}" by (simp add: py_lower_def lower_char_def)
  have 3: "py_lower ''Z'' \<in> {''x'', ''y'', ''z''}" by (simp add: py_lower_def lower_char_def)
  have 4: "py_lower ''x'' \<noteq> py_lower ''Z''" by (simp add: py_lower_def lower_char_def)
  have "{''X'', ''Y'', ''Z''} - {py_upper ''x'', py_upper ''Z''} = {get_axis_mapping axis_order ''x'' ''Z''}"
    by (rule get_axis_mapping_complement [OF 1 2 3 4])
  moreover have "{''X'', ''Y'', ''Z''} - {py_upper ''x'', py_upper ''Z''} = {''Y''}"
    by (auto simp: py_upper_def upper_char_def)
  ultimately have 5: "get_axis_mapping axis_order ''x'' ''Z'' = ''Y''" by simp
  from 2 3 4 5 show ?thesis by (intro conjI)
qed

lemma strip_decomp:
  "\<exists>pre post. s = pre @ rev (dropWhile P (rev (dropWhile P s))) @ post
     \<and> (\<forall>c\<in>set pre. P c) \<and> (\<forall>c\<in>set post. P c)"
proof -
  let ?a = "takeWhile P s"
  let ?m = "dropWhile P s"
  let ?b = "rev (takeWhile P (rev ?m))"
  have 1: "s = ?a @ ?m" by simp
  have 2: "?m = rev (dropWhile P (rev ?m)) @ ?b" by (rule rev_dropWhile_takeWhile)
  have 3: "\<forall>c\<in>set ?a. P c" by (auto dest: set_takeWhileD)
  have 4: "\<forall>c\<in>set ?b. P c" by (auto dest: set_takeWhileD)
  from 1 2 have "s = ?a @ rev (dropWhile P (rev ?m)) @ ?b" by simp
  with 3 4 show ?thesis by blast
qed

lemma strip_ends:
  assumes "rev (dropWhile P (rev (dropWhile P s))) \<noteq> []"
  shows "\<not> P (hd (rev (dropWhile P (rev (dropWhile P s)))))"
    and "\<not> P (last (rev (dropWhile P (rev (dropWhile P s)))))"
proof -
  let ?m = "dropWhile P s"
  let ?r = "dropWhile P (rev ?m)"
  from assms have r: "?r \<noteq> []" by simp
  then have hr: "\<not> P (hd ?r)" by (rule hd_dropWhile)
  from r show "\<not> P (last (rev ?r))"
    using hr by (simp add: last_rev)
  from r have m: "?m \<noteq> []" by (metis dropWhile.simps(1) rev_is_Nil_conv)
  then have hm: "\<not> P (hd ?m)" by (rule hd_dropWhile)
  have "?m = rev ?r @ rev (takeWhile P (rev ?m))" by (rule rev_dropWhile_takeWhile)
  moreover from r have "rev ?r \<noteq> []" by simp
  ultimately have "hd ?m = hd (rev ?r)" by (metis hd_append2)
  with hm show "\<not> P (hd (rev ?r))" by simp
qed

lemma strip_codes_decomp:
  "\<exists>pre post. s = pre @ strip_codes s @ post
     \<and> (\<forall>c\<in>set pre. is_space_code c) \<and> (\<forall>c\<in>set post. is_space_code c)"
  unfolding strip_codes_def by (rule strip_decomp)

lemma strip_codes_ends:
  assumes "strip_codes s \<noteq> []"
  shows "\<not> is_space_code (hd (strip_codes s))" and "\<not> is_space_code (last (strip_codes s))"
  using assms unfolding strip_codes_def by (rule strip_ends)+

lemma inj_of_char_nat: "inj (of_char :: char \<Rightarrow> nat)"
  by (rule injI) (rule of_char_eqI)

lemma is_space_code_of_char: "is_space_code (of_char c) \<longleftrightarrow> is_space c"
proof -
  let ?low = "[CHR 0x09, CHR 0x0A, CHR 0x0B, CHR 0x0C, CHR 0x0D,
               CHR 0x1C, CHR 0x1D, CHR 0x1E, CHR 0x1F, CHR '' '', CHR 0x85, CHR 0xA0]"
  have big: "(of_char c :: nat) \<noteq> n" if "256 \<le> n" for n
    using nat_of_char_less_256 [of c] that by (metis not_less)
  have "is_space c \<longleftrightarrow> (of_char c :: nat) \<in> of_char ` set ?low"
    by (simp only: is_space_def inj_image_mem_iff [OF inj_of_char_nat])
  also have "(of_char ` set ?low :: nat set) = {0x09, 0x0A, 0x0B, 0x0C, 0x0D, 0x1C, 0x1D, 0x1E, 0x1F, 0x20, 0x85, 0xA0}"
    by simp
  also have "(of_char c :: nat) \<in> {0x09, 0x0A, 0x0B, 0x0C, 0x0D, 0x1C, 0x1D, 0x1E, 0x1F, 0x20, 0x85, 0xA0}
      \<longleftrightarrow> is_space_code (of_char c)"
    unfolding is_space_code_def white_space_codes_def by (simp add: big)
  finally show ?thesis by simp
qed

lemma dropWhile_of_char:
  "dropWhile is_space_code (map of_char s) = map of_char (dropWhile is_space s)"
  by (induction s) (simp_all add: is_space_code_of_char)

lemma strip_codes_of_char: "strip_codes (map of_char s) = map of_char (py_strip s)"
  by (simp only: strip_codes_def py_strip_def dropWhile_of_char rev_map)

lemma py_split_map:
  assumes "inj f"
  shows "py_split (f sep) (map f s) = map (map f) (py_split sep s)"
proof (induction s)
  case Nil
  show ?case by simp
next
  case (Cons c cs)
  from assms have eq: "f c = f sep \<longleftrightarrow> c = sep" by (auto dest: injD)
  obtain seg segs where sp: "py_split sep cs = seg # segs"
    using py_split_not_Nil [of sep cs] by (cases "py_split sep cs") auto
  with Cons show ?case by (simp add: eq)
qed

lemma comma_code: "(of_char CHR '','' :: nat) = 0x2C"
  by simp

lemma parse_parameters_codes_of_char:
  "parse_parameters_codes (map of_char raw) = map (map of_char) (parse_parameters raw)"
proof -
  have sp: "py_split (0x2C :: nat) (map of_char raw) = map (map of_char) (py_split CHR '','' raw)"
    using py_split_map [OF inj_of_char_nat, of "CHR '',''" raw] by (simp only: comma_code)
  show ?thesis
    unfolding parse_parameters_codes_def parse_parameters_def sp
    by (simp add: filter_map o_def strip_codes_of_char)
qed

text \<open>
  Claim C9.  \<^verbatim>\<open>parse_parameters\<close> splits its input at the commas, trims the white space
  around each segment and drops the segments that are then empty, keeping order and
  duplicates.  Splitting is characterised by: joining the segments with commas gives the
  input back and no segment holds a comma.  Trimming is characterised by: the segment is
  white space, then the trimmed text, then white space, and a non-empty trimmed text
  neither starts nor ends with white space.  White space is what \<^verbatim>\<open>str.isspace\<close> holds
  of: the code points of \<open>white_space_codes\<close>.  The same holds of the function on text of
  any code points, and the two agree on text below code point 256.
\<close>

theorem parse_parameters_split_trim_drop:
  "parse_parameters raw = filter (\<lambda>p. p \<noteq> []) (map py_strip (py_split CHR '','' raw))
   \<and> py_join '','' (py_split CHR '','' raw) = raw
   \<and> (\<forall>seg\<in>set (py_split CHR '','' raw). CHR '','' \<notin> set seg)
   \<and> (\<forall>seg. \<exists>pre post. seg = pre @ py_strip seg @ post
          \<and> (\<forall>c\<in>set pre. is_space c) \<and> (\<forall>c\<in>set post. is_space c))
   \<and> (\<forall>seg. py_strip seg \<noteq> [] \<longrightarrow>
          \<not> is_space (hd (py_strip seg)) \<and> \<not> is_space (last (py_strip seg)))
   \<and> (\<forall>c. is_space c \<longleftrightarrow> of_char c \<in> set white_space_codes)
   \<and> parse_parameters '' eDensity ,hDensity, ,X'' = [''eDensity'', ''hDensity'', ''X'']
   \<and> parse_parameters ''eDensity,eDensity'' = [''eDensity'', ''eDensity'']
   \<and> parse_parameters (CHR 0xA0 # ''eDensity ,'' @ [CHR 0x85]) = [''eDensity'']
   \<and> parse_parameters_codes codes =
        filter (\<lambda>p. p \<noteq> []) (map strip_codes (py_split 0x2C codes))
   \<and> py_join [0x2C] (py_split 0x2C codes) = codes
   \<and> (\<forall>seg\<in>set (py_split 0x2C codes). 0x2C \<notin> set seg)
   \<and> (\<forall>seg. \<exists>pre post. seg = pre @ strip_codes seg @ post
          \<and> (\<forall>n\<in>set pre. is_space_code n) \<and> (\<forall>n\<in>set post. is_space_code n))
   \<and> (\<forall>seg. strip_codes seg \<noteq> [] \<longrightarrow>
          \<not> is_space_code (hd (strip_codes seg)) \<and> \<not> is_space_code (last (strip_codes seg)))
   \<and> parse_parameters_codes (map of_char raw) = map (map of_char) (parse_parameters raw)
   \<and> parse_parameters_codes ([0x2003] @ map of_char ''eDensity'' @ [0x3000, 0x2C, 0x2028])
        = [map of_char ''eDensity'']"
proof (intro conjI)
  show "parse_parameters raw = filter (\<lambda>p. p \<noteq> []) (map py_strip (py_split CHR '','' raw))"
    by (simp add: parse_parameters_def filter_map comp_def)
  show "py_join '','' (py_split CHR '','' raw) = raw"
    by (rule py_join_split)
  show "\<forall>seg\<in>set (py_split CHR '','' raw). CHR '','' \<notin> set seg"
    by (blast dest: py_split_no_sep)
  show "\<forall>seg. \<exists>pre post. seg = pre @ py_strip seg @ post
          \<and> (\<forall>c\<in>set pre. is_space c) \<and> (\<forall>c\<in>set post. is_space c)"
    by (blast intro: py_strip_decomp)
  show "\<forall>seg. py_strip seg \<noteq> [] \<longrightarrow>
          \<not> is_space (hd (py_strip seg)) \<and> \<not> is_space (last (py_strip seg))"
    using py_strip_ends by blast
  show "\<forall>c. is_space c \<longleftrightarrow> of_char c \<in> set white_space_codes"
    using is_space_code_of_char by (simp add: is_space_code_def)
  show "parse_parameters '' eDensity ,hDensity, ,X'' = [''eDensity'', ''hDensity'', ''X'']"
    by (simp add: parse_parameters_def py_strip_def is_space_def)
  show "parse_parameters ''eDensity,eDensity'' = [''eDensity'', ''eDensity'']"
    by (simp add: parse_parameters_def py_strip_def is_space_def)
  show "parse_parameters (CHR 0xA0 # ''eDensity ,'' @ [CHR 0x85]) = [''eDensity'']"
    by (simp add: parse_parameters_def py_strip_def is_space_def)
  show "parse_parameters_codes codes =
        filter (\<lambda>p. p \<noteq> []) (map strip_codes (py_split 0x2C codes))"
    by (simp add: parse_parameters_codes_def filter_map comp_def)
  show "py_join [0x2C] (py_split 0x2C codes) = codes"
    by (rule py_join_split)
  show "\<forall>seg\<in>set (py_split 0x2C codes). 0x2C \<notin> set seg"
    by (blast dest: py_split_no_sep)
  show "\<forall>seg. \<exists>pre post. seg = pre @ strip_codes seg @ post
          \<and> (\<forall>n\<in>set pre. is_space_code n) \<and> (\<forall>n\<in>set post. is_space_code n)"
    by (blast intro: strip_codes_decomp)
  show "\<forall>seg. strip_codes seg \<noteq> [] \<longrightarrow>
          \<not> is_space_code (hd (strip_codes seg)) \<and> \<not> is_space_code (last (strip_codes seg))"
    using strip_codes_ends by blast
  show "parse_parameters_codes (map of_char raw) = map (map of_char) (parse_parameters raw)"
    by (rule parse_parameters_codes_of_char)
  show "parse_parameters_codes ([0x2003] @ map of_char ''eDensity'' @ [0x3000, 0x2C, 0x2028])
        = [map of_char ''eDensity'']"
    by (simp add: parse_parameters_codes_def strip_codes_def is_space_code_def white_space_codes_def)
qed

theorem parse_parameters_split_trim_drop_witness:
  "parse_parameters ''a , ,b'' = filter (\<lambda>p. p \<noteq> []) (map py_strip (py_split CHR '','' ''a , ,b''))
   \<and> parse_parameters ''a , ,b'' = [''a'', ''b'']
   \<and> py_join '','' (py_split CHR '','' ''a , ,b'') = ''a , ,b''
   \<and> parse_parameters_codes [0x61, 0x2003, 0x2C, 0x3000, 0x2C, 0x62] = [[0x61], [0x62]]"
  using parse_parameters_split_trim_drop [of "''a , ,b''" "[0x61, 0x2003, 0x2C, 0x3000, 0x2C, 0x62]"]
  by (simp add: py_strip_def is_space_def strip_codes_def is_space_code_def white_space_codes_def)

section \<open>Properties of Mode 2\<close>

lemma digit_val_digit_char: "d < 10 \<Longrightarrow> digit_val (digit_char d) = d"
proof -
  assume "d < 10"
  then have "d \<in> {0, 1, 2, 3, 4, 5, 6, 7, 8, 9}" by auto
  then show ?thesis by (auto simp: digit_val_def digit_char_def)
qed

lemma is_digit_digit_char: "d < 10 \<Longrightarrow> is_digit (digit_char d)"
proof -
  assume "d < 10"
  then have "d \<in> {0, 1, 2, 3, 4, 5, 6, 7, 8, 9}" by auto
  then show ?thesis by (auto simp: is_digit_def digit_char_def)
qed

lemma digits_to_nat_str_nat: "digits_to_nat (str_nat n) = n"
proof (induction n rule: str_nat.induct)
  case (1 n)
  show ?case
  proof (cases "n < 10")
    case True
    then show ?thesis
      by (subst str_nat.simps) (simp add: digits_to_nat_def digit_val_digit_char)
  next
    case False
    with 1 have "digits_to_nat (str_nat (n div 10)) = n div 10" by simp
    with False show ?thesis
      by (subst str_nat.simps) (simp add: digits_to_nat_def digit_val_digit_char)
  qed
qed

lemma str_nat_inj: "str_nat m = str_nat n \<Longrightarrow> m = n"
  by (metis digits_to_nat_str_nat)

lemma str_nat_digits: "c \<in> set (str_nat n) \<Longrightarrow> is_digit c"
proof (induction n rule: str_nat.induct)
  case (1 n)
  show ?case
  proof (cases "n < 10")
    case True
    with "1.prems" show ?thesis
      by (subst (asm) str_nat.simps) (simp add: is_digit_digit_char)
  next
    case False
    with "1.prems" have "c \<in> set (str_nat (n div 10)) \<or> c = digit_char (n mod 10)"
      by (subst (asm) str_nat.simps) auto
    with 1(1) False show ?thesis by (auto simp: is_digit_digit_char)
  qed
qed

lemma curve_ids_distinct: "distinct (map (\<lambda>i. ''Curve_'' @ str_nat i) [lo..<hi])"
  by (simp add: distinct_map inj_on_def str_nat_inj)

lemma commands_named_append:
  "commands_named w (xs @ ys) = commands_named w xs @ commands_named w ys"
  by (simp add: commands_named_def)

lemma commands_named_concat_map:
  "commands_named w (concat (map f xs)) = concat (map (\<lambda>x. commands_named w (f x)) xs)"
  by (induction xs) (simp_all add: commands_named_def)

lemma commands_named_Nil: "commands_named w [] = []"
  by (simp add: commands_named_def)

lemma commands_named_Cons:
  "commands_named w (l # ls) = (if first_word l = w then l # commands_named w ls else commands_named w ls)"
  by (simp add: commands_named_def)

lemma concat_map_Nil: "concat (map (\<lambda>x. []) xs) = []"
  by (induction xs) simp_all

lemma concat_map_single: "concat (map (\<lambda>x. [f x]) xs) = map f xs"
  by (induction xs) simp_all

lemma enumerate_map_fst:
  "map (\<lambda>(i, a, b). f i) (enumerate k xs) = map f [k..<k + length xs]"
proof (induction xs arbitrary: k)
  case Nil
  show ?case by simp
next
  case (Cons x xs)
  have "[k..<k + length (x # xs)] = k # [Suc k..<Suc k + length xs]"
    by (subst upt_rec) simp
  with Cons [of "Suc k"] show ?case by (simp add: case_prod_unfold)
qed

lemma enum_tmax:
  "map (\<lambda>(i, version, node_id). tmax_style s i) (enumerate 0 xs) = map (tmax_style s) [0..<length xs]"
  using enumerate_map_fst [of "tmax_style s" 0 xs] by simp

lemma enum_voltage:
  "map (\<lambda>(i, version, node_id). voltage_style i) (enumerate 0 xs) = map voltage_style [0..<length xs]"
  using enumerate_map_fst [of voltage_style 0 xs] by simp

lemmas cn_simps = commands_named_append commands_named_concat_map
  commands_named_Cons commands_named_Nil first_word_def console_header_def
  case_prod_unfold concat_map_Nil concat_map_single

lemma m2_create_curve:
  "commands_named ''create_curve'' (mode2_body r fp) =
     [''create_curve -axisX time -axisY {drain OuterVoltage} -dataset {''
        @ py_join '' '' (map (mode2_dataset (plt_prefix r)) (nodes_data r)) @ ''} -plot Plot_1'',
      ''create_curve -axisX time -axisY2 Tmax -dataset {''
        @ py_join '' '' (map (mode2_dataset (plt_prefix r)) (nodes_data r)) @ ''} -plot Plot_1'']"
  unfolding mode2_body_def Let_def enum_tmax enum_voltage
  by (simp add: cn_simps tmax_style_def voltage_style_def voltage_label_def)

lemma m2_set_curve_prop:
  \<open>commands_named ''set_curve_prop'' (mode2_body r fp) =
     concat (map (\<lambda>i.
        [''set_curve_prop {Curve_'' @ str_nat (length (nodes_data r) + 1 + i) @ ''} -plot Plot_1 -line_style dash'',
         ''set_curve_prop {Curve_'' @ str_nat (length (nodes_data r) + 1 + i) @ ''} -plot Plot_1 -line_width 2'',
         ''set_curve_prop {Curve_'' @ str_nat (length (nodes_data r) + 1 + i) @ ''} -plot Plot_1 -color ''
            @ [''#ff0000'', ''#00ff00'', ''#0000ff'', ''#ff8000'', ''#800080'', ''#008080''] ! (i mod 6),
         ''set_curve_prop {Curve_'' @ str_nat (length (nodes_data r) + 1 + i) @ ''} -plot Plot_1 -hide_legend''])
        [0..<length (nodes_data r)])
     @ map (\<lambda>i. ''set_curve_prop {Curve_'' @ str_nat (i + 1) @ ''} -plot Plot_1 -line_width 2'')
        [0..<length (nodes_data r)]
     @ map (\<lambda>(i, version, node_id).
          ''set_curve_prop {Curve_'' @ str_nat (i + 1) @ ''} -plot Plot_1 -label "drain OuterVoltage_''
            @ version @ ''"'')
        (enumerate 0 (nodes_data r))\<close>
  unfolding mode2_body_def Let_def enum_tmax enum_voltage
  by (simp add: cn_simps tmax_style_def voltage_style_def voltage_label_def colors_def)

lemma m2_export:
  "commands_named ''export_curves'' (mode2_body r fp) =
     [''export_curves {'' @ py_join '' '' (map (\<lambda>i. ''Curve_'' @ str_nat i) [1..<2 * length (nodes_data r) + 1])
        @ ''} -plot Plot_1 -filename '' @ m2_csv_export_path r @ m2_csv_filename r @ ''.csv'' @ '' -format csv'']"
  unfolding mode2_body_def Let_def enum_tmax enum_voltage
  by (simp add: cn_simps tmax_style_def voltage_style_def voltage_label_def curve_names_def mult.commute)

lemma length_concat_pairs':
  "length (concat (map (\<lambda>x. [f x, g x]) xs)) = 2 * length xs"
  by (induction xs) auto

lemma take4_drop:
  "length (a @ b @ c) = k \<Longrightarrow> take 4 (drop k (a @ b @ c @ [x, y] @ [z, w] @ rest)) = [x, y, z, w]"
  by simp

lemma m2_curve_echo:
  assumes "nodes_data r \<noteq> []"
  shows "take 4 (drop (2 * length (nodes_data r) + 10) (mode2_body r fp)) =
     [''create_curve -axisX time -axisY {drain OuterVoltage} -dataset {''
        @ py_join '' '' (map (mode2_dataset (plt_prefix r)) (nodes_data r)) @ ''} -plot Plot_1'',
      ''# '' @ curve_names 1 (length (nodes_data r) + 1),
      ''create_curve -axisX time -axisY2 Tmax -dataset {''
        @ py_join '' '' (map (mode2_dataset (plt_prefix r)) (nodes_data r)) @ ''} -plot Plot_1'',
      ''# '' @ curve_names (length (nodes_data r) + 1) (length (nodes_data r) * 2 + 1)]"
proof -
  obtain v nd where fp: "fp = (v, nd)" by (cases fp)
  from assms have n: "2 * length (nodes_data r) + 10 = 4 + 8 + 2 * (length (nodes_data r) - 1)"
    by (cases "nodes_data r") auto
  show ?thesis
    unfolding mode2_body_def Let_def fp prod.case
    by (rule take4_drop) (simp add: n console_header_def case_prod_unfold length_concat_pairs')
qed


lemma mode2_commands_Cons:
  "nodes_data r = fp # rest \<Longrightarrow> mode2_commands r = Return (mode2_body r fp)"
  by (simp add: mode2_commands_def)

text \<open>
  Claim C4, amended.  For a Mode 2 request with \<open>N \<ge> 1\<close> pairs the generator returns a list
  in which: the two \<^verbatim>\<open>create_curve\<close> commands are echoed by the identifiers
  \<^verbatim>\<open>Curve_1 .. Curve_N\<close> (Y axis) and \<^verbatim>\<open>Curve_{N+1} .. Curve_{2N}\<close> (Y2 axis); the
  \<^verbatim>\<open>set_curve_prop\<close> commands are, in order, dash, width 2, palette colour \<open>i mod 6\<close> and
  hidden legend for each Y2 curve \<open>N+1+i\<close>, then width 2 alone for each Y curve, then the
  label of each Y curve; the one \<^verbatim>\<open>export_curves\<close> command names \<^verbatim>\<open>Curve_1 .. Curve_{2N}\<close>,
  which are \<open>2N\<close> different identifiers.
\<close>

theorem mode2_curves:
  assumes "nodes_data r \<noteq> []"
  shows \<open>\<exists>out. mode2_commands r = Return out
     \<and> take 4 (drop (2 * length (nodes_data r) + 10) out) =
         [''create_curve -axisX time -axisY {drain OuterVoltage} -dataset {''
            @ py_join '' '' (map (mode2_dataset (plt_prefix r)) (nodes_data r)) @ ''} -plot Plot_1'',
          ''# '' @ py_join '' '' (map (\<lambda>i. ''Curve_'' @ str_nat i) [1..<length (nodes_data r) + 1]),
          ''create_curve -axisX time -axisY2 Tmax -dataset {''
            @ py_join '' '' (map (mode2_dataset (plt_prefix r)) (nodes_data r)) @ ''} -plot Plot_1'',
          ''# '' @ py_join '' '' (map (\<lambda>i. ''Curve_'' @ str_nat i)
                    [length (nodes_data r) + 1..<2 * length (nodes_data r) + 1])]
     \<and> commands_named ''create_curve'' out =
         [''create_curve -axisX time -axisY {drain OuterVoltage} -dataset {''
            @ py_join '' '' (map (mode2_dataset (plt_prefix r)) (nodes_data r)) @ ''} -plot Plot_1'',
          ''create_curve -axisX time -axisY2 Tmax -dataset {''
            @ py_join '' '' (map (mode2_dataset (plt_prefix r)) (nodes_data r)) @ ''} -plot Plot_1'']
     \<and> commands_named ''set_curve_prop'' out =
         concat (map (\<lambda>i.
            [''set_curve_prop {Curve_'' @ str_nat (length (nodes_data r) + 1 + i) @ ''} -plot Plot_1 -line_style dash'',
             ''set_curve_prop {Curve_'' @ str_nat (length (nodes_data r) + 1 + i) @ ''} -plot Plot_1 -line_width 2'',
             ''set_curve_prop {Curve_'' @ str_nat (length (nodes_data r) + 1 + i) @ ''} -plot Plot_1 -color ''
                @ [''#ff0000'', ''#00ff00'', ''#0000ff'', ''#ff8000'', ''#800080'', ''#008080''] ! (i mod 6),
             ''set_curve_prop {Curve_'' @ str_nat (length (nodes_data r) + 1 + i) @ ''} -plot Plot_1 -hide_legend''])
            [0..<length (nodes_data r)])
         @ map (\<lambda>i. ''set_curve_prop {Curve_'' @ str_nat (i + 1) @ ''} -plot Plot_1 -line_width 2'')
            [0..<length (nodes_data r)]
         @ map (\<lambda>(i, version, node_id).
              ''set_curve_prop {Curve_'' @ str_nat (i + 1) @ ''} -plot Plot_1 -label "drain OuterVoltage_''
                @ version @ ''"'')
            (enumerate 0 (nodes_data r))
     \<and> commands_named ''export_curves'' out =
         [''export_curves {''
            @ py_join '' '' (map (\<lambda>i. ''Curve_'' @ str_nat i) [1..<2 * length (nodes_data r) + 1])
            @ ''} -plot Plot_1 -filename '' @ m2_csv_export_path r @ m2_csv_filename r @ ''.csv''
            @ '' -format csv'']
     \<and> distinct (map (\<lambda>i. ''Curve_'' @ str_nat i) [1..<2 * length (nodes_data r) + 1])
     \<and> length (map (\<lambda>i. ''Curve_'' @ str_nat i) [1..<2 * length (nodes_data r) + 1])
         = 2 * length (nodes_data r)\<close>
proof -
  from assms obtain fp rest where nd: "nodes_data r = fp # rest"
    by (cases "nodes_data r") auto
  have ret: "mode2_commands r = Return (mode2_body r fp)"
    using nd by (rule mode2_commands_Cons)
  have echo: "take 4 (drop (2 * length (nodes_data r) + 10) (mode2_body r fp)) =
         [''create_curve -axisX time -axisY {drain OuterVoltage} -dataset {''
            @ py_join '' '' (map (mode2_dataset (plt_prefix r)) (nodes_data r)) @ ''} -plot Plot_1'',
          ''# '' @ py_join '' '' (map (\<lambda>i. ''Curve_'' @ str_nat i) [1..<length (nodes_data r) + 1]),
          ''create_curve -axisX time -axisY2 Tmax -dataset {''
            @ py_join '' '' (map (mode2_dataset (plt_prefix r)) (nodes_data r)) @ ''} -plot Plot_1'',
          ''# '' @ py_join '' '' (map (\<lambda>i. ''Curve_'' @ str_nat i)
                    [length (nodes_data r) + 1..<2 * length (nodes_data r) + 1])]"
    using m2_curve_echo [OF assms, of fp] by (simp add: curve_names_def mult.commute)
  show ?thesis
    apply (rule exI [where x = "mode2_body r fp"])
    apply (intro conjI)
          apply (rule ret)
         apply (rule echo)
        apply (rule m2_create_curve)
       apply (rule m2_set_curve_prop)
      apply (rule m2_export)
     apply (rule curve_ids_distinct)
    apply (simp only: length_map length_upt add_diff_cancel_right')
    done
qed

lemma str_nat_1: "str_nat 1 = ''1''"
  by (subst str_nat.simps) (simp add: digit_char_def)

lemma str_nat_Suc_0: "str_nat (Suc 0) = ''1''"
  using str_nat_1 by simp

lemma str_nat_2: "str_nat 2 = ''2''"
  by (subst str_nat.simps) (simp add: digit_char_def)

theorem mode2_curves_witness:
  "nodes_data demo_mode2 \<noteq> []
   \<and> mode2_commands demo_mode2 = Return (mode2_body demo_mode2 (''4.5'', ''n1250''))
   \<and> commands_named ''export_curves'' (mode2_body demo_mode2 (''4.5'', ''n1250'')) =
       [''export_curves {Curve_1 Curve_2} -plot Plot_1 -filename /csv/out.csv -format csv'']"
proof -
  have ne: "nodes_data demo_mode2 \<noteq> []" by (simp add: demo_mode2_def)
  have ret: "mode2_commands demo_mode2 = Return (mode2_body demo_mode2 (''4.5'', ''n1250''))"
    by (simp add: mode2_commands_def demo_mode2_def)
  from mode2_curves [OF ne] obtain out where
    o: "mode2_commands demo_mode2 = Return out"
    and e: "commands_named ''export_curves'' out =
         [''export_curves {''
            @ py_join '' '' (map (\<lambda>i. ''Curve_'' @ str_nat i) [1..<2 * length (nodes_data demo_mode2) + 1])
            @ ''} -plot Plot_1 -filename '' @ m2_csv_export_path demo_mode2 @ m2_csv_filename demo_mode2 @ ''.csv''
            @ '' -format csv'']"
    by blast
  from o ret have out: "out = mode2_body demo_mode2 (''4.5'', ''n1250'')" by simp
  have "[1..<2 * length (nodes_data demo_mode2) + 1] = [1, 2]"
    by (simp add: demo_mode2_def upt_rec)
  with e have "commands_named ''export_curves'' out =
       [''export_curves {Curve_1 Curve_2} -plot Plot_1 -filename /csv/out.csv -format csv'']"
    by (simp add: str_nat_Suc_0 str_nat_2 demo_mode2_def)
  with ne ret out show ?thesis by simp
qed

theorem mode2_curves_counterexample:
  "mode2_commands (demo_mode2 \<lparr> nodes_data := [] \<rparr>) = Raise IndexError"
  by (simp add: mode2_commands_def)

text \<open>
  Claim C10.  When the number of nodes typed for Mode 2 is zero (or negative), the list of
  pairs is empty, \<^verbatim>\<open>nodes_data[0]\<close> raises \<^verbatim>\<open>IndexError\<close>, and since the handler turns only
  \<^verbatim>\<open>ValueError\<close> and \<^verbatim>\<open>KeyboardInterrupt\<close> into the empty list, the generator does not
  return: the \<^verbatim>\<open>IndexError\<close> leaves it.
\<close>

theorem mode2_zero_nodes:
  assumes "py_int count = Next k" and "k \<le> 0"
  shows "generate_mode2_commands
           (base # pfx # count # csv_path # csv_name # title # xt # yt # y2t # lx # ly # png # extra)
         = Inl IndexError
       \<and> handler (mode2_commands (r \<lparr> nodes_data := [] \<rparr>)) = Inl IndexError
       \<and> handler (Raise e) = (if e = ValueError \<or> e = KeyboardInterrupt then Inr [] else Inl e)"
proof (intro conjI)
  from assms(2) have k: "nat k = 0" by simp
  show "generate_mode2_commands
           (base # pfx # count # csv_path # csv_name # title # xt # yt # y2t # lx # ly # png # extra)
         = Inl IndexError"
    by (simp add: generate_mode2_commands_def read_mode2_def input_line_def bind_flow_def
        assms(1) k mode2_commands_def handler_def)
  show "handler (mode2_commands (r \<lparr> nodes_data := [] \<rparr>)) = Inl IndexError"
    by (simp add: mode2_commands_def handler_def)
  show "handler (Raise e) = (if e = ValueError \<or> e = KeyboardInterrupt then Inr [] else Inl e)"
    by (simp add: handler_def)
qed

lemma py_int_zero: "py_int ''0'' = Next 0"
  by (simp add: py_int_def is_int_space_def is_digit_def digit_val_def)

theorem mode2_zero_nodes_witness:
  "py_int ''0'' = Next 0 \<and> (0::int) \<le> 0
   \<and> generate_mode2_commands
       [''/data'', ''DeMOS'', ''0'', ''/csv'', ''out'', ''T'', ''X'', ''Y'', ''Y2'', ''0.1'', ''0.9'', ''/tmp/p.png'']
     = Inl IndexError"
  using mode2_zero_nodes [OF py_int_zero, of "''/data''" "''DeMOS''" "''/csv''" "''out''" "''T''"
      "''X''" "''Y''" "''Y2''" "''0.1''" "''0.9''" "''/tmp/p.png''" "[]"] py_int_zero
  by simp

section \<open>Properties of Mode 3\<close>

lemma m3_cutlines_ok:
  assumes "\<forall>e\<in>set es. fst e < length (cutline_positions cutset)"
  shows "m3_cutlines r c cutset p es =
     Next (concat (map (\<lambda>(i, code). m3_cutline r c cutset p code (cutline_positions cutset ! i)) es))"
  using assms
proof (induction es)
  case Nil
  show ?case by simp
next
  case (Cons e es)
  obtain i code where e: "e = (i, code)" by (cases e)
  from Cons.prems e have i: "i < length (cutline_positions cutset)" by simp
  from Cons have "m3_cutlines r c cutset p es =
     Next (concat (map (\<lambda>(i, code). m3_cutline r c cutset p code (cutline_positions cutset ! i)) es))"
    by simp
  with i e show ?case by (simp add: bind_flow_def)
qed

lemma m3_cutlines_short:
  assumes "\<exists>e\<in>set es. \<not> fst e < length (cutline_positions cutset)"
  shows "m3_cutlines r c cutset p es = Raise IndexError"
  using assms
proof (induction es)
  case Nil
  then show ?case by simp
next
  case (Cons e es)
  obtain i code where e: "e = (i, code)" by (cases e)
  show ?case
  proof (cases "i < length (cutline_positions cutset)")
    case False
    with e show ?thesis by simp
  next
    case True
    with Cons.prems e have "\<exists>e\<in>set es. \<not> fst e < length (cutline_positions cutset)" by auto
    with Cons.IH have "m3_cutlines r c cutset p es = Raise IndexError" by simp
    with True e show ?thesis by (simp add: bind_flow_def)
  qed
qed

lemma enumerate_fst_bound: "e \<in> set (enumerate 0 xs) \<Longrightarrow> fst e < length xs"
  by (auto simp: in_set_enumerate_eq)

lemma m3_block_ok:
  assumes "m3_tdr_codes r \<noteq> []"
    and "length (m3_tdr_codes r) \<le> length (cutline_positions cutset)"
  shows "m3_block to_list r (Suc k) set_idx cutset param_idx parameter
         = Next (m3_lines to_list r (k, set_idx, cutset, param_idx, parameter))"
proof -
  from assms(1) obtain code0 others where c: "m3_tdr_codes r = code0 # others"
    by (cases "m3_tdr_codes r") auto
  have "\<forall>e\<in>set (enumerate 0 (m3_tdr_codes r)). fst e < length (cutline_positions cutset)"
    using assms(2) by (auto dest: enumerate_fst_bound)
  then have "m3_cutlines r (Suc k) cutset parameter (enumerate 0 (m3_tdr_codes r)) =
     Next (concat (map (\<lambda>(i, code). m3_cutline r (Suc k) cutset parameter code (cutline_positions cutset ! i))
                       (enumerate 0 (m3_tdr_codes r))))"
    by (rule m3_cutlines_ok)
  then show ?thesis
    by (simp add: m3_block_def m3_lines_def c bind_flow_def del: enumerate_simps)
qed

lemma blocks_from_append:
  "blocks_from to_list r c (ps @ qs) = blocks_from to_list r c ps @ blocks_from to_list r (c + length ps) qs"
  by (simp add: blocks_from_def enumerate_append_eq)

lemma m3_parameters_ok:
  assumes "m3_tdr_codes r \<noteq> []"
    and "length (m3_tdr_codes r) \<le> length (cutline_positions cutset)"
  shows "m3_parameters to_list r set_idx cutset es (c, cmds) =
     Next (c + length es,
           cmds @ blocks_from to_list r c (map (\<lambda>(param_idx, parameter). (set_idx, cutset, param_idx, parameter)) es))"
proof (induction es arbitrary: c cmds)
  case Nil
  show ?case by (simp add: blocks_from_def)
next
  case (Cons e es)
  obtain param_idx parameter where e: "e = (param_idx, parameter)" by (cases e)
  show ?case
    unfolding e
    by (simp add: m3_block_ok [OF assms] bind_flow_def Cons.IH blocks_from_def)
qed

lemma m3_sets_loop_ok:
  assumes "m3_tdr_codes r \<noteq> []"
    and "\<forall>s\<in>set ses. length (m3_tdr_codes r) \<le> length (cutline_positions (snd s))"
  shows "m3_sets_loop to_list r ses (c, cmds) =
     Next (c + length (pairs_of ses), cmds @ blocks_from to_list r c (pairs_of ses))"
  using assms(2)
proof (induction ses arbitrary: c cmds)
  case Nil
  show ?case by (simp add: blocks_from_def pairs_of_def)
next
  case (Cons s ses)
  obtain set_idx cutset where s: "s = (set_idx, cutset)" by (cases s)
  from Cons.prems s have len: "length (m3_tdr_codes r) \<le> length (cutline_positions cutset)" by simp
  from Cons.prems have rest: "\<forall>s\<in>set ses. length (m3_tdr_codes r) \<le> length (cutline_positions (snd s))"
    by simp
  have split: "pairs_of ((set_idx, cutset) # ses) =
      map (\<lambda>(param_idx, parameter). (set_idx, cutset, param_idx, parameter)) (enumerate 0 (parameters cutset))
      @ pairs_of ses"
    by (simp add: pairs_of_def)
  show ?case
    unfolding s
    by (simp add: split m3_parameters_ok [OF assms(1) len] bind_flow_def Cons.IH [OF rest]
        blocks_from_append add.assoc)
qed

lemma mode3_commands_ok:
  assumes "m3_tdr_codes r \<noteq> []"
    and "\<forall>cs\<in>set (m3_sets r). length (m3_tdr_codes r) \<le> length (cutline_positions cs)"
  shows "mode3_commands to_list r = Return (concat (map (m3_lines to_list r) (enumerate 0 (m3_pairs r))))"
proof -
  have "\<forall>s\<in>set (enumerate 1 (m3_sets r)). length (m3_tdr_codes r) \<le> length (cutline_positions (snd s))"
    using assms(2) by (auto simp: in_set_enumerate_eq)
  from m3_sets_loop_ok [OF assms(1) this, of to_list 0 "[]"]
  show ?thesis
    by (simp add: mode3_commands_def bind_flow_def m3_pairs_def blocks_from_def)
qed

lemma m3_block_short:
  assumes "length (cutline_positions cutset) < length (m3_tdr_codes r)"
  shows "m3_block to_list r c set_idx cutset param_idx parameter = Raise IndexError"
proof -
  let ?n = "length (cutline_positions cutset)"
  from assms obtain code0 others where c: "m3_tdr_codes r = code0 # others"
    by (cases "m3_tdr_codes r") auto
  have "(?n, m3_tdr_codes r ! ?n) \<in> set (enumerate 0 (m3_tdr_codes r))"
    using assms by (simp add: in_set_enumerate_eq)
  then have "\<exists>e\<in>set (enumerate 0 (m3_tdr_codes r)). \<not> fst e < ?n"
    by force
  then have "m3_cutlines r c cutset parameter (enumerate 0 (m3_tdr_codes r)) = Raise IndexError"
    by (rule m3_cutlines_short)
  then show ?thesis
    by (simp add: m3_block_def c bind_flow_def del: enumerate_simps)
qed

lemma m3_cutlines_cases:
  "m3_cutlines r c cutset p es = Raise IndexError \<or> (\<exists>ls. m3_cutlines r c cutset p es = Next ls)"
proof (induction es)
  case Nil
  show ?case by simp
next
  case (Cons e es)
  obtain i code where e: "e = (i, code)" by (cases e)
  from Cons show ?case unfolding e by (auto simp: bind_flow_def)
qed

lemma m3_block_cases:
  "m3_block to_list r c set_idx cutset param_idx parameter = Raise IndexError
   \<or> (\<exists>b. m3_block to_list r c set_idx cutset param_idx parameter = Next b)"
  using m3_cutlines_cases [of r c cutset parameter "enumerate 0 (m3_tdr_codes r)"]
  by (cases "m3_tdr_codes r") (auto simp: m3_block_def bind_flow_def simp del: enumerate_simps)

lemma m3_parameters_cases:
  "m3_parameters to_list r set_idx cutset es st = Raise IndexError
   \<or> (\<exists>st'. m3_parameters to_list r set_idx cutset es st = Next st')"
proof (induction es arbitrary: st)
  case Nil
  show ?case by (cases st) simp
next
  case (Cons e es)
  obtain param_idx parameter where e: "e = (param_idx, parameter)" by (cases e)
  obtain c cmds where st: "st = (c, cmds)" by (cases st)
  from m3_block_cases [of to_list r "c + 1" set_idx cutset param_idx parameter]
  show ?case
  proof
    assume "m3_block to_list r (c + 1) set_idx cutset param_idx parameter = Raise IndexError"
    then show ?thesis unfolding e st by (simp add: bind_flow_def)
  next
    assume "\<exists>b. m3_block to_list r (c + 1) set_idx cutset param_idx parameter = Next b"
    then obtain b where "m3_block to_list r (c + 1) set_idx cutset param_idx parameter = Next b" ..
    with Cons [of "(c + 1, cmds @ b)"] show ?thesis unfolding e st by (simp add: bind_flow_def)
  qed
qed

lemma m3_parameters_short:
  assumes "length (cutline_positions cutset) < length (m3_tdr_codes r)" and "es \<noteq> []"
  shows "m3_parameters to_list r set_idx cutset es st = Raise IndexError"
proof -
  from assms(2) obtain param_idx parameter rest where es: "es = (param_idx, parameter) # rest"
    by (cases es) auto
  obtain c cmds where st: "st = (c, cmds)" by (cases st)
  show ?thesis
    unfolding es st by (simp add: m3_block_short [OF assms(1)] bind_flow_def)
qed

lemma m3_sets_loop_short:
  assumes "\<exists>s\<in>set ses. parameters (snd s) \<noteq> []
             \<and> length (cutline_positions (snd s)) < length (m3_tdr_codes r)"
  shows "m3_sets_loop to_list r ses st = Raise IndexError"
  using assms
proof (induction ses arbitrary: st)
  case Nil
  then show ?case by simp
next
  case (Cons s ses)
  obtain set_idx cutset where s: "s = (set_idx, cutset)" by (cases s)
  let ?m = "m3_parameters to_list r set_idx cutset (enumerate 0 (parameters cutset)) st"
  from m3_parameters_cases [of to_list r set_idx cutset "enumerate 0 (parameters cutset)" st]
  show ?case
  proof
    assume "?m = Raise IndexError"
    then show ?thesis unfolding s by (simp add: bind_flow_def)
  next
    assume "\<exists>st'. ?m = Next st'"
    then obtain st' where n: "?m = Next st'" ..
    have "\<not> (parameters cutset \<noteq> [] \<and> length (cutline_positions cutset) < length (m3_tdr_codes r))"
    proof
      assume h: "parameters cutset \<noteq> [] \<and> length (cutline_positions cutset) < length (m3_tdr_codes r)"
      then have "enumerate 0 (parameters cutset) \<noteq> []" by (cases "parameters cutset") auto
      with h have "?m = Raise IndexError" by (intro m3_parameters_short) auto
      with n show False by simp
    qed
    with Cons.prems s have "\<exists>s\<in>set ses. parameters (snd s) \<noteq> []
             \<and> length (cutline_positions (snd s)) < length (m3_tdr_codes r)" by auto
    then have "m3_sets_loop to_list r ses st' = Raise IndexError" by (rule Cons.IH)
    with n show ?thesis unfolding s by (simp add: bind_flow_def)
  qed
qed

lemma mode3_commands_short:
  assumes "\<exists>cs\<in>set (m3_sets r). parameters cs \<noteq> []
             \<and> length (cutline_positions cs) < length (m3_tdr_codes r)"
  shows "mode3_commands to_list r = Raise IndexError"
proof -
  from assms obtain cs where cs: "cs \<in> set (m3_sets r)" "parameters cs \<noteq> []"
      "length (cutline_positions cs) < length (m3_tdr_codes r)" by blast
  from cs(1) obtain i where "i < length (m3_sets r)" "m3_sets r ! i = cs"
    by (auto simp: in_set_conv_nth)
  then have "(i + 1, cs) \<in> set (enumerate 1 (m3_sets r))"
    by (simp add: in_set_enumerate_eq)
  with cs have "\<exists>s\<in>set (enumerate 1 (m3_sets r)). parameters (snd s) \<noteq> []
             \<and> length (cutline_positions (snd s)) < length (m3_tdr_codes r)"
    by force
  then have "m3_sets_loop to_list r (enumerate 1 (m3_sets r)) (0, []) = Raise IndexError"
    by (rule m3_sets_loop_short)
  then show ?thesis by (simp add: mode3_commands_def bind_flow_def)
qed

lemma counter_ids_differ:
  assumes "j \<noteq> k"
  shows "''C'' @ str_nat j @ ''('' @ x \<noteq> ''C'' @ str_nat k @ ''('' @ y"
proof
  assume "''C'' @ str_nat j @ ''('' @ x = ''C'' @ str_nat k @ ''('' @ y"
  then have eq: "str_nat j @ CHR ''('' # x = str_nat k @ CHR ''('' # y" by simp
  have nd: "\<not> is_digit CHR ''(''" by (simp add: is_digit_def)
  have tw: "\<And>n z. takeWhile is_digit (str_nat n @ CHR ''('' # z) = str_nat n"
    using nd by (simp add: takeWhile_append2 str_nat_digits)
  from eq have "takeWhile is_digit (str_nat j @ CHR ''('' # x) = takeWhile is_digit (str_nat k @ CHR ''('' # y)"
    by simp
  then have "str_nat j = str_nat k" by (simp only: tw)
  with assms show False by (auto dest: str_nat_inj)
qed

lemmas m3_defs = m3_lines_def m3_block_lines_def m3_header_def m3_load_def m3_link_def m3_field_def
  m3_cutplane_def m3_cutplane_plot_def m3_cutline_def m3_plot1d_def m3_curve_def m3_export_def Let_def

lemma m3_lines_create_plot:
  "commands_named ''create_plot'' (m3_lines to_list r (k, set_idx, cutset, param_idx, parameter)) =
     map (\<lambda>code. ''create_plot -dataset '' @ m3_dset r parameter code) (m3_tdr_codes r)
     @ map (\<lambda>code. ''create_plot -dataset C'' @ str_nat (k + 1) @ ''('' @ m3_dset r parameter code
                     @ '') -ref_plot Plot_'' @ m3_dset r parameter code) (m3_tdr_codes r)
     @ [''create_plot -dataset C1(C'' @ str_nat (k + 1) @ ''('' @ m3_dset r parameter (hd (m3_tdr_codes r))
          @ '')) -1d'']"
  by (simp add: m3_defs cn_simps)

lemma m3_lines_export_curves:
  "commands_named ''export_curves'' (m3_lines to_list r (k, set_idx, cutset, param_idx, parameter)) =
     [''export_curves {''
        @ py_join '' '' (map (\<lambda>i. ''Curve_'' @ str_nat (i + 1)) [0..<length (m3_tdr_codes r)])
        @ ''} -plot Plot_C1(C'' @ str_nat (k + 1) @ ''('' @ m3_dset r parameter (hd (m3_tdr_codes r))
        @ '')) -filename '' @ m3_csv_export_path r @ m3_csv_filename r @ ''_set'' @ str_nat set_idx
        @ ''_param'' @ str_nat (param_idx + 1) @ ''_'' @ parameter @ ''.csv'' @ '' -format csv'']"
  by (simp add: m3_defs cn_simps)

lemma m3_lines_create_cutline:
  "commands_named ''create_cutline'' (m3_lines to_list r (k, set_idx, cutset, param_idx, parameter)) =
     map (\<lambda>(i, code). ''create_cutline -plot Plot_C'' @ str_nat (k + 1) @ ''('' @ m3_dset r parameter code
                        @ '') -type '' @ cutline_axis cutset @ '' -at '' @ cutline_positions cutset ! i)
         (enumerate 0 (m3_tdr_codes r))"
  by (simp add: m3_defs cn_simps)

lemma commands_named_blocks:
  assumes "\<And>x. commands_named w (f x) = g x"
  shows "commands_named w (concat (map f xs)) = concat (map g xs)"
  by (simp add: commands_named_concat_map assms)

lemma m3_out_create_plot:
  "commands_named ''create_plot'' (concat (map (m3_lines to_list r) ps)) =
     concat (map (\<lambda>(k, set_idx, cutset, param_idx, parameter).
        map (\<lambda>code. ''create_plot -dataset '' @ m3_dset r parameter code) (m3_tdr_codes r)
        @ map (\<lambda>code. ''create_plot -dataset C'' @ str_nat (k + 1) @ ''('' @ m3_dset r parameter code
                        @ '') -ref_plot Plot_'' @ m3_dset r parameter code) (m3_tdr_codes r)
        @ [''create_plot -dataset C1(C'' @ str_nat (k + 1) @ ''('' @ m3_dset r parameter (hd (m3_tdr_codes r))
             @ '')) -1d'']) ps)"
proof (rule commands_named_blocks)
  fix x :: "nat \<times> nat \<times> cutset \<times> nat \<times> string"
  obtain k set_idx cutset param_idx parameter where x: "x = (k, set_idx, cutset, param_idx, parameter)"
    by (cases x)
  show "commands_named ''create_plot'' (m3_lines to_list r x) =
     (case x of (k, set_idx, cutset, param_idx, parameter) \<Rightarrow>
        map (\<lambda>code. ''create_plot -dataset '' @ m3_dset r parameter code) (m3_tdr_codes r)
        @ map (\<lambda>code. ''create_plot -dataset C'' @ str_nat (k + 1) @ ''('' @ m3_dset r parameter code
                        @ '') -ref_plot Plot_'' @ m3_dset r parameter code) (m3_tdr_codes r)
        @ [''create_plot -dataset C1(C'' @ str_nat (k + 1) @ ''('' @ m3_dset r parameter (hd (m3_tdr_codes r))
             @ '')) -1d''])"
    unfolding x prod.case by (rule m3_lines_create_plot)
qed

lemma m3_out_create_cutline:
  "commands_named ''create_cutline'' (concat (map (m3_lines to_list r) ps)) =
     concat (map (\<lambda>(k, set_idx, cutset, param_idx, parameter).
        map (\<lambda>(i, code). ''create_cutline -plot Plot_C'' @ str_nat (k + 1) @ ''('' @ m3_dset r parameter code
                        @ '') -type '' @ cutline_axis cutset @ '' -at '' @ cutline_positions cutset ! i)
            (enumerate 0 (m3_tdr_codes r))) ps)"
proof (rule commands_named_blocks)
  fix x :: "nat \<times> nat \<times> cutset \<times> nat \<times> string"
  obtain k set_idx cutset param_idx parameter where x: "x = (k, set_idx, cutset, param_idx, parameter)"
    by (cases x)
  show "commands_named ''create_cutline'' (m3_lines to_list r x) =
     (case x of (k, set_idx, cutset, param_idx, parameter) \<Rightarrow>
        map (\<lambda>(i, code). ''create_cutline -plot Plot_C'' @ str_nat (k + 1) @ ''('' @ m3_dset r parameter code
                        @ '') -type '' @ cutline_axis cutset @ '' -at '' @ cutline_positions cutset ! i)
            (enumerate 0 (m3_tdr_codes r)))"
    unfolding x prod.case by (rule m3_lines_create_cutline)
qed

lemma m3_out_export_curves:
  "commands_named ''export_curves'' (concat (map (m3_lines to_list r) ps)) =
     map (\<lambda>(k, set_idx, cutset, param_idx, parameter).
        ''export_curves {''
        @ py_join '' '' (map (\<lambda>i. ''Curve_'' @ str_nat (i + 1)) [0..<length (m3_tdr_codes r)])
        @ ''} -plot Plot_C1(C'' @ str_nat (k + 1) @ ''('' @ m3_dset r parameter (hd (m3_tdr_codes r))
        @ '')) -filename '' @ m3_csv_export_path r @ m3_csv_filename r @ ''_set'' @ str_nat set_idx
        @ ''_param'' @ str_nat (param_idx + 1) @ ''_'' @ parameter @ ''.csv'' @ '' -format csv'') ps"
proof -
  have "commands_named ''export_curves'' (concat (map (m3_lines to_list r) ps)) =
     concat (map (\<lambda>x. [(\<lambda>(k, set_idx, cutset, param_idx, parameter).
        ''export_curves {''
        @ py_join '' '' (map (\<lambda>i. ''Curve_'' @ str_nat (i + 1)) [0..<length (m3_tdr_codes r)])
        @ ''} -plot Plot_C1(C'' @ str_nat (k + 1) @ ''('' @ m3_dset r parameter (hd (m3_tdr_codes r))
        @ '')) -filename '' @ m3_csv_export_path r @ m3_csv_filename r @ ''_set'' @ str_nat set_idx
        @ ''_param'' @ str_nat (param_idx + 1) @ ''_'' @ parameter @ ''.csv'' @ '' -format csv'') x]) ps)"
  proof (rule commands_named_blocks)
    fix x :: "nat \<times> nat \<times> cutset \<times> nat \<times> string"
    obtain k set_idx cutset param_idx parameter where x: "x = (k, set_idx, cutset, param_idx, parameter)"
      by (cases x)
    show "commands_named ''export_curves'' (m3_lines to_list r x) =
       [(\<lambda>(k, set_idx, cutset, param_idx, parameter).
        ''export_curves {''
        @ py_join '' '' (map (\<lambda>i. ''Curve_'' @ str_nat (i + 1)) [0..<length (m3_tdr_codes r)])
        @ ''} -plot Plot_C1(C'' @ str_nat (k + 1) @ ''('' @ m3_dset r parameter (hd (m3_tdr_codes r))
        @ '')) -filename '' @ m3_csv_export_path r @ m3_csv_filename r @ ''_set'' @ str_nat set_idx
        @ ''_param'' @ str_nat (param_idx + 1) @ ''_'' @ parameter @ ''.csv'' @ '' -format csv'') x]"
      unfolding x prod.case by (rule m3_lines_export_curves)
  qed
  then show ?thesis by (simp only: concat_map_single)
qed

lemma m3_pairs_two_sets:
  assumes "m3_sets r = [s1, s2]" and "parameters s1 = [p1]" and "parameters s2 = [p2]"
  shows "enumerate 0 (m3_pairs r) = [(0, 1, s1, 0, p1), (1, 2, s2, 0, p2)]"
  using assms by (simp add: m3_pairs_def pairs_of_def)

lemma str_nat_Suc_Suc_0: "str_nat (Suc (Suc 0)) = ''2''"
  using str_nat_2 by (simp add: numeral_2_eq_2)

lemma not_1d_des: "\<not> endswith (xs @ ''_des'') '' -1d''"
  by (simp add: endswith_def suffix_to_prefix)

lemma is_1d: "endswith (xs @ '' -1d'') '' -1d''"
  by (simp add: endswith_def suffix_to_prefix)

lemma str_nat_3: "str_nat 3 = ''3''"
  by (subst str_nat.simps) (simp add: digit_char_def)

lemmas str_nat_small = str_nat_Suc_0 str_nat_2 str_nat_Suc_Suc_0 str_nat_3

lemma echoes_of_Nil: "echoes_of w [] = []"
  by (simp add: echoes_of_def)

lemma echoes_of_single: "echoes_of w [l] = []"
  by (simp add: echoes_of_def)

lemma echoes_of_Cons2:
  "echoes_of w (l # e # ls) =
     (if first_word l = w then e # echoes_of w (e # ls) else echoes_of w (e # ls))"
  by (simp add: echoes_of_def)

lemma echoes_of_append:
  assumes "ends_with_echo xs" and "w \<noteq> ''#''"
  shows "echoes_of w (xs @ ys) = echoes_of w xs @ echoes_of w ys"
  using assms(1)
proof (induction xs rule: induct_list012)
  case 1
  show ?case by (simp add: echoes_of_Nil)
next
  case (2 l)
  then have "first_word l \<noteq> w" using assms(2) by (simp add: ends_with_echo_def)
  then show ?case by (cases ys) (simp_all add: echoes_of_single echoes_of_Cons2 echoes_of_Nil)
next
  case (3 l e ls)
  from 3(3) have "ends_with_echo (e # ls)" by (simp add: ends_with_echo_def)
  with 3(2) have "echoes_of w ((e # ls) @ ys) = echoes_of w (e # ls) @ echoes_of w ys" by simp
  then show ?case by (simp add: echoes_of_Cons2)
qed

lemma ends_with_echo_Nil: "ends_with_echo []"
  by (simp add: ends_with_echo_def)

lemma ends_with_echo_append:
  "ends_with_echo xs \<Longrightarrow> ends_with_echo ys \<Longrightarrow> ends_with_echo (xs @ ys)"
  by (cases "ys = []") (simp_all add: ends_with_echo_def)

lemma ends_with_echo_concat:
  assumes "\<And>x. ends_with_echo (f x)"
  shows "ends_with_echo (concat (map f xs))"
  by (induction xs) (simp_all add: ends_with_echo_Nil ends_with_echo_append assms)

lemma echoes_of_concat:
  assumes "\<And>x. ends_with_echo (f x)" and "w \<noteq> ''#''"
  shows "echoes_of w (concat (map f xs)) = concat (map (\<lambda>x. echoes_of w (f x)) xs)"
  by (induction xs) (simp_all add: echoes_of_Nil echoes_of_append assms)

lemma echoes_of_blocks:
  assumes "\<And>x. ends_with_echo (f x)" and "w \<noteq> ''#''" and "\<And>x. echoes_of w (f x) = g x"
  shows "echoes_of w (concat (map f xs)) = concat (map g xs)"
  by (simp add: echoes_of_concat [OF assms(1,2)] assms(3))

lemma m3_header_ends: "ends_with_echo (m3_header set_idx parameter)"
  by (simp add: m3_header_def ends_with_echo_def first_word_def)

lemma m3_load_ends: "ends_with_echo (m3_load r parameter code)"
  by (simp add: m3_load_def Let_def ends_with_echo_def first_word_def)

lemma m3_link_ends: "ends_with_echo (m3_link r parameter code0)"
  by (simp add: m3_link_def Let_def ends_with_echo_def first_word_def)

lemma m3_field_ends: "ends_with_echo (m3_field r parameter code)"
  by (simp add: m3_field_def Let_def ends_with_echo_def first_word_def)

lemma m3_cutplane_ends: "ends_with_echo (m3_cutplane r c cutset parameter code)"
  by (simp add: m3_cutplane_def Let_def ends_with_echo_def first_word_def)

lemma m3_cutplane_plot_ends: "ends_with_echo (m3_cutplane_plot r c parameter code)"
  by (simp add: m3_cutplane_plot_def Let_def ends_with_echo_def first_word_def)

lemma m3_cutline_ends: "ends_with_echo (m3_cutline r c cutset parameter code cl_pos)"
  by (simp add: m3_cutline_def Let_def ends_with_echo_def first_word_def)

lemma m3_plot1d_ends: "ends_with_echo (m3_plot1d r c parameter code0)"
  by (simp add: m3_plot1d_def Let_def ends_with_echo_def first_word_def)

lemma m3_curve_ends: "ends_with_echo (m3_curve to_list r c cutset parameter code0 x)"
  by (cases x) (simp add: m3_curve_def Let_def ends_with_echo_def first_word_def)

lemma m3_export_ends: "ends_with_echo (m3_export r c set_idx param_idx parameter code0)"
  by (simp add: m3_export_def Let_def ends_with_echo_def first_word_def)

lemma m3_cutline_case_ends:
  "ends_with_echo (case x of (i, code) \<Rightarrow> m3_cutline r c cutset parameter code (ps ! i))"
  by (cases x) (simp add: m3_cutline_ends)

lemmas m3_ends = m3_header_ends m3_load_ends m3_link_ends m3_field_ends m3_cutplane_ends
  m3_cutplane_plot_ends m3_cutline_ends m3_plot1d_ends m3_curve_ends m3_export_ends
  m3_cutline_case_ends ends_with_echo_concat ends_with_echo_append ends_with_echo_Nil

lemma m3_lines_ends: "ends_with_echo (m3_lines to_list r x)"
proof -
  obtain k set_idx cutset param_idx parameter where x: "x = (k, set_idx, cutset, param_idx, parameter)"
    by (cases x)
  show ?thesis
    unfolding x m3_lines_def prod.case m3_block_lines_def
    by (intro ends_with_echo_append ends_with_echo_concat m3_ends)
qed

lemma map_snd_enumerate_fun: "map (\<lambda>x. f (snd x)) (enumerate n xs) = map f xs"
  by (induction xs arbitrary: n) simp_all

lemmas ec_simps = echoes_of_Nil echoes_of_single echoes_of_Cons2 first_word_def

lemma echoes_of_skip:
  assumes "ends_with_echo xs" and "w \<noteq> ''#''" and "echoes_of w xs = []"
  shows "echoes_of w (xs @ ys) = echoes_of w ys"
  by (simp add: echoes_of_append [OF assms(1,2)] assms(3))

lemma echoes_of_concat_none:
  assumes "\<And>x. ends_with_echo (f x)" and "w \<noteq> ''#''" and "\<And>x. echoes_of w (f x) = []"
  shows "echoes_of w (concat (map f xs)) = []"
  by (simp add: echoes_of_concat [OF assms(1,2)] assms(3))

lemma m3_lines_echo_cutplane:
  "echoes_of ''create_cutplane'' (m3_lines to_list r (k, set_idx, cutset, param_idx, parameter)) =
     map (\<lambda>code. ''# C'' @ str_nat (k + 1) @ ''('' @ m3_dset r parameter code @ '')'') (m3_tdr_codes r)"
proof -
  have w: "''create_cutplane'' \<noteq> ''#''" by simp
  have cp: "\<And>c code. echoes_of ''create_cutplane'' (m3_cutplane r c cutset parameter code) =
      [''# C'' @ str_nat c @ ''('' @ m3_dset r parameter code @ '')'']"
    by (simp add: m3_cutplane_def Let_def ec_simps)
  have n1: "echoes_of ''create_cutplane'' (m3_header set_idx parameter) = []"
    by (simp add: m3_header_def ec_simps)
  have n2: "\<And>code. echoes_of ''create_cutplane'' (m3_load r parameter code) = []"
    by (simp add: m3_load_def Let_def ec_simps)
  have n3: "\<And>code. echoes_of ''create_cutplane'' (m3_link r parameter code) = []"
    by (simp add: m3_link_def Let_def ec_simps)
  have n4: "\<And>code. echoes_of ''create_cutplane'' (m3_field r parameter code) = []"
    by (simp add: m3_field_def Let_def ec_simps)
  have n5: "\<And>c code. echoes_of ''create_cutplane'' (m3_cutplane_plot r c parameter code) = []"
    by (simp add: m3_cutplane_plot_def Let_def ec_simps)
  have n6: "\<And>c x. echoes_of ''create_cutplane''
        (case x of (i, code) \<Rightarrow> m3_cutline r c cutset parameter code (cutline_positions cutset ! i)) = []"
    by (simp add: m3_cutline_def Let_def ec_simps split: prod.splits)
  have n7: "\<And>c code. echoes_of ''create_cutplane'' (m3_plot1d r c parameter code) = []"
    by (simp add: m3_plot1d_def Let_def ec_simps)
  have n8: "\<And>c x code0. echoes_of ''create_cutplane'' (m3_curve to_list r c cutset parameter code0 x) = []"
    by (simp add: m3_curve_def Let_def ec_simps split: prod.splits)
  have n9: "\<And>c code. echoes_of ''create_cutplane'' (m3_export r c set_idx param_idx parameter code) = []"
    by (simp add: m3_export_def Let_def ec_simps)
  show ?thesis
    unfolding m3_lines_def prod.case m3_block_lines_def
    by (simp add: echoes_of_append [OF _ w] echoes_of_concat [OF _ w] m3_ends
          cp n1 n2 n3 n4 n5 n6 n7 n8 n9 concat_map_single concat_map_Nil echoes_of_Nil)
qed

lemma m3_lines_echo_cutline:
  "echoes_of ''create_cutline'' (m3_lines to_list r (k, set_idx, cutset, param_idx, parameter)) =
     map (\<lambda>code. ''# C1(C'' @ str_nat (k + 1) @ ''('' @ m3_dset r parameter code @ ''))'') (m3_tdr_codes r)"
proof -
  have w: "''create_cutline'' \<noteq> ''#''" by simp
  have n0: "\<And>c code. echoes_of ''create_cutline'' (m3_cutplane r c cutset parameter code) = []"
    by (simp add: m3_cutplane_def Let_def ec_simps)
  have n1: "echoes_of ''create_cutline'' (m3_header set_idx parameter) = []"
    by (simp add: m3_header_def ec_simps)
  have n2: "\<And>code. echoes_of ''create_cutline'' (m3_load r parameter code) = []"
    by (simp add: m3_load_def Let_def ec_simps)
  have n3: "\<And>code. echoes_of ''create_cutline'' (m3_link r parameter code) = []"
    by (simp add: m3_link_def Let_def ec_simps)
  have n4: "\<And>code. echoes_of ''create_cutline'' (m3_field r parameter code) = []"
    by (simp add: m3_field_def Let_def ec_simps)
  have n5: "\<And>c code. echoes_of ''create_cutline'' (m3_cutplane_plot r c parameter code) = []"
    by (simp add: m3_cutplane_plot_def Let_def ec_simps)
  have cl: "\<And>c x. echoes_of ''create_cutline''
        (case x of (i, code) \<Rightarrow> m3_cutline r c cutset parameter code (cutline_positions cutset ! i)) =
        [''# C1(C'' @ str_nat c @ ''('' @ m3_dset r parameter (snd x) @ ''))'']"
    by (simp add: m3_cutline_def Let_def ec_simps split: prod.splits)
  have n7: "\<And>c code. echoes_of ''create_cutline'' (m3_plot1d r c parameter code) = []"
    by (simp add: m3_plot1d_def Let_def ec_simps)
  have n8: "\<And>c x code0. echoes_of ''create_cutline'' (m3_curve to_list r c cutset parameter code0 x) = []"
    by (simp add: m3_curve_def Let_def ec_simps split: prod.splits)
  have n9: "\<And>c code. echoes_of ''create_cutline'' (m3_export r c set_idx param_idx parameter code) = []"
    by (simp add: m3_export_def Let_def ec_simps)
  have "echoes_of ''create_cutline'' (m3_lines to_list r (k, set_idx, cutset, param_idx, parameter)) =
     map (\<lambda>x. ''# C1(C'' @ str_nat (k + 1) @ ''('' @ m3_dset r parameter (snd x) @ ''))'')
         (enumerate 0 (m3_tdr_codes r))"
    unfolding m3_lines_def prod.case m3_block_lines_def
    by (simp add: echoes_of_append [OF _ w] echoes_of_concat [OF _ w] m3_ends
          cl n0 n1 n2 n3 n4 n5 n7 n8 n9 concat_map_single concat_map_Nil echoes_of_Nil)
  also have "\<dots> = map (\<lambda>code. ''# C1(C'' @ str_nat (k + 1) @ ''('' @ m3_dset r parameter code @ ''))'')
                       (m3_tdr_codes r)"
    by (rule map_snd_enumerate_fun)
  finally show ?thesis .
qed

lemma m3_lines_create_cutplane:
  "commands_named ''create_cutplane'' (m3_lines to_list r (k, set_idx, cutset, param_idx, parameter)) =
     map (\<lambda>code. ''create_cutplane -plot Plot_'' @ m3_dset r parameter code @ '' -type ''
                    @ cutplane_axis cutset @ '' -at '' @ cutplane_position cutset) (m3_tdr_codes r)"
  by (simp add: m3_defs cn_simps)

lemma m3_lines_create_curve:
  "commands_named ''create_curve'' (m3_lines to_list r (k, set_idx, cutset, param_idx, parameter)) =
     map (\<lambda>code. ''create_curve -axisX '' @ get_axis_mapping to_list (cutplane_axis cutset) (cutline_axis cutset)
                    @ '' -axisY '' @ parameter @ '' -dataset {C1(C'' @ str_nat (k + 1) @ ''(''
                    @ m3_dset r parameter code @ ''))} -plot Plot_C1(C'' @ str_nat (k + 1) @ ''(''
                    @ m3_dset r parameter (hd (m3_tdr_codes r)) @ ''))'') (m3_tdr_codes r)"
proof -
  have "commands_named ''create_curve'' (m3_lines to_list r (k, set_idx, cutset, param_idx, parameter)) =
     map (\<lambda>x. ''create_curve -axisX '' @ get_axis_mapping to_list (cutplane_axis cutset) (cutline_axis cutset)
                    @ '' -axisY '' @ parameter @ '' -dataset {C1(C'' @ str_nat (k + 1) @ ''(''
                    @ m3_dset r parameter (snd x) @ ''))} -plot Plot_C1(C'' @ str_nat (k + 1) @ ''(''
                    @ m3_dset r parameter (hd (m3_tdr_codes r)) @ ''))'') (enumerate 0 (m3_tdr_codes r))"
    by (simp add: m3_defs cn_simps case_prod_unfold)
  also have "\<dots> = map (\<lambda>code. ''create_curve -axisX '' @ get_axis_mapping to_list (cutplane_axis cutset) (cutline_axis cutset)
                    @ '' -axisY '' @ parameter @ '' -dataset {C1(C'' @ str_nat (k + 1) @ ''(''
                    @ m3_dset r parameter code @ ''))} -plot Plot_C1(C'' @ str_nat (k + 1) @ ''(''
                    @ m3_dset r parameter (hd (m3_tdr_codes r)) @ ''))'') (m3_tdr_codes r)"
    by (rule map_snd_enumerate_fun)
  finally show ?thesis .
qed

lemma m3_out_echo_cutplane:
  "echoes_of ''create_cutplane'' (concat (map (m3_lines to_list r) ps)) =
     concat (map (\<lambda>(k, set_idx, cutset, param_idx, parameter).
        map (\<lambda>code. ''# C'' @ str_nat (k + 1) @ ''('' @ m3_dset r parameter code @ '')'') (m3_tdr_codes r)) ps)"
proof (rule echoes_of_blocks)
  fix x :: "nat \<times> nat \<times> cutset \<times> nat \<times> string"
  show "ends_with_echo (m3_lines to_list r x)" by (rule m3_lines_ends)
  show "''create_cutplane'' \<noteq> ''#''" by simp
  obtain k set_idx cutset param_idx parameter where x: "x = (k, set_idx, cutset, param_idx, parameter)"
    by (cases x)
  show "echoes_of ''create_cutplane'' (m3_lines to_list r x) =
     (case x of (k, set_idx, cutset, param_idx, parameter) \<Rightarrow>
        map (\<lambda>code. ''# C'' @ str_nat (k + 1) @ ''('' @ m3_dset r parameter code @ '')'') (m3_tdr_codes r))"
    unfolding x prod.case by (rule m3_lines_echo_cutplane)
qed

lemma m3_out_echo_cutline:
  "echoes_of ''create_cutline'' (concat (map (m3_lines to_list r) ps)) =
     concat (map (\<lambda>(k, set_idx, cutset, param_idx, parameter).
        map (\<lambda>code. ''# C1(C'' @ str_nat (k + 1) @ ''('' @ m3_dset r parameter code @ ''))'') (m3_tdr_codes r)) ps)"
proof (rule echoes_of_blocks)
  fix x :: "nat \<times> nat \<times> cutset \<times> nat \<times> string"
  show "ends_with_echo (m3_lines to_list r x)" by (rule m3_lines_ends)
  show "''create_cutline'' \<noteq> ''#''" by simp
  obtain k set_idx cutset param_idx parameter where x: "x = (k, set_idx, cutset, param_idx, parameter)"
    by (cases x)
  show "echoes_of ''create_cutline'' (m3_lines to_list r x) =
     (case x of (k, set_idx, cutset, param_idx, parameter) \<Rightarrow>
        map (\<lambda>code. ''# C1(C'' @ str_nat (k + 1) @ ''('' @ m3_dset r parameter code @ ''))'') (m3_tdr_codes r))"
    unfolding x prod.case by (rule m3_lines_echo_cutline)
qed

lemma m3_out_create_cutplane:
  "commands_named ''create_cutplane'' (concat (map (m3_lines to_list r) ps)) =
     concat (map (\<lambda>(k, set_idx, cutset, param_idx, parameter).
        map (\<lambda>code. ''create_cutplane -plot Plot_'' @ m3_dset r parameter code @ '' -type ''
                    @ cutplane_axis cutset @ '' -at '' @ cutplane_position cutset) (m3_tdr_codes r)) ps)"
proof (rule commands_named_blocks)
  fix x :: "nat \<times> nat \<times> cutset \<times> nat \<times> string"
  obtain k set_idx cutset param_idx parameter where x: "x = (k, set_idx, cutset, param_idx, parameter)"
    by (cases x)
  show "commands_named ''create_cutplane'' (m3_lines to_list r x) =
     (case x of (k, set_idx, cutset, param_idx, parameter) \<Rightarrow>
        map (\<lambda>code. ''create_cutplane -plot Plot_'' @ m3_dset r parameter code @ '' -type ''
                    @ cutplane_axis cutset @ '' -at '' @ cutplane_position cutset) (m3_tdr_codes r))"
    unfolding x prod.case by (rule m3_lines_create_cutplane)
qed

lemma m3_out_create_curve:
  "commands_named ''create_curve'' (concat (map (m3_lines to_list r) ps)) =
     concat (map (\<lambda>(k, set_idx, cutset, param_idx, parameter).
        map (\<lambda>code. ''create_curve -axisX '' @ get_axis_mapping to_list (cutplane_axis cutset) (cutline_axis cutset)
                    @ '' -axisY '' @ parameter @ '' -dataset {C1(C'' @ str_nat (k + 1) @ ''(''
                    @ m3_dset r parameter code @ ''))} -plot Plot_C1(C'' @ str_nat (k + 1) @ ''(''
                    @ m3_dset r parameter (hd (m3_tdr_codes r)) @ ''))'') (m3_tdr_codes r)) ps)"
proof (rule commands_named_blocks)
  fix x :: "nat \<times> nat \<times> cutset \<times> nat \<times> string"
  obtain k set_idx cutset param_idx parameter where x: "x = (k, set_idx, cutset, param_idx, parameter)"
    by (cases x)
  show "commands_named ''create_curve'' (m3_lines to_list r x) =
     (case x of (k, set_idx, cutset, param_idx, parameter) \<Rightarrow>
        map (\<lambda>code. ''create_curve -axisX '' @ get_axis_mapping to_list (cutplane_axis cutset) (cutline_axis cutset)
                    @ '' -axisY '' @ parameter @ '' -dataset {C1(C'' @ str_nat (k + 1) @ ''(''
                    @ m3_dset r parameter code @ ''))} -plot Plot_C1(C'' @ str_nat (k + 1) @ ''(''
                    @ m3_dset r parameter (hd (m3_tdr_codes r)) @ ''))'') (m3_tdr_codes r))"
    unfolding x prod.case by (rule m3_lines_create_curve)
qed

lemma blocks_length:
  assumes "\<And>x. length (f x) = n"
  shows "length (concat (map f xs)) = n * length xs"
  by (induction xs) (simp_all add: assms)

lemma blocks_nth:
  assumes "\<And>x. length (f x) = n" and "a < n * length xs"
  shows "concat (map f xs) ! a = f (xs ! (a div n)) ! (a mod n)"
  using assms(2)
proof (induction xs arbitrary: a)
  case Nil
  then show ?case by simp
next
  case (Cons x xs)
  show ?case
  proof (cases "a < n")
    case True
    then show ?thesis by (simp add: nth_append assms(1))
  next
    case False
    then have ge: "n \<le> a" by simp
    from Cons.prems have n: "0 < n" by (cases n) simp_all
    from Cons.prems ge have "a - n < n * length xs" by simp
    then have ih: "concat (map f xs) ! (a - n) = f (xs ! ((a - n) div n)) ! ((a - n) mod n)"
      by (rule Cons.IH)
    from ge n have d: "a div n = Suc ((a - n) div n)" by (simp add: le_div_geq)
    from ge have m: "a mod n = (a - n) mod n" by (simp add: le_mod_geq)
    from False show ?thesis by (simp add: nth_append assms(1) ih d m)
  qed
qed

lemma counter_blocks_differ:
  fixes h :: "nat \<times> cutset \<times> nat \<times> string \<Rightarrow> string \<Rightarrow> string"
  assumes E: "E = concat (map (\<lambda>(k, x). map (\<lambda>code. pfx @ ''C'' @ str_nat (k + 1) @ ''('' @ h x code) codes)
                          (enumerate 0 ps))"
    and a: "a < length E" and b: "b < length E"
    and ab: "a div length codes \<noteq> b div length codes"
  shows "E ! a \<noteq> E ! b"
proof -
  let ?n = "length codes"
  let ?f = "\<lambda>(k, x). map (\<lambda>code. pfx @ ''C'' @ str_nat (k + 1) @ ''('' @ h x code) codes"
  have len: "\<And>y. length (?f y) = ?n" by (simp add: case_prod_unfold)
  have lenE: "length E = ?n * length (enumerate 0 ps)"
    unfolding E by (rule blocks_length) (rule len)
  have at: "E ! i = pfx @ ''C'' @ str_nat (i div ?n + 1) @ ''('' @ h (ps ! (i div ?n)) (codes ! (i mod ?n))"
    if i: "i < length E" for i
  proof -
    from i lenE have i': "i < ?n * length (enumerate 0 ps)" by simp
    then have n: "0 < ?n" by (cases "?n") simp_all
    from i' have q: "i div ?n < length ps"
      by (simp add: less_mult_imp_div_less mult.commute)
    from n have m: "i mod ?n < ?n" by simp
    have "E ! i = ?f (enumerate 0 ps ! (i div ?n)) ! (i mod ?n)"
      unfolding E using len i' by (rule blocks_nth)
    also have "enumerate 0 ps ! (i div ?n) = (i div ?n, ps ! (i div ?n))"
      using q by (simp add: nth_enumerate_eq)
    finally show ?thesis using m by simp
  qed
  show ?thesis
  proof
    assume "E ! a = E ! b"
    then have "pfx @ ''C'' @ str_nat (a div ?n + 1) @ ''('' @ h (ps ! (a div ?n)) (codes ! (a mod ?n))
             = pfx @ ''C'' @ str_nat (b div ?n + 1) @ ''('' @ h (ps ! (b div ?n)) (codes ! (b mod ?n))"
      by (simp only: at [OF a] at [OF b])
    then have "''C'' @ str_nat (a div ?n + 1) @ ''('' @ h (ps ! (a div ?n)) (codes ! (a mod ?n))
             = ''C'' @ str_nat (b div ?n + 1) @ ''('' @ h (ps ! (b div ?n)) (codes ! (b mod ?n))"
      by (simp only: same_append_eq)
    moreover from ab have "a div ?n + 1 \<noteq> b div ?n + 1" by simp
    ultimately show False using counter_ids_differ by blast
  qed
qed

lemma filter_blocks:
  assumes "\<And>x. filter P (f x) = g x"
  shows "filter P (concat (map f xs)) = concat (map g xs)"
  by (induction xs) (simp_all add: assms)

lemma m3_lines_plot_1d:
  "filter (\<lambda>l. endswith l '' -1d'')
      (commands_named ''create_plot'' (m3_lines to_list r (k, set_idx, cutset, param_idx, parameter))) =
     [''create_plot -dataset C1(C'' @ str_nat (k + 1) @ ''('' @ m3_dset r parameter (hd (m3_tdr_codes r))
          @ '')) -1d'']"
proof -
  have a: "\<And>code. \<not> endswith (''create_plot -dataset '' @ m3_dset r parameter code) '' -1d''"
    using not_1d_des [of "''create_plot -dataset '' @ m3_current_value r @ ''_'' @ parameter @ ''_'' @ code" for code]
    by (simp add: m3_dset_def)
  have b: "\<And>c code. \<not> endswith (''create_plot -dataset C'' @ str_nat c @ ''('' @ m3_dset r parameter code
                     @ '') -ref_plot Plot_'' @ m3_dset r parameter code) '' -1d''"
    using not_1d_des [of "''create_plot -dataset C'' @ str_nat c @ ''('' @ m3_dset r parameter code
                     @ '') -ref_plot Plot_'' @ m3_current_value r @ ''_'' @ parameter @ ''_'' @ code" for c code]
    by (simp add: m3_dset_def)
  have c: "\<And>xs. endswith (xs @ '' -1d'') '' -1d''"
    by (simp add: endswith_def suffix_def)
  have c': "endswith (''create_plot -dataset C1(C'' @ str_nat (k + 1) @ ''(''
          @ m3_dset r parameter (hd (m3_tdr_codes r)) @ '')) -1d'') '' -1d''"
    using c [of "''create_plot -dataset C1(C'' @ str_nat (k + 1) @ ''(''
          @ m3_dset r parameter (hd (m3_tdr_codes r)) @ ''))''"] by simp
  have fa: "filter (\<lambda>l. endswith l '' -1d'')
        (map (\<lambda>code. ''create_plot -dataset '' @ m3_dset r parameter code) (m3_tdr_codes r)) = []"
    unfolding filter_empty_conv using a by auto
  have fb: "filter (\<lambda>l. endswith l '' -1d'')
        (map (\<lambda>code. ''create_plot -dataset C'' @ str_nat (k + 1) @ ''('' @ m3_dset r parameter code
                     @ '') -ref_plot Plot_'' @ m3_dset r parameter code) (m3_tdr_codes r)) = []"
    unfolding filter_empty_conv using b by auto
  show ?thesis
    unfolding m3_lines_create_plot filter_append fa fb using c' by simp
qed

lemma m3_out_plot_1d:
  "filter (\<lambda>l. endswith l '' -1d'')
      (commands_named ''create_plot'' (concat (map (m3_lines to_list r) ps))) =
     map (\<lambda>(k, set_idx, cutset, param_idx, parameter).
        ''create_plot -dataset C1(C'' @ str_nat (k + 1) @ ''('' @ m3_dset r parameter (hd (m3_tdr_codes r))
          @ '')) -1d'') ps"
proof -
  have "filter (\<lambda>l. endswith l '' -1d'')
      (concat (map (\<lambda>x. commands_named ''create_plot'' (m3_lines to_list r x)) ps)) =
     concat (map (\<lambda>x. [(\<lambda>(k, set_idx, cutset, param_idx, parameter).
        ''create_plot -dataset C1(C'' @ str_nat (k + 1) @ ''('' @ m3_dset r parameter (hd (m3_tdr_codes r))
          @ '')) -1d'') x]) ps)"
  proof (rule filter_blocks)
    fix x :: "nat \<times> nat \<times> cutset \<times> nat \<times> string"
    obtain k set_idx cutset param_idx parameter where x: "x = (k, set_idx, cutset, param_idx, parameter)"
      by (cases x)
    show "filter (\<lambda>l. endswith l '' -1d'') (commands_named ''create_plot'' (m3_lines to_list r x)) =
       [(\<lambda>(k, set_idx, cutset, param_idx, parameter).
        ''create_plot -dataset C1(C'' @ str_nat (k + 1) @ ''('' @ m3_dset r parameter (hd (m3_tdr_codes r))
          @ '')) -1d'') x]"
      unfolding x prod.case by (rule m3_lines_plot_1d)
  qed
  then show ?thesis by (simp only: concat_map_single commands_named_concat_map)
qed

lemma counter_lines_distinct:
  fixes h :: "nat \<times> cutset \<times> nat \<times> string \<Rightarrow> string"
  shows "distinct (map (\<lambda>(k, x). pfx @ ''C'' @ str_nat (k + 1) @ ''('' @ h x) (enumerate 0 ps))"
proof -
  have "map (\<lambda>(k, x). pfx @ ''C'' @ str_nat (k + 1) @ ''('' @ h x) (enumerate 0 ps) ! i
      \<noteq> map (\<lambda>(k, x). pfx @ ''C'' @ str_nat (k + 1) @ ''('' @ h x) (enumerate 0 ps) ! j"
    if "i < length ps" and "j < length ps" and "i \<noteq> j" for i j
  proof -
    from that(3) have "i + 1 \<noteq> j + 1" by simp
    then have "''C'' @ str_nat (i + 1) @ ''('' @ h (ps ! i) \<noteq> ''C'' @ str_nat (j + 1) @ ''('' @ h (ps ! j)"
      by (rule counter_ids_differ)
    then have "pfx @ ''C'' @ str_nat (i + 1) @ ''('' @ h (ps ! i) \<noteq> pfx @ ''C'' @ str_nat (j + 1) @ ''('' @ h (ps ! j)"
      by simp
    with that(1,2) show ?thesis by (simp add: nth_enumerate_eq)
  qed
  then show ?thesis by (simp add: distinct_conv_nth)
qed

lemma m3_cutlines_either:
  "m3_cutlines r c cutset p es = Raise IndexError
   \<or> m3_cutlines r c cutset p es =
       Next (concat (map (\<lambda>(i, code). m3_cutline r c cutset p code (cutline_positions cutset ! i)) es))"
proof (induction es)
  case Nil
  show ?case by simp
next
  case (Cons e es)
  obtain i code where e: "e = (i, code)" by (cases e)
  from Cons show ?case unfolding e by (auto simp: bind_flow_def)
qed

lemma m3_block_either:
  "m3_block to_list r (Suc k) set_idx cutset param_idx parameter = Raise IndexError
   \<or> m3_block to_list r (Suc k) set_idx cutset param_idx parameter
       = Next (m3_lines to_list r (k, set_idx, cutset, param_idx, parameter))"
proof (cases "m3_tdr_codes r")
  case Nil
  then show ?thesis by (simp add: m3_block_def)
next
  case (Cons code0 others)
  from m3_cutlines_either [of r "Suc k" cutset parameter "enumerate 0 (m3_tdr_codes r)"]
  show ?thesis
    by (auto simp: m3_block_def m3_lines_def Cons bind_flow_def simp del: enumerate_simps)
qed

lemma m3_parameters_either:
  "m3_parameters to_list r set_idx cutset es (c, cmds) = Raise IndexError
   \<or> m3_parameters to_list r set_idx cutset es (c, cmds) =
     Next (c + length es,
           cmds @ blocks_from to_list r c (map (\<lambda>(param_idx, parameter). (set_idx, cutset, param_idx, parameter)) es))"
proof (induction es arbitrary: c cmds)
  case Nil
  show ?case by (simp add: blocks_from_def)
next
  case (Cons e es)
  obtain param_idx parameter where e: "e = (param_idx, parameter)" by (cases e)
  from m3_block_either [of to_list r c set_idx cutset param_idx parameter]
  show ?case
  proof
    assume "m3_block to_list r (Suc c) set_idx cutset param_idx parameter = Raise IndexError"
    then show ?thesis unfolding e by (simp add: bind_flow_def)
  next
    assume b: "m3_block to_list r (Suc c) set_idx cutset param_idx parameter
       = Next (m3_lines to_list r (c, set_idx, cutset, param_idx, parameter))"
    from Cons [of "Suc c" "cmds @ m3_lines to_list r (c, set_idx, cutset, param_idx, parameter)"]
    show ?thesis
      unfolding e by (auto simp: b bind_flow_def blocks_from_def)
  qed
qed

lemma m3_sets_loop_either:
  "m3_sets_loop to_list r ses (c, cmds) = Raise IndexError
   \<or> m3_sets_loop to_list r ses (c, cmds) =
     Next (c + length (pairs_of ses), cmds @ blocks_from to_list r c (pairs_of ses))"
proof (induction ses arbitrary: c cmds)
  case Nil
  show ?case by (simp add: blocks_from_def pairs_of_def)
next
  case (Cons s ses)
  obtain set_idx cutset where s: "s = (set_idx, cutset)" by (cases s)
  let ?es = "enumerate 0 (parameters cutset)"
  let ?ps = "map (\<lambda>(param_idx, parameter). (set_idx, cutset, param_idx, parameter)) ?es"
  have split: "pairs_of ((set_idx, cutset) # ses) = ?ps @ pairs_of ses"
    by (simp add: pairs_of_def)
  from m3_parameters_either [of to_list r set_idx cutset ?es c cmds]
  show ?case
  proof
    assume "m3_parameters to_list r set_idx cutset ?es (c, cmds) = Raise IndexError"
    then show ?thesis unfolding s by (simp add: bind_flow_def)
  next
    assume p: "m3_parameters to_list r set_idx cutset ?es (c, cmds) =
      Next (c + length ?es, cmds @ blocks_from to_list r c ?ps)"
    from Cons [of "c + length ?es" "cmds @ blocks_from to_list r c ?ps"]
    show ?thesis
      unfolding s by (auto simp: split p bind_flow_def blocks_from_append add.assoc)
  qed
qed

lemma mode3_commands_either:
  "mode3_commands to_list r = Raise IndexError
   \<or> mode3_commands to_list r = Return (concat (map (m3_lines to_list r) (enumerate 0 (m3_pairs r))))"
  using m3_sets_loop_either [of to_list r "enumerate 1 (m3_sets r)" 0 "[]"]
  by (auto simp: mode3_commands_def bind_flow_def m3_pairs_def blocks_from_def)


text \<open>
  Claim C2.  In Mode 3, for every request, the generator either raises \<^verbatim>\<open>IndexError\<close>
  and emits nothing, or returns the blocks of the (set, parameter) pairs in the order
  the loops visit them, the pair at position \<open>k\<close> (from 0) emitted with counter \<open>k + 1\<close>;
  it returns them when there is a TDR code and every set has a cutline position for each
  TDR code.  The identifiers the console answers to the \<^verbatim>\<open>create_cutplane\<close> commands of
  that pair are \<^verbatim>\<open>C{k+1}(...)\<close>, one for each TDR code, and those it answers to the
  \<^verbatim>\<open>create_cutline\<close> commands are \<^verbatim>\<open>C1(C{k+1}(...))\<close>; identifiers emitted for different
  pairs are different texts.  The commands that use them carry the same counter: the
  plots of the cutplanes, the cutlines, the 1D plot and the curves.  There is one 1D
  plot and one \<^verbatim>\<open>export_curves\<close> for each pair, all different.  With three TDR codes and
  two sets of one parameter each, the identifiers are those of \<^verbatim>\<open>C1(...)\<close> and
  \<^verbatim>\<open>C2(...)\<close>, the 1D plots are those of \<^verbatim>\<open>C1(C1(...))\<close> and \<^verbatim>\<open>C1(C2(...))\<close>, and there
  are two CSV exports.
\<close>

theorem mode3_counter_namespaces:
  "\<exists>out. out = concat (map (m3_lines to_list r) (enumerate 0 (m3_pairs r)))
     \<and> (mode3_commands to_list r = Return out \<or> mode3_commands to_list r = Raise IndexError)
     \<and> (m3_tdr_codes r \<noteq> []
          \<and> (\<forall>cs\<in>set (m3_sets r). length (m3_tdr_codes r) \<le> length (cutline_positions cs)) \<longrightarrow>
          mode3_commands to_list r = Return out)
     \<and> echoes_of ''create_cutplane'' out =
         concat (map (\<lambda>(k, set_idx, cutset, param_idx, parameter).
            map (\<lambda>code. ''# C'' @ str_nat (k + 1) @ ''('' @ m3_dset r parameter code @ '')'')
                (m3_tdr_codes r))
           (enumerate 0 (m3_pairs r)))
     \<and> echoes_of ''create_cutline'' out =
         concat (map (\<lambda>(k, set_idx, cutset, param_idx, parameter).
            map (\<lambda>code. ''# C1(C'' @ str_nat (k + 1) @ ''('' @ m3_dset r parameter code @ ''))'')
                (m3_tdr_codes r))
           (enumerate 0 (m3_pairs r)))
     \<and> (\<forall>a b. a < length (echoes_of ''create_cutplane'' out)
            \<and> b < length (echoes_of ''create_cutplane'' out)
            \<and> a div length (m3_tdr_codes r) \<noteq> b div length (m3_tdr_codes r) \<longrightarrow>
            echoes_of ''create_cutplane'' out ! a \<noteq> echoes_of ''create_cutplane'' out ! b)
     \<and> (\<forall>a b. a < length (echoes_of ''create_cutline'' out)
            \<and> b < length (echoes_of ''create_cutline'' out)
            \<and> a div length (m3_tdr_codes r) \<noteq> b div length (m3_tdr_codes r) \<longrightarrow>
            echoes_of ''create_cutline'' out ! a \<noteq> echoes_of ''create_cutline'' out ! b)
     \<and> commands_named ''create_cutplane'' out =
         concat (map (\<lambda>(k, set_idx, cutset, param_idx, parameter).
            map (\<lambda>code. ''create_cutplane -plot Plot_'' @ m3_dset r parameter code @ '' -type ''
                    @ cutplane_axis cutset @ '' -at '' @ cutplane_position cutset) (m3_tdr_codes r))
           (enumerate 0 (m3_pairs r)))
     \<and> commands_named ''create_plot'' out =
         concat (map (\<lambda>(k, set_idx, cutset, param_idx, parameter).
            map (\<lambda>code. ''create_plot -dataset '' @ m3_dset r parameter code) (m3_tdr_codes r)
            @ map (\<lambda>code. ''create_plot -dataset C'' @ str_nat (k + 1) @ ''('' @ m3_dset r parameter code
                            @ '') -ref_plot Plot_'' @ m3_dset r parameter code) (m3_tdr_codes r)
            @ [''create_plot -dataset C1(C'' @ str_nat (k + 1) @ ''(''
                 @ m3_dset r parameter (hd (m3_tdr_codes r)) @ '')) -1d''])
           (enumerate 0 (m3_pairs r)))
     \<and> commands_named ''create_cutline'' out =
         concat (map (\<lambda>(k, set_idx, cutset, param_idx, parameter).
            map (\<lambda>(i, code). ''create_cutline -plot Plot_C'' @ str_nat (k + 1) @ ''(''
                    @ m3_dset r parameter code @ '') -type '' @ cutline_axis cutset @ '' -at ''
                    @ cutline_positions cutset ! i)
                (enumerate 0 (m3_tdr_codes r)))
           (enumerate 0 (m3_pairs r)))
     \<and> commands_named ''create_curve'' out =
         concat (map (\<lambda>(k, set_idx, cutset, param_idx, parameter).
            map (\<lambda>code. ''create_curve -axisX ''
                    @ get_axis_mapping to_list (cutplane_axis cutset) (cutline_axis cutset)
                    @ '' -axisY '' @ parameter @ '' -dataset {C1(C'' @ str_nat (k + 1) @ ''(''
                    @ m3_dset r parameter code @ ''))} -plot Plot_C1(C'' @ str_nat (k + 1) @ ''(''
                    @ m3_dset r parameter (hd (m3_tdr_codes r)) @ ''))'') (m3_tdr_codes r))
           (enumerate 0 (m3_pairs r)))
     \<and> filter (\<lambda>l. endswith l '' -1d'') (commands_named ''create_plot'' out) =
         map (\<lambda>(k, set_idx, cutset, param_idx, parameter).
            ''create_plot -dataset C1(C'' @ str_nat (k + 1) @ ''(''
              @ m3_dset r parameter (hd (m3_tdr_codes r)) @ '')) -1d'')
           (enumerate 0 (m3_pairs r))
     \<and> distinct (filter (\<lambda>l. endswith l '' -1d'') (commands_named ''create_plot'' out))
     \<and> length (commands_named ''export_curves'' out) = length (m3_pairs r)
     \<and> distinct (commands_named ''export_curves'' out)
     \<and> (\<forall>j k x y. j \<noteq> k \<longrightarrow> ''C'' @ str_nat j @ ''('' @ x \<noteq> ''C'' @ str_nat k @ ''('' @ y)
     \<and> (\<forall>j k x y. j \<noteq> k \<longrightarrow> ''C1(C'' @ str_nat j @ ''('' @ x \<noteq> ''C1(C'' @ str_nat k @ ''('' @ y)
     \<and> (m3_tdr_codes r = [c1, c2, c3] \<and> m3_sets r = [s1, s2]
          \<and> parameters s1 = [p1] \<and> parameters s2 = [p2] \<longrightarrow>
          echoes_of ''create_cutplane'' out =
            [''# C1('' @ m3_dset r p1 c1 @ '')'', ''# C1('' @ m3_dset r p1 c2 @ '')'',
             ''# C1('' @ m3_dset r p1 c3 @ '')'', ''# C2('' @ m3_dset r p2 c1 @ '')'',
             ''# C2('' @ m3_dset r p2 c2 @ '')'', ''# C2('' @ m3_dset r p2 c3 @ '')'']
          \<and> echoes_of ''create_cutline'' out =
            [''# C1(C1('' @ m3_dset r p1 c1 @ ''))'', ''# C1(C1('' @ m3_dset r p1 c2 @ ''))'',
             ''# C1(C1('' @ m3_dset r p1 c3 @ ''))'', ''# C1(C2('' @ m3_dset r p2 c1 @ ''))'',
             ''# C1(C2('' @ m3_dset r p2 c2 @ ''))'', ''# C1(C2('' @ m3_dset r p2 c3 @ ''))'']
          \<and> filter (\<lambda>l. endswith l '' -1d'') (commands_named ''create_plot'' out) =
            [''create_plot -dataset C1(C1('' @ m3_dset r p1 c1 @ '')) -1d'',
             ''create_plot -dataset C1(C2('' @ m3_dset r p2 c1 @ '')) -1d'']
          \<and> commands_named ''export_curves'' out =
            [''export_curves {Curve_1 Curve_2 Curve_3} -plot Plot_C1(C1('' @ m3_dset r p1 c1
               @ '')) -filename '' @ m3_csv_export_path r @ m3_csv_filename r @ ''_set1_param1_'' @ p1
               @ ''.csv -format csv'',
             ''export_curves {Curve_1 Curve_2 Curve_3} -plot Plot_C1(C2('' @ m3_dset r p2 c1
               @ '')) -filename '' @ m3_csv_export_path r @ m3_csv_filename r @ ''_set2_param1_'' @ p2
               @ ''.csv -format csv''])"
proof -
  let ?ps = "enumerate 0 (m3_pairs r)"
  let ?out = "concat (map (m3_lines to_list r) ?ps)"
  let ?n = "length (m3_tdr_codes r)"
  have ret: "m3_tdr_codes r \<noteq> []
          \<and> (\<forall>cs\<in>set (m3_sets r). length (m3_tdr_codes r) \<le> length (cutline_positions cs)) \<longrightarrow>
          mode3_commands to_list r = Return ?out"
    using mode3_commands_ok [of r to_list] by blast
  have either: "mode3_commands to_list r = Return ?out \<or> mode3_commands to_list r = Raise IndexError"
    using mode3_commands_either [of to_list r] by blast
  have e1: "echoes_of ''create_cutplane'' ?out =
      concat (map (\<lambda>(k, x). map (\<lambda>code. ''# '' @ ''C'' @ str_nat (k + 1) @ ''(''
                    @ (case x of (set_idx, cutset, param_idx, parameter) \<Rightarrow>
                         m3_dset r parameter code @ '')'')) (m3_tdr_codes r)) ?ps)"
    by (simp add: m3_out_echo_cutplane case_prod_unfold)
  have d1: "\<forall>a b. a < length (echoes_of ''create_cutplane'' ?out)
            \<and> b < length (echoes_of ''create_cutplane'' ?out)
            \<and> a div ?n \<noteq> b div ?n \<longrightarrow>
            echoes_of ''create_cutplane'' ?out ! a \<noteq> echoes_of ''create_cutplane'' ?out ! b"
  proof (intro allI impI, elim conjE)
    fix a b
    assume "a < length (echoes_of ''create_cutplane'' ?out)"
      and "b < length (echoes_of ''create_cutplane'' ?out)" and "a div ?n \<noteq> b div ?n"
    with e1 show "echoes_of ''create_cutplane'' ?out ! a \<noteq> echoes_of ''create_cutplane'' ?out ! b"
      by (rule counter_blocks_differ)
  qed
  have e2: "echoes_of ''create_cutline'' ?out =
      concat (map (\<lambda>(k, x). map (\<lambda>code. ''# C1('' @ ''C'' @ str_nat (k + 1) @ ''(''
                    @ (case x of (set_idx, cutset, param_idx, parameter) \<Rightarrow>
                         m3_dset r parameter code @ ''))'')) (m3_tdr_codes r)) ?ps)"
    by (simp add: m3_out_echo_cutline case_prod_unfold)
  have d2: "\<forall>a b. a < length (echoes_of ''create_cutline'' ?out)
            \<and> b < length (echoes_of ''create_cutline'' ?out)
            \<and> a div ?n \<noteq> b div ?n \<longrightarrow>
            echoes_of ''create_cutline'' ?out ! a \<noteq> echoes_of ''create_cutline'' ?out ! b"
  proof (intro allI impI, elim conjE)
    fix a b
    assume "a < length (echoes_of ''create_cutline'' ?out)"
      and "b < length (echoes_of ''create_cutline'' ?out)" and "a div ?n \<noteq> b div ?n"
    with e2 show "echoes_of ''create_cutline'' ?out ! a \<noteq> echoes_of ''create_cutline'' ?out ! b"
      by (rule counter_blocks_differ)
  qed
  have p1d: "filter (\<lambda>l. endswith l '' -1d'') (commands_named ''create_plot'' ?out) =
      map (\<lambda>(k, x). ''create_plot -dataset C1('' @ ''C'' @ str_nat (k + 1) @ ''(''
              @ (case x of (set_idx, cutset, param_idx, parameter) \<Rightarrow>
                   m3_dset r parameter (hd (m3_tdr_codes r)) @ '')) -1d'')) ?ps"
    by (simp add: m3_out_plot_1d case_prod_unfold)
  have dp: "distinct (filter (\<lambda>l. endswith l '' -1d'') (commands_named ''create_plot'' ?out))"
    unfolding p1d by (rule counter_lines_distinct)
  have ex: "commands_named ''export_curves'' ?out =
      map (\<lambda>(k, x). (''export_curves {''
              @ py_join '' '' (map (\<lambda>i. ''Curve_'' @ str_nat (i + 1)) [0..<length (m3_tdr_codes r)])
              @ ''} -plot Plot_C1('') @ ''C'' @ str_nat (k + 1) @ ''(''
              @ (case x of (set_idx, cutset, param_idx, parameter) \<Rightarrow>
                   m3_dset r parameter (hd (m3_tdr_codes r))
                   @ '')) -filename '' @ m3_csv_export_path r @ m3_csv_filename r @ ''_set'' @ str_nat set_idx
                   @ ''_param'' @ str_nat (param_idx + 1) @ ''_'' @ parameter @ ''.csv'' @ '' -format csv'')) ?ps"
    by (simp add: m3_out_export_curves case_prod_unfold)
  have de: "distinct (commands_named ''export_curves'' ?out)"
    unfolding ex by (rule counter_lines_distinct)
  have len: "length (commands_named ''export_curves'' ?out) = length (m3_pairs r)"
    by (simp only: m3_out_export_curves length_map length_enumerate)
  have ids: "\<forall>j k x y. j \<noteq> k \<longrightarrow> ''C'' @ str_nat j @ ''('' @ x \<noteq> ''C'' @ str_nat k @ ''('' @ y"
    using counter_ids_differ by blast
  have ids1: "\<forall>j k x y. j \<noteq> k \<longrightarrow> ''C1(C'' @ str_nat j @ ''('' @ x \<noteq> ''C1(C'' @ str_nat k @ ''('' @ y"
  proof (intro allI impI)
    fix j k :: nat and x y :: string
    assume "j \<noteq> k"
    then have "''C'' @ str_nat j @ ''('' @ x \<noteq> ''C'' @ str_nat k @ ''('' @ y"
      by (rule counter_ids_differ)
    then show "''C1(C'' @ str_nat j @ ''('' @ x \<noteq> ''C1(C'' @ str_nat k @ ''('' @ y" by simp
  qed
  have inst: "m3_tdr_codes r = [c1, c2, c3] \<and> m3_sets r = [s1, s2]
          \<and> parameters s1 = [p1] \<and> parameters s2 = [p2] \<longrightarrow>
          echoes_of ''create_cutplane'' ?out =
            [''# C1('' @ m3_dset r p1 c1 @ '')'', ''# C1('' @ m3_dset r p1 c2 @ '')'',
             ''# C1('' @ m3_dset r p1 c3 @ '')'', ''# C2('' @ m3_dset r p2 c1 @ '')'',
             ''# C2('' @ m3_dset r p2 c2 @ '')'', ''# C2('' @ m3_dset r p2 c3 @ '')'']
          \<and> echoes_of ''create_cutline'' ?out =
            [''# C1(C1('' @ m3_dset r p1 c1 @ ''))'', ''# C1(C1('' @ m3_dset r p1 c2 @ ''))'',
             ''# C1(C1('' @ m3_dset r p1 c3 @ ''))'', ''# C1(C2('' @ m3_dset r p2 c1 @ ''))'',
             ''# C1(C2('' @ m3_dset r p2 c2 @ ''))'', ''# C1(C2('' @ m3_dset r p2 c3 @ ''))'']
          \<and> filter (\<lambda>l. endswith l '' -1d'') (commands_named ''create_plot'' ?out) =
            [''create_plot -dataset C1(C1('' @ m3_dset r p1 c1 @ '')) -1d'',
             ''create_plot -dataset C1(C2('' @ m3_dset r p2 c1 @ '')) -1d'']
          \<and> commands_named ''export_curves'' ?out =
            [''export_curves {Curve_1 Curve_2 Curve_3} -plot Plot_C1(C1('' @ m3_dset r p1 c1
               @ '')) -filename '' @ m3_csv_export_path r @ m3_csv_filename r @ ''_set1_param1_'' @ p1
               @ ''.csv -format csv'',
             ''export_curves {Curve_1 Curve_2 Curve_3} -plot Plot_C1(C2('' @ m3_dset r p2 c1
               @ '')) -filename '' @ m3_csv_export_path r @ m3_csv_filename r @ ''_set2_param1_'' @ p2
               @ ''.csv -format csv'']"
  proof (intro impI, elim conjE)
    assume c: "m3_tdr_codes r = [c1, c2, c3]" and s: "m3_sets r = [s1, s2]"
      and p1: "parameters s1 = [p1]" and p2: "parameters s2 = [p2]"
    have ps: "enumerate 0 (m3_pairs r) = [(0, 1, s1, 0, p1), (1, 2, s2, 0, p2)]"
      using s p1 p2 by (rule m3_pairs_two_sets)
    have up: "[0..<length (m3_tdr_codes r)] = [0, 1, 2]"
      by (simp add: c upt_rec)
    have a: "filter (\<lambda>l. endswith l '' -1d'') (commands_named ''create_plot'' ?out) =
            [''create_plot -dataset C1(C1('' @ m3_dset r p1 c1 @ '')) -1d'',
             ''create_plot -dataset C1(C2('' @ m3_dset r p2 c1 @ '')) -1d'']"
      unfolding m3_out_plot_1d ps by (simp add: c str_nat_small)
    have b: "commands_named ''export_curves'' ?out =
            [''export_curves {Curve_1 Curve_2 Curve_3} -plot Plot_C1(C1('' @ m3_dset r p1 c1
               @ '')) -filename '' @ m3_csv_export_path r @ m3_csv_filename r @ ''_set1_param1_'' @ p1
               @ ''.csv -format csv'',
             ''export_curves {Curve_1 Curve_2 Curve_3} -plot Plot_C1(C2('' @ m3_dset r p2 c1
               @ '')) -filename '' @ m3_csv_export_path r @ m3_csv_filename r @ ''_set2_param1_'' @ p2
               @ ''.csv -format csv'']"
      unfolding m3_out_export_curves ps up
      by (simp add: c str_nat_small)
    have e: "echoes_of ''create_cutplane'' ?out =
            [''# C1('' @ m3_dset r p1 c1 @ '')'', ''# C1('' @ m3_dset r p1 c2 @ '')'',
             ''# C1('' @ m3_dset r p1 c3 @ '')'', ''# C2('' @ m3_dset r p2 c1 @ '')'',
             ''# C2('' @ m3_dset r p2 c2 @ '')'', ''# C2('' @ m3_dset r p2 c3 @ '')'']"
      unfolding m3_out_echo_cutplane ps by (simp add: c str_nat_small)
    have f: "echoes_of ''create_cutline'' ?out =
            [''# C1(C1('' @ m3_dset r p1 c1 @ ''))'', ''# C1(C1('' @ m3_dset r p1 c2 @ ''))'',
             ''# C1(C1('' @ m3_dset r p1 c3 @ ''))'', ''# C1(C2('' @ m3_dset r p2 c1 @ ''))'',
             ''# C1(C2('' @ m3_dset r p2 c2 @ ''))'', ''# C1(C2('' @ m3_dset r p2 c3 @ ''))'']"
      unfolding m3_out_echo_cutline ps by (simp add: c str_nat_small)
    from e f a b show "echoes_of ''create_cutplane'' ?out =
            [''# C1('' @ m3_dset r p1 c1 @ '')'', ''# C1('' @ m3_dset r p1 c2 @ '')'',
             ''# C1('' @ m3_dset r p1 c3 @ '')'', ''# C2('' @ m3_dset r p2 c1 @ '')'',
             ''# C2('' @ m3_dset r p2 c2 @ '')'', ''# C2('' @ m3_dset r p2 c3 @ '')'']
          \<and> echoes_of ''create_cutline'' ?out =
            [''# C1(C1('' @ m3_dset r p1 c1 @ ''))'', ''# C1(C1('' @ m3_dset r p1 c2 @ ''))'',
             ''# C1(C1('' @ m3_dset r p1 c3 @ ''))'', ''# C1(C2('' @ m3_dset r p2 c1 @ ''))'',
             ''# C1(C2('' @ m3_dset r p2 c2 @ ''))'', ''# C1(C2('' @ m3_dset r p2 c3 @ ''))'']
          \<and> filter (\<lambda>l. endswith l '' -1d'') (commands_named ''create_plot'' ?out) =
            [''create_plot -dataset C1(C1('' @ m3_dset r p1 c1 @ '')) -1d'',
             ''create_plot -dataset C1(C2('' @ m3_dset r p2 c1 @ '')) -1d'']
          \<and> commands_named ''export_curves'' ?out =
            [''export_curves {Curve_1 Curve_2 Curve_3} -plot Plot_C1(C1('' @ m3_dset r p1 c1
               @ '')) -filename '' @ m3_csv_export_path r @ m3_csv_filename r @ ''_set1_param1_'' @ p1
               @ ''.csv -format csv'',
             ''export_curves {Curve_1 Curve_2 Curve_3} -plot Plot_C1(C2('' @ m3_dset r p2 c1
               @ '')) -filename '' @ m3_csv_export_path r @ m3_csv_filename r @ ''_set2_param1_'' @ p2
               @ ''.csv -format csv'']"
      by (intro conjI)
  qed
  show ?thesis
    apply (rule exI [where x = ?out])
    apply (intro conjI)
                    apply (rule refl)
                   apply (rule either)
                  apply (rule ret)
                 apply (rule m3_out_echo_cutplane)
                apply (rule m3_out_echo_cutline)
               apply (rule d1)
              apply (rule d2)
             apply (rule m3_out_create_cutplane)
            apply (rule m3_out_create_plot)
           apply (rule m3_out_create_cutline)
          apply (rule m3_out_create_curve)
         apply (rule m3_out_plot_1d)
        apply (rule dp)
       apply (rule len)
      apply (rule de)
     apply (rule ids)
    apply (rule ids1)
    apply (rule inst)
    done
qed

lemma demo_mode3_shared_codes: "m3_tdr_codes demo_mode3_shared \<noteq> []"
  by (simp add: demo_mode3_shared_def)

lemma demo_mode3_shared_positions:
  "\<forall>cs\<in>set (m3_sets demo_mode3_shared). length (m3_tdr_codes demo_mode3_shared) \<le> length (cutline_positions cs)"
  by (simp add: demo_mode3_shared_def)

theorem mode3_counter_namespaces_witness:
  "\<exists>out. mode3_commands axis_order demo_mode3_shared = Return out
     \<and> echoes_of ''create_cutplane'' out =
        [''# C1(5A_eDensity_0001_des)'', ''# C1(5A_eDensity_0002_des)'', ''# C1(5A_eDensity_0003_des)'',
         ''# C2(5A_eDensity_0001_des)'', ''# C2(5A_eDensity_0002_des)'', ''# C2(5A_eDensity_0003_des)'']
     \<and> echoes_of ''create_cutline'' out =
        [''# C1(C1(5A_eDensity_0001_des))'', ''# C1(C1(5A_eDensity_0002_des))'',
         ''# C1(C1(5A_eDensity_0003_des))'', ''# C1(C2(5A_eDensity_0001_des))'',
         ''# C1(C2(5A_eDensity_0002_des))'', ''# C1(C2(5A_eDensity_0003_des))'']
     \<and> filter (\<lambda>l. endswith l '' -1d'') (commands_named ''create_plot'' out) =
        [''create_plot -dataset C1(C1(5A_eDensity_0001_des)) -1d'',
         ''create_plot -dataset C1(C2(5A_eDensity_0001_des)) -1d'']
     \<and> commands_named ''export_curves'' out =
        [''export_curves {Curve_1 Curve_2 Curve_3} -plot Plot_C1(C1(5A_eDensity_0001_des)) -filename /c/out_set1_param1_eDensity.csv -format csv'',
         ''export_curves {Curve_1 Curve_2 Curve_3} -plot Plot_C1(C2(5A_eDensity_0001_des)) -filename /c/out_set2_param1_eDensity.csv -format csv'']"
proof -
  from mode3_counter_namespaces [of axis_order demo_mode3_shared "''0001''" "''0002''" "''0003''"
         "\<lparr> cutplane_axis = ''x'', cutplane_position = ''0.5'', cutline_axis = ''y'',
             cutline_positions = [''1'', ''2'', ''3''], parameters = [''eDensity''] \<rparr>"
         "\<lparr> cutplane_axis = ''z'', cutplane_position = ''0.7'', cutline_axis = ''y'',
             cutline_positions = [''4'', ''5'', ''6''], parameters = [''eDensity''] \<rparr>"
         "''eDensity''" "''eDensity''"]
  obtain out where run: "m3_tdr_codes demo_mode3_shared \<noteq> []
        \<and> (\<forall>cs\<in>set (m3_sets demo_mode3_shared).
              length (m3_tdr_codes demo_mode3_shared) \<le> length (cutline_positions cs)) \<longrightarrow>
        mode3_commands axis_order demo_mode3_shared = Return out"
    and inst: "m3_tdr_codes demo_mode3_shared = [''0001'', ''0002'', ''0003'']
        \<and> m3_sets demo_mode3_shared =
          [\<lparr> cutplane_axis = ''x'', cutplane_position = ''0.5'', cutline_axis = ''y'',
             cutline_positions = [''1'', ''2'', ''3''], parameters = [''eDensity''] \<rparr>,
           \<lparr> cutplane_axis = ''z'', cutplane_position = ''0.7'', cutline_axis = ''y'',
             cutline_positions = [''4'', ''5'', ''6''], parameters = [''eDensity''] \<rparr>]
        \<and> parameters \<lparr> cutplane_axis = ''x'', cutplane_position = ''0.5'', cutline_axis = ''y'',
             cutline_positions = [''1'', ''2'', ''3''], parameters = [''eDensity''] \<rparr> = [''eDensity'']
        \<and> parameters \<lparr> cutplane_axis = ''z'', cutplane_position = ''0.7'', cutline_axis = ''y'',
             cutline_positions = [''4'', ''5'', ''6''], parameters = [''eDensity''] \<rparr> = [''eDensity'']
        \<longrightarrow>
          echoes_of ''create_cutplane'' out =
            [''# C1('' @ m3_dset demo_mode3_shared ''eDensity'' ''0001'' @ '')'', ''# C1('' @ m3_dset demo_mode3_shared ''eDensity'' ''0002'' @ '')'',
             ''# C1('' @ m3_dset demo_mode3_shared ''eDensity'' ''0003'' @ '')'', ''# C2('' @ m3_dset demo_mode3_shared ''eDensity'' ''0001'' @ '')'',
             ''# C2('' @ m3_dset demo_mode3_shared ''eDensity'' ''0002'' @ '')'', ''# C2('' @ m3_dset demo_mode3_shared ''eDensity'' ''0003'' @ '')'']
          \<and> echoes_of ''create_cutline'' out =
            [''# C1(C1('' @ m3_dset demo_mode3_shared ''eDensity'' ''0001'' @ ''))'', ''# C1(C1('' @ m3_dset demo_mode3_shared ''eDensity'' ''0002'' @ ''))'',
             ''# C1(C1('' @ m3_dset demo_mode3_shared ''eDensity'' ''0003'' @ ''))'', ''# C1(C2('' @ m3_dset demo_mode3_shared ''eDensity'' ''0001'' @ ''))'',
             ''# C1(C2('' @ m3_dset demo_mode3_shared ''eDensity'' ''0002'' @ ''))'', ''# C1(C2('' @ m3_dset demo_mode3_shared ''eDensity'' ''0003'' @ ''))'']
          \<and> filter (\<lambda>l. endswith l '' -1d'') (commands_named ''create_plot'' out) =
            [''create_plot -dataset C1(C1('' @ m3_dset demo_mode3_shared ''eDensity'' ''0001'' @ '')) -1d'',
             ''create_plot -dataset C1(C2('' @ m3_dset demo_mode3_shared ''eDensity'' ''0001'' @ '')) -1d'']
          \<and> commands_named ''export_curves'' out =
            [''export_curves {Curve_1 Curve_2 Curve_3} -plot Plot_C1(C1('' @ m3_dset demo_mode3_shared ''eDensity'' ''0001''
               @ '')) -filename '' @ m3_csv_export_path demo_mode3_shared @ m3_csv_filename demo_mode3_shared @ ''_set1_param1_'' @ ''eDensity''
               @ ''.csv -format csv'',
             ''export_curves {Curve_1 Curve_2 Curve_3} -plot Plot_C1(C2('' @ m3_dset demo_mode3_shared ''eDensity'' ''0001''
               @ '')) -filename '' @ m3_csv_export_path demo_mode3_shared @ m3_csv_filename demo_mode3_shared @ ''_set2_param1_'' @ ''eDensity''
               @ ''.csv -format csv'']"
    by (elim exE conjE) (rule that; assumption)
  from inst have
    "echoes_of ''create_cutplane'' out =
        [''# C1(5A_eDensity_0001_des)'', ''# C1(5A_eDensity_0002_des)'', ''# C1(5A_eDensity_0003_des)'',
         ''# C2(5A_eDensity_0001_des)'', ''# C2(5A_eDensity_0002_des)'', ''# C2(5A_eDensity_0003_des)'']
     \<and> echoes_of ''create_cutline'' out =
        [''# C1(C1(5A_eDensity_0001_des))'', ''# C1(C1(5A_eDensity_0002_des))'',
         ''# C1(C1(5A_eDensity_0003_des))'', ''# C1(C2(5A_eDensity_0001_des))'',
         ''# C1(C2(5A_eDensity_0002_des))'', ''# C1(C2(5A_eDensity_0003_des))'']
     \<and> filter (\<lambda>l. endswith l '' -1d'') (commands_named ''create_plot'' out) =
        [''create_plot -dataset C1(C1(5A_eDensity_0001_des)) -1d'',
         ''create_plot -dataset C1(C2(5A_eDensity_0001_des)) -1d'']
     \<and> commands_named ''export_curves'' out =
        [''export_curves {Curve_1 Curve_2 Curve_3} -plot Plot_C1(C1(5A_eDensity_0001_des)) -filename /c/out_set1_param1_eDensity.csv -format csv'',
         ''export_curves {Curve_1 Curve_2 Curve_3} -plot Plot_C1(C2(5A_eDensity_0001_des)) -filename /c/out_set2_param1_eDensity.csv -format csv'']"
    by (simp add: demo_mode3_shared_def m3_dset_def)
  moreover from run demo_mode3_shared_codes demo_mode3_shared_positions
  have "mode3_commands axis_order demo_mode3_shared = Return out" by (rule mp [OF _ conjI])
  ultimately show ?thesis by blast
qed

lemma demo_mode3_codes: "m3_tdr_codes demo_mode3 \<noteq> []"
  by (simp add: demo_mode3_def)

lemma demo_mode3_positions:
  "\<forall>cs\<in>set (m3_sets demo_mode3). length (m3_tdr_codes demo_mode3) \<le> length (cutline_positions cs)"
  by (simp add: demo_mode3_def)

text \<open>
  Claim C6.  In Mode 3, when there is a TDR code and every set has a cutline position for
  each TDR code, the \<^verbatim>\<open>create_cutline\<close> command of the TDR code at position \<open>i\<close> uses
  the cutline position at index \<open>i\<close> of the set, for every (set, parameter) pair, and the
  \<^verbatim>\<open>export_curves\<close> command of a pair writes to
  \<^verbatim>\<open>{csvPath}{csvFilename}_set{setIndex}_param{paramIndex+1}_{parameter}.csv\<close>, the sets
  counted from 1 and the parameters within a set from 0.  There is no wrap-around: a set
  with a parameter and fewer positions than TDR codes makes the generator raise
  \<^verbatim>\<open>IndexError\<close>.
\<close>

theorem mode3_cutline_positions_and_csv_names:
  "(m3_tdr_codes r \<noteq> []
      \<and> (\<forall>cs\<in>set (m3_sets r). length (m3_tdr_codes r) \<le> length (cutline_positions cs)) \<longrightarrow>
      (\<exists>out. mode3_commands to_list r = Return out
         \<and> commands_named ''create_cutline'' out =
             concat (map (\<lambda>(k, set_idx, cutset, param_idx, parameter).
                map (\<lambda>(i, code). ''create_cutline -plot Plot_C'' @ str_nat (k + 1) @ ''(''
                       @ m3_dset r parameter code @ '') -type '' @ cutline_axis cutset @ '' -at ''
                       @ cutline_positions cutset ! i)
                    (enumerate 0 (m3_tdr_codes r)))
               (enumerate 0 (m3_pairs r)))
         \<and> commands_named ''export_curves'' out =
             map (\<lambda>(k, set_idx, cutset, param_idx, parameter).
                ''export_curves {''
                @ py_join '' '' (map (\<lambda>i. ''Curve_'' @ str_nat (i + 1)) [0..<length (m3_tdr_codes r)])
                @ ''} -plot Plot_C1(C'' @ str_nat (k + 1) @ ''('' @ m3_dset r parameter (hd (m3_tdr_codes r))
                @ '')) -filename '' @ m3_csv_export_path r @ m3_csv_filename r @ ''_set'' @ str_nat set_idx
                @ ''_param'' @ str_nat (param_idx + 1) @ ''_'' @ parameter @ ''.csv'' @ '' -format csv'')
               (enumerate 0 (m3_pairs r))))
   \<and> ((\<exists>cs\<in>set (m3_sets r). parameters cs \<noteq> []
          \<and> length (cutline_positions cs) < length (m3_tdr_codes r)) \<longrightarrow>
        mode3_commands to_list r = Raise IndexError)
   \<and> m3_pairs r =
        concat (map (\<lambda>(set_idx, cutset).
                  map (\<lambda>(param_idx, parameter). (set_idx, cutset, param_idx, parameter))
                      (enumerate 0 (parameters cutset)))
               (enumerate 1 (m3_sets r)))"
proof (intro conjI impI)
  assume "m3_tdr_codes r \<noteq> []
      \<and> (\<forall>cs\<in>set (m3_sets r). length (m3_tdr_codes r) \<le> length (cutline_positions cs))"
  then have ret: "mode3_commands to_list r
      = Return (concat (map (m3_lines to_list r) (enumerate 0 (m3_pairs r))))"
    by (intro mode3_commands_ok) simp_all
  show "\<exists>out. mode3_commands to_list r = Return out
         \<and> commands_named ''create_cutline'' out =
             concat (map (\<lambda>(k, set_idx, cutset, param_idx, parameter).
                map (\<lambda>(i, code). ''create_cutline -plot Plot_C'' @ str_nat (k + 1) @ ''(''
                       @ m3_dset r parameter code @ '') -type '' @ cutline_axis cutset @ '' -at ''
                       @ cutline_positions cutset ! i)
                    (enumerate 0 (m3_tdr_codes r)))
               (enumerate 0 (m3_pairs r)))
         \<and> commands_named ''export_curves'' out =
             map (\<lambda>(k, set_idx, cutset, param_idx, parameter).
                ''export_curves {''
                @ py_join '' '' (map (\<lambda>i. ''Curve_'' @ str_nat (i + 1)) [0..<length (m3_tdr_codes r)])
                @ ''} -plot Plot_C1(C'' @ str_nat (k + 1) @ ''('' @ m3_dset r parameter (hd (m3_tdr_codes r))
                @ '')) -filename '' @ m3_csv_export_path r @ m3_csv_filename r @ ''_set'' @ str_nat set_idx
                @ ''_param'' @ str_nat (param_idx + 1) @ ''_'' @ parameter @ ''.csv'' @ '' -format csv'')
               (enumerate 0 (m3_pairs r))"
    apply (rule exI [where x = "concat (map (m3_lines to_list r) (enumerate 0 (m3_pairs r)))"])
    apply (intro conjI)
      apply (rule ret)
     apply (rule m3_out_create_cutline)
    apply (rule m3_out_export_curves)
    done
next
  assume "\<exists>cs\<in>set (m3_sets r). parameters cs \<noteq> []
          \<and> length (cutline_positions cs) < length (m3_tdr_codes r)"
  then show "mode3_commands to_list r = Raise IndexError"
    by (rule mode3_commands_short)
next
  show "m3_pairs r =
        concat (map (\<lambda>(set_idx, cutset).
                  map (\<lambda>(param_idx, parameter). (set_idx, cutset, param_idx, parameter))
                      (enumerate 0 (parameters cutset)))
               (enumerate 1 (m3_sets r)))"
    by (simp only: m3_pairs_def pairs_of_def)
qed

theorem mode3_cutline_positions_and_csv_names_witness:
  "(\<exists>out. mode3_commands axis_order demo_mode3 = Return out
      \<and> commands_named ''create_cutline'' out =
         [''create_cutline -plot Plot_C1(5A_eDensity_0001_des) -type y -at 1'',
          ''create_cutline -plot Plot_C1(5A_eDensity_0002_des) -type y -at 2'',
          ''create_cutline -plot Plot_C1(5A_eDensity_0003_des) -type y -at 3'',
          ''create_cutline -plot Plot_C2(5A_hDensity_0001_des) -type y -at 4'',
          ''create_cutline -plot Plot_C2(5A_hDensity_0002_des) -type y -at 5'',
          ''create_cutline -plot Plot_C2(5A_hDensity_0003_des) -type y -at 6''])
   \<and> mode3_commands axis_order (demo_mode3 \<lparr> m3_tdr_codes := [''0001'', ''0002'', ''0003'', ''0004''] \<rparr>)
       = Raise IndexError"
proof -
  let ?short = "demo_mode3 \<lparr> m3_tdr_codes := [''0001'', ''0002'', ''0003'', ''0004''] \<rparr>"
  have ps: "enumerate 0 (m3_pairs demo_mode3) =
     [(0, 1, \<lparr> cutplane_axis = ''x'', cutplane_position = ''0.5'', cutline_axis = ''y'',
             cutline_positions = [''1'', ''2'', ''3''], parameters = [''eDensity''] \<rparr>, 0, ''eDensity''),
      (1, 2, \<lparr> cutplane_axis = ''z'', cutplane_position = ''0.7'', cutline_axis = ''y'',
             cutline_positions = [''4'', ''5'', ''6''], parameters = [''hDensity''] \<rparr>, 0, ''hDensity'')]"
    by (rule m3_pairs_two_sets) (simp_all add: demo_mode3_def)
  from mode3_cutline_positions_and_csv_names [of demo_mode3 axis_order]
    demo_mode3_codes demo_mode3_positions
  obtain out where ret: "mode3_commands axis_order demo_mode3 = Return out"
    and cl: "commands_named ''create_cutline'' out =
             concat (map (\<lambda>(k, set_idx, cutset, param_idx, parameter).
                map (\<lambda>(i, code). ''create_cutline -plot Plot_C'' @ str_nat (k + 1) @ ''(''
                       @ m3_dset demo_mode3 parameter code @ '') -type '' @ cutline_axis cutset @ '' -at ''
                       @ cutline_positions cutset ! i)
                    (enumerate 0 (m3_tdr_codes demo_mode3)))
               (enumerate 0 (m3_pairs demo_mode3)))"
    by blast
  have "commands_named ''create_cutline'' out =
         [''create_cutline -plot Plot_C1(5A_eDensity_0001_des) -type y -at 1'',
          ''create_cutline -plot Plot_C1(5A_eDensity_0002_des) -type y -at 2'',
          ''create_cutline -plot Plot_C1(5A_eDensity_0003_des) -type y -at 3'',
          ''create_cutline -plot Plot_C2(5A_hDensity_0001_des) -type y -at 4'',
          ''create_cutline -plot Plot_C2(5A_hDensity_0002_des) -type y -at 5'',
          ''create_cutline -plot Plot_C2(5A_hDensity_0003_des) -type y -at 6'']"
    unfolding cl ps by (simp add: demo_mode3_def m3_dset_def str_nat_small)
  with ret have a: "\<exists>out. mode3_commands axis_order demo_mode3 = Return out
      \<and> commands_named ''create_cutline'' out =
         [''create_cutline -plot Plot_C1(5A_eDensity_0001_des) -type y -at 1'',
          ''create_cutline -plot Plot_C1(5A_eDensity_0002_des) -type y -at 2'',
          ''create_cutline -plot Plot_C1(5A_eDensity_0003_des) -type y -at 3'',
          ''create_cutline -plot Plot_C2(5A_hDensity_0001_des) -type y -at 4'',
          ''create_cutline -plot Plot_C2(5A_hDensity_0002_des) -type y -at 5'',
          ''create_cutline -plot Plot_C2(5A_hDensity_0003_des) -type y -at 6'']"
    by blast
  have "\<exists>cs\<in>set (m3_sets ?short). parameters cs \<noteq> []
          \<and> length (cutline_positions cs) < length (m3_tdr_codes ?short)"
    by (simp add: demo_mode3_def)
  with mode3_cutline_positions_and_csv_names [of ?short axis_order]
  have b: "mode3_commands axis_order ?short = Raise IndexError" by blast
  from a b show ?thesis ..
qed

section \<open>Properties of Mode 1\<close>

lemma length_cross_file_bases:
  "length (cross_file_bases r parameter) = length (node_names r) * length (m1_tdr_codes r)"
  by (induction "node_names r" arbitrary: r) (simp_all add: cross_file_bases_def length_concat comp_def sum_list_triv)

lemma length_file_bases_of: "length (file_bases_of r parameter) = files_per_pair r"
  by (simp add: file_bases_of_def files_per_pair_def length_cross_file_bases)

lemma m1_file_bases_ok:
  assumes "m1_ready r"
  shows "m1_file_bases r parameter = Next (file_bases_of r parameter)"
    and "file_bases_of r parameter \<noteq> []"
proof -
  from assms obtain node0 others where n: "node_names r = node0 # others"
    by (cases "node_names r") (auto simp: m1_ready_def)
  show "m1_file_bases r parameter = Next (file_bases_of r parameter)"
    by (simp add: m1_file_bases_def file_bases_of_def n)
  have "files_per_pair r \<noteq> 0"
    using assms n by (auto simp: files_per_pair_def m1_ready_def)
  then show "file_bases_of r parameter \<noteq> []"
    using length_file_bases_of [of r parameter] by auto
qed

lemma m1_block_ok:
  assumes "m1_ready r" and "cutline_positions cutset \<noteq> []"
  shows "m1_block to_list r set_idx cutset param_idx parameter (Suc (k * files_per_pair r))
         = Next (m1_lines to_list r (k, set_idx, cutset, param_idx, parameter),
                 Suc (Suc k * files_per_pair r))"
  using m1_file_bases_ok [OF assms(1), of parameter] assms(2)
  by (simp add: m1_block_def bind_flow_def m1_lines_def length_file_bases_of)

lemma m1_blocks_from_append:
  "m1_blocks_from to_list r c (ps @ qs)
   = m1_blocks_from to_list r c ps @ m1_blocks_from to_list r (c + length ps) qs"
  by (simp add: m1_blocks_from_def enumerate_append_eq)

lemma m1_parameters_ok:
  assumes "m1_ready r" and "cutline_positions cutset \<noteq> []"
  shows "m1_parameters to_list r set_idx cutset es (Suc (c * files_per_pair r), cmds) =
     Next (Suc ((c + length es) * files_per_pair r),
           cmds @ m1_blocks_from to_list r c
                    (map (\<lambda>(param_idx, parameter). (set_idx, cutset, param_idx, parameter)) es))"
proof (induction es arbitrary: c cmds)
  case Nil
  show ?case by (simp add: m1_blocks_from_def)
next
  case (Cons e es)
  obtain param_idx parameter where e: "e = (param_idx, parameter)" by (cases e)
  have step: "m1_parameters to_list r set_idx cutset ((param_idx, parameter) # es)
                (Suc (c * files_per_pair r), cmds)
        = m1_parameters to_list r set_idx cutset es
            (Suc (Suc c * files_per_pair r),
             cmds @ m1_lines to_list r (c, set_idx, cutset, param_idx, parameter))"
    by (simp only: m1_parameters.simps m1_block_ok [OF assms] bind_flow_def flow.case prod.case)
  have eta: "(\<lambda>(param_idx, parameter). (set_idx, cutset, param_idx, parameter)) = (\<lambda>a. (set_idx, cutset, a))"
    by auto
  show ?case
    unfolding e step Cons.IH eta
    by (simp add: m1_blocks_from_def)
qed

lemma m1_sets_loop_ok:
  assumes "m1_ready r"
    and "\<forall>s\<in>set ses. cutline_positions (snd s) \<noteq> []"
  shows "m1_sets_loop to_list r ses (Suc (c * files_per_pair r), cmds) =
     Next (Suc ((c + length (pairs_of ses)) * files_per_pair r),
           cmds @ m1_blocks_from to_list r c (pairs_of ses))"
  using assms(2)
proof (induction ses arbitrary: c cmds)
  case Nil
  show ?case by (simp add: m1_blocks_from_def pairs_of_def)
next
  case (Cons s ses)
  obtain set_idx cutset where s: "s = (set_idx, cutset)" by (cases s)
  from Cons.prems s have pos: "cutline_positions cutset \<noteq> []" by simp
  from Cons.prems have rest: "\<forall>s\<in>set ses. cutline_positions (snd s) \<noteq> []" by simp
  have split: "pairs_of ((set_idx, cutset) # ses) =
      map (\<lambda>(param_idx, parameter). (set_idx, cutset, param_idx, parameter)) (enumerate 0 (parameters cutset))
      @ pairs_of ses"
    by (simp add: pairs_of_def)
  have step: "m1_sets_loop to_list r ((set_idx, cutset) # ses) (Suc (c * files_per_pair r), cmds)
     = m1_sets_loop to_list r ses
         (Suc ((c + length (parameters cutset)) * files_per_pair r),
          cmds @ m1_blocks_from to_list r c
                    (map (\<lambda>(param_idx, parameter). (set_idx, cutset, param_idx, parameter))
                         (enumerate 0 (parameters cutset))))"
    by (simp only: m1_sets_loop.simps m1_parameters_ok [OF assms(1) pos] bind_flow_def flow.case
        length_enumerate)
  show ?case
    unfolding s step Cons.IH [OF rest] split
    by (simp add: m1_blocks_from_append add.assoc)
qed

lemma mode1_commands_ok:
  assumes "m1_ready r"
    and "\<forall>cs\<in>set (m1_sets r). cutline_positions cs \<noteq> []"
  shows "mode1_commands to_list r
       = Return (console_header @ concat (map (m1_lines to_list r) (enumerate 0 (m1_pairs r))))"
proof -
  have "\<forall>s\<in>set (enumerate 1 (m1_sets r)). cutline_positions (snd s) \<noteq> []"
    using assms(2) by (auto simp: in_set_enumerate_eq)
  from m1_sets_loop_ok [OF assms(1) this, of to_list 0 console_header]
  show ?thesis
    by (simp add: mode1_commands_def bind_flow_def m1_pairs_def m1_blocks_from_def)
qed

lemma m1_curves_eq:
  "m1_curves to_list r set_idx cutset param_idx parameter fb0 fbs cc =
     (concat (map (\<lambda>(c, fb). m1_curve to_list r set_idx cutset param_idx parameter fb0 c fb)
                  (enumerate cc fbs)),
      map (\<lambda>c. ''Curve_'' @ str_nat c) [cc..<cc + length fbs],
      cc + length fbs)"
proof (induction fbs arbitrary: cc)
  case Nil
  show ?case by simp
next
  case (Cons fb fbs)
  have "[cc..<cc + length (fb # fbs)] = cc # [Suc cc..<Suc cc + length fbs]"
    by (subst upt_rec) simp
  then show ?case by (simp add: Cons.IH)
qed

lemma m1_block_lines_eq:
  "m1_block_lines to_list r set_idx cutset param_idx parameter cc fbs =
     concat (map (m1_load r) fbs)
     @ m1_link fbs (hd fbs)
     @ m1_field fbs parameter
     @ concat (map (m1_cutplane set_idx cutset) fbs)
     @ concat (map (m1_cutplane_plot set_idx) fbs)
     @ concat (map (m1_cutline set_idx cutset) (enumerate 0 fbs))
     @ m1_plot1d set_idx param_idx (hd fbs)
     @ concat (map (\<lambda>(c, fb). m1_curve to_list r set_idx cutset param_idx parameter (hd fbs) c fb)
                   (enumerate cc fbs))
     @ m1_export r set_idx param_idx parameter (hd fbs)
         (map (\<lambda>c. ''Curve_'' @ str_nat c) [cc..<cc + length fbs])"
  by (simp only: m1_block_lines_def m1_curves_eq prod.case)

lemmas m1_defs = m1_block_lines_eq m1_load_def m1_link_def m1_field_def m1_cutplane_def
  m1_cutplane_plot_def m1_cutline_def m1_plot1d_def m1_curve_def m1_export_def unified_plot_name_def
  Let_def

lemma m1_obs_load_file:
  "commands_named ''load_file'' (m1_block_lines to_list r set_idx cutset param_idx parameter cc fbs) =
     map (\<lambda>fb. ''load_file '' @ m1_base_path r @ fb @ ''_des.tdr -fod'') fbs"
  by (simp add: m1_defs cn_simps)

lemma m1_obs_link_plots:
  "commands_named ''link_plots'' (m1_block_lines to_list r set_idx cutset param_idx parameter cc fbs) =
     [''link_plots {'' @ py_join '' '' (map (\<lambda>fb. ''Plot_'' @ fb @ ''_des'') fbs) @ ''}'']"
  by (simp add: m1_defs cn_simps)

lemma m1_obs_create_cutplane:
  "commands_named ''create_cutplane'' (m1_block_lines to_list r set_idx cutset param_idx parameter cc fbs) =
     map (\<lambda>fb. ''create_cutplane -plot Plot_'' @ fb @ ''_des -type '' @ cutplane_axis cutset
                 @ '' -at '' @ cutplane_position cutset) fbs"
  by (simp add: m1_defs cn_simps)

lemma m1_obs_create_plot:
  "commands_named ''create_plot'' (m1_block_lines to_list r set_idx cutset param_idx parameter cc fbs) =
     map (\<lambda>fb. ''create_plot -dataset '' @ fb @ ''_des'') fbs
     @ map (\<lambda>fb. ''create_plot -dataset C'' @ str_nat set_idx @ ''('' @ fb @ ''_des) -ref_plot Plot_''
                   @ fb @ ''_des'') fbs
     @ [''create_plot -dataset C1(C'' @ str_nat set_idx @ ''('' @ hd fbs @ ''_des)) -1d'']"
  by (simp add: m1_defs cn_simps)

lemma m1_obs_create_cutline:
  "commands_named ''create_cutline'' (m1_block_lines to_list r set_idx cutset param_idx parameter cc fbs) =
     map (\<lambda>(i, fb). ''create_cutline -plot Plot_C'' @ str_nat set_idx @ ''('' @ fb @ ''_des) -type ''
                     @ cutline_axis cutset @ '' -at ''
                     @ cutline_positions cutset ! (i mod length (cutline_positions cutset)))
         (enumerate 0 fbs)"
  by (simp add: m1_defs cn_simps)

lemma m1_obs_create_curve:
  "commands_named ''create_curve'' (m1_block_lines to_list r set_idx cutset param_idx parameter cc fbs) =
     map (\<lambda>fb. ''create_curve -axisX '' @ get_axis_mapping to_list (cutplane_axis cutset) (cutline_axis cutset)
                 @ '' -axisY '' @ parameter @ '' -dataset {C1(C'' @ str_nat set_idx @ ''('' @ fb
                 @ ''_des))} -plot Plot_C1(C'' @ str_nat set_idx @ ''('' @ hd fbs @ ''_des))_S''
                 @ str_nat set_idx @ ''P'' @ str_nat param_idx) fbs"
proof -
  have "commands_named ''create_curve'' (m1_block_lines to_list r set_idx cutset param_idx parameter cc fbs) =
     map (\<lambda>x. (\<lambda>fb. ''create_curve -axisX '' @ get_axis_mapping to_list (cutplane_axis cutset) (cutline_axis cutset)
                 @ '' -axisY '' @ parameter @ '' -dataset {C1(C'' @ str_nat set_idx @ ''('' @ fb
                 @ ''_des))} -plot Plot_C1(C'' @ str_nat set_idx @ ''('' @ hd fbs @ ''_des))_S''
                 @ str_nat set_idx @ ''P'' @ str_nat param_idx) (snd x)) (enumerate cc fbs)"
    by (simp add: m1_defs cn_simps)
  also have "\<dots> = map (\<lambda>fb. ''create_curve -axisX '' @ get_axis_mapping to_list (cutplane_axis cutset) (cutline_axis cutset)
                 @ '' -axisY '' @ parameter @ '' -dataset {C1(C'' @ str_nat set_idx @ ''('' @ fb
                 @ ''_des))} -plot Plot_C1(C'' @ str_nat set_idx @ ''('' @ hd fbs @ ''_des))_S''
                 @ str_nat set_idx @ ''P'' @ str_nat param_idx) (map snd (enumerate cc fbs))"
    by (simp only: map_map comp_def)
  finally show ?thesis by (simp only: map_snd_enumerate)
qed

lemma m1_obs_export_curves:
  "commands_named ''export_curves'' (m1_block_lines to_list r set_idx cutset param_idx parameter cc fbs) =
     [''export_curves {'' @ py_join '' '' (map (\<lambda>c. ''Curve_'' @ str_nat c) [cc..<cc + length fbs])
        @ ''} -plot Plot_C1(C'' @ str_nat set_idx @ ''('' @ hd fbs @ ''_des))_S''
        @ str_nat set_idx @ ''P'' @ str_nat param_idx
        @ '' -filename '' @ m1_csv_export_path r @ m1_csv_filename r @ ''_set'' @ str_nat set_idx
        @ ''_param_'' @ parameter @ ''.csv'' @ '' -format csv'']"
  by (simp add: m1_defs cn_simps)

lemma cn_header_none:
  assumes "w \<noteq> ''#''" and "w \<noteq> ''################################################''"
  shows "commands_named w (console_header @ xs) = commands_named w xs"
  using assms by (auto simp: commands_named_def console_header_def first_word_def)

lemma m1_out_create_cutline:
  "commands_named ''create_cutline'' (console_header @ concat (map (m1_lines to_list r) ps)) =
     concat (map (\<lambda>(k, set_idx, cutset, param_idx, parameter).
        map (\<lambda>(i, fb). ''create_cutline -plot Plot_C'' @ str_nat set_idx @ ''('' @ fb @ ''_des) -type ''
                     @ cutline_axis cutset @ '' -at ''
                     @ cutline_positions cutset ! (i mod length (cutline_positions cutset)))
            (enumerate 0 (file_bases_of r parameter))) ps)"
proof -
  have "commands_named ''create_cutline'' (concat (map (m1_lines to_list r) ps)) =
     concat (map (\<lambda>(k, set_idx, cutset, param_idx, parameter).
        map (\<lambda>(i, fb). ''create_cutline -plot Plot_C'' @ str_nat set_idx @ ''('' @ fb @ ''_des) -type ''
                     @ cutline_axis cutset @ '' -at ''
                     @ cutline_positions cutset ! (i mod length (cutline_positions cutset)))
            (enumerate 0 (file_bases_of r parameter))) ps)"
  proof (rule commands_named_blocks)
    fix x :: "nat \<times> nat \<times> cutset \<times> nat \<times> string"
    obtain k set_idx cutset param_idx parameter where x: "x = (k, set_idx, cutset, param_idx, parameter)"
      by (cases x)
    show "commands_named ''create_cutline'' (m1_lines to_list r x) =
       (case x of (k, set_idx, cutset, param_idx, parameter) \<Rightarrow>
        map (\<lambda>(i, fb). ''create_cutline -plot Plot_C'' @ str_nat set_idx @ ''('' @ fb @ ''_des) -type ''
                     @ cutline_axis cutset @ '' -at ''
                     @ cutline_positions cutset ! (i mod length (cutline_positions cutset)))
            (enumerate 0 (file_bases_of r parameter)))"
      unfolding x m1_lines_def prod.case by (rule m1_obs_create_cutline)
  qed
  then show ?thesis by (simp add: cn_header_none)
qed

lemma str_nat_4: "str_nat 4 = ''4''"
  by (subst str_nat.simps) (simp add: digit_char_def)

lemma str_nat_Suc3: "str_nat (Suc (Suc (Suc 0))) = ''3''"
  using str_nat_3 by (simp add: numeral_3_eq_3)

lemma str_nat_Suc4: "str_nat (Suc (Suc (Suc (Suc 0)))) = ''4''"
  using str_nat_4 by (simp add: eval_nat_numeral)

lemma upt_1_5: "[Suc 0..<5] = [Suc 0, 2, 3, 4]"
  by (simp add: upt_rec)

lemma mod_two_Suc:
  "Suc (Suc 0) mod Suc (Suc 0) = 0" "Suc (Suc (Suc 0)) mod Suc (Suc 0) = Suc 0"
  by (simp_all add: mod_Suc)

text \<open>
  Claim C1.  For a Mode 1 request with two nodes, two TDR codes, no last TDR and one set
  with one parameter and a cutline position per TDR code, the generator returns a list
  with four \<^verbatim>\<open>load_file\<close> commands, each followed by the \<^verbatim>\<open>create_plot\<close> of its dataset,
  one \<^verbatim>\<open>link_plots\<close> command over the four plots, four \<^verbatim>\<open>create_cutplane\<close> commands, four
  plots of cutplanes, four \<^verbatim>\<open>create_cutline\<close> commands, one 1D plot, four
  \<^verbatim>\<open>create_curve\<close> commands and one \<^verbatim>\<open>export_curves\<close> command, whose file name ends with
  \<^verbatim>\<open>_set1_param_{parameter}.csv\<close>.
\<close>

theorem mode1_two_nodes_two_codes:
  assumes "node_names r = [n1, n2]" and "m1_tdr_codes r = [c1, c2]" and "\<not> wants_last_tdr r"
    and "m1_sets r = [s]" and "parameters s = [p]" and "cutline_positions s = [q1, q2]"
    and "fb1 = m1_file_base r p c1" and "fb2 = m1_file_base r p c2"
  shows "\<exists>out. mode1_commands to_list r = Return out
     \<and> commands_named ''load_file'' out =
         [''load_file '' @ m1_base_path r @ fb1 @ ''_des.tdr -fod'',
          ''load_file '' @ m1_base_path r @ fb2 @ ''_des.tdr -fod'',
          ''load_file '' @ m1_base_path r @ fb1 @ ''_des.tdr -fod'',
          ''load_file '' @ m1_base_path r @ fb2 @ ''_des.tdr -fod'']
     \<and> commands_named ''link_plots'' out =
         [''link_plots {Plot_'' @ fb1 @ ''_des Plot_'' @ fb2 @ ''_des Plot_'' @ fb1 @ ''_des Plot_''
            @ fb2 @ ''_des}'']
     \<and> commands_named ''create_cutplane'' out =
         [''create_cutplane -plot Plot_'' @ fb1 @ ''_des -type '' @ cutplane_axis s @ '' -at '' @ cutplane_position s,
          ''create_cutplane -plot Plot_'' @ fb2 @ ''_des -type '' @ cutplane_axis s @ '' -at '' @ cutplane_position s,
          ''create_cutplane -plot Plot_'' @ fb1 @ ''_des -type '' @ cutplane_axis s @ '' -at '' @ cutplane_position s,
          ''create_cutplane -plot Plot_'' @ fb2 @ ''_des -type '' @ cutplane_axis s @ '' -at '' @ cutplane_position s]
     \<and> commands_named ''create_plot'' out =
         [''create_plot -dataset '' @ fb1 @ ''_des'',
          ''create_plot -dataset '' @ fb2 @ ''_des'',
          ''create_plot -dataset '' @ fb1 @ ''_des'',
          ''create_plot -dataset '' @ fb2 @ ''_des'',
          ''create_plot -dataset C1('' @ fb1 @ ''_des) -ref_plot Plot_'' @ fb1 @ ''_des'',
          ''create_plot -dataset C1('' @ fb2 @ ''_des) -ref_plot Plot_'' @ fb2 @ ''_des'',
          ''create_plot -dataset C1('' @ fb1 @ ''_des) -ref_plot Plot_'' @ fb1 @ ''_des'',
          ''create_plot -dataset C1('' @ fb2 @ ''_des) -ref_plot Plot_'' @ fb2 @ ''_des'',
          ''create_plot -dataset C1(C1('' @ fb1 @ ''_des)) -1d'']
     \<and> commands_named ''create_cutline'' out =
         [''create_cutline -plot Plot_C1('' @ fb1 @ ''_des) -type '' @ cutline_axis s @ '' -at '' @ q1,
          ''create_cutline -plot Plot_C1('' @ fb2 @ ''_des) -type '' @ cutline_axis s @ '' -at '' @ q2,
          ''create_cutline -plot Plot_C1('' @ fb1 @ ''_des) -type '' @ cutline_axis s @ '' -at '' @ q1,
          ''create_cutline -plot Plot_C1('' @ fb2 @ ''_des) -type '' @ cutline_axis s @ '' -at '' @ q2]
     \<and> commands_named ''create_curve'' out =
         map (\<lambda>fb. ''create_curve -axisX '' @ get_axis_mapping to_list (cutplane_axis s) (cutline_axis s)
                 @ '' -axisY '' @ p @ '' -dataset {C1(C1('' @ fb @ ''_des))} -plot Plot_C1(C1('' @ fb1
                 @ ''_des))_S1P0'') [fb1, fb2, fb1, fb2]
     \<and> commands_named ''export_curves'' out =
         [''export_curves {Curve_1 Curve_2 Curve_3 Curve_4} -plot Plot_C1(C1('' @ fb1 @ ''_des))_S1P0''
            @ '' -filename '' @ m1_csv_export_path r @ m1_csv_filename r @ ''_set1_param_'' @ p @ ''.csv''
            @ '' -format csv'']"
proof -
  let ?fbs = "[fb1, fb2, fb1, fb2]"
  let ?out = "console_header @ m1_block_lines to_list r 1 s 0 p 1 ?fbs"
  have ready: "m1_ready r" using assms(1,2) by (simp add: m1_ready_def)
  have pos: "\<forall>cs\<in>set (m1_sets r). cutline_positions cs \<noteq> []" using assms(4,6) by simp
  have fbs: "file_bases_of r p = ?fbs"
    using assms(1,2,3,7,8) by (simp add: file_bases_of_def cross_file_bases_def)
  have ps: "enumerate 0 (m1_pairs r) = [(0, 1, s, 0, p)]"
    using assms(4,5) by (simp add: m1_pairs_def pairs_of_def)
  have ret: "mode1_commands to_list r = Return ?out"
    unfolding mode1_commands_ok [OF ready pos] ps
    by (simp add: m1_lines_def fbs)
  have zero: "str_nat 0 = ''0''"
    by (subst str_nat.simps) (simp add: digit_char_def)
  note nums = str_nat_small str_nat_4 str_nat_Suc3 str_nat_Suc4 zero
  show ?thesis
    apply (rule exI [where x = ?out])
    apply (intro conjI)
           apply (rule ret)
          apply (simp add: cn_header_none m1_obs_load_file)
         apply (simp add: cn_header_none m1_obs_link_plots)
        apply (simp add: cn_header_none m1_obs_create_cutplane)
       apply (simp add: cn_header_none m1_obs_create_plot nums)
      apply (simp add: cn_header_none m1_obs_create_cutline nums assms(6) mod_two_Suc)
     apply (simp add: cn_header_none m1_obs_create_curve nums)
    apply (simp add: cn_header_none m1_obs_export_curves nums upt_1_5)
    done
qed

theorem mode1_two_nodes_two_codes_witness:
  "\<exists>out. mode1_commands axis_order demo_mode1_grid = Return out
     \<and> commands_named ''link_plots'' out =
         [''link_plots {Plot_5A_eDensity_0001_des Plot_5A_eDensity_0002_des Plot_5A_eDensity_0001_des Plot_5A_eDensity_0002_des}'']
     \<and> commands_named ''export_curves'' out =
         [''export_curves {Curve_1 Curve_2 Curve_3 Curve_4} -plot Plot_C1(C1(5A_eDensity_0001_des))_S1P0 -filename /c/out_set1_param_eDensity.csv -format csv'']"
proof -
  let ?s = "\<lparr> cutplane_axis = ''x'', cutplane_position = ''0.5'', cutline_axis = ''y'',
             cutline_positions = [''10'', ''20''], parameters = [''eDensity''] \<rparr>"
  have 1: "node_names demo_mode1_grid = [''n1257_I4.6'', ''n1258_I4.6'']"
    by (simp add: demo_mode1_grid_def)
  have 2: "m1_tdr_codes demo_mode1_grid = [''0001'', ''0002'']"
    by (simp add: demo_mode1_grid_def)
  have 3: "\<not> wants_last_tdr demo_mode1_grid"
    by (simp add: demo_mode1_grid_def wants_last_tdr_def)
  have 4: "m1_sets demo_mode1_grid = [?s]"
    by (simp add: demo_mode1_grid_def)
  have 5: "parameters ?s = [''eDensity'']" by simp
  have 6: "cutline_positions ?s = [''10'', ''20'']" by simp
  have 7: "''5A_eDensity_0001'' = m1_file_base demo_mode1_grid ''eDensity'' ''0001''"
    by (simp add: m1_file_base_def demo_mode1_grid_def)
  have 8: "''5A_eDensity_0002'' = m1_file_base demo_mode1_grid ''eDensity'' ''0002''"
    by (simp add: m1_file_base_def demo_mode1_grid_def)
  from mode1_two_nodes_two_codes [OF 1 2 3 4 5 6 7 8, of axis_order]
  obtain out where ret: "mode1_commands axis_order demo_mode1_grid = Return out"
    and l: "commands_named ''link_plots'' out =
         [''link_plots {Plot_'' @ ''5A_eDensity_0001'' @ ''_des Plot_'' @ ''5A_eDensity_0002''
            @ ''_des Plot_'' @ ''5A_eDensity_0001'' @ ''_des Plot_'' @ ''5A_eDensity_0002'' @ ''_des}'']"
    and e: "commands_named ''export_curves'' out =
         [''export_curves {Curve_1 Curve_2 Curve_3 Curve_4} -plot Plot_C1(C1('' @ ''5A_eDensity_0001''
            @ ''_des))_S1P0'' @ '' -filename '' @ m1_csv_export_path demo_mode1_grid
            @ m1_csv_filename demo_mode1_grid @ ''_set1_param_'' @ ''eDensity'' @ ''.csv''
            @ '' -format csv'']"
    by blast
  from l have l': "commands_named ''link_plots'' out =
         [''link_plots {Plot_5A_eDensity_0001_des Plot_5A_eDensity_0002_des Plot_5A_eDensity_0001_des Plot_5A_eDensity_0002_des}'']"
    by simp
  from e have e': "commands_named ''export_curves'' out =
         [''export_curves {Curve_1 Curve_2 Curve_3 Curve_4} -plot Plot_C1(C1(5A_eDensity_0001_des))_S1P0 -filename /c/out_set1_param_eDensity.csv -format csv'']"
    by (simp add: demo_mode1_grid_def)
  from ret l' e' show ?thesis by blast
qed

lemma m1_block_no_position:
  assumes "m1_ready r" and "cutline_positions cutset = []"
  shows "m1_block to_list r set_idx cutset param_idx parameter cc = Raise ZeroDivisionError"
  using m1_file_bases_ok [OF assms(1), of parameter] assms(2)
  by (simp add: m1_block_def bind_flow_def)

lemma mode1_commands_no_position:
  assumes "m1_ready r" and "m1_sets r = cs0 # others" and "parameters cs0 \<noteq> []"
    and "cutline_positions cs0 = []"
  shows "mode1_commands to_list r = Raise ZeroDivisionError"
proof -
  from assms(3) obtain p0 ps where p: "parameters cs0 = p0 # ps"
    by (cases "parameters cs0") auto
  show ?thesis
    by (simp add: mode1_commands_def assms(2) p m1_block_no_position [OF assms(1,4)] bind_flow_def)
qed

lemma file_bases_of_last:
  assumes "wants_last_tdr r"
  shows "file_bases_of r parameter ! (length (node_names r) * length (m1_tdr_codes r))
           = m1_file_base r parameter (hd (py_split CHR ''_'' (hd (node_names r))))"
    and "length (file_bases_of r parameter) = length (node_names r) * length (m1_tdr_codes r) + 1"
  using assms length_cross_file_bases [of r parameter]
  by (simp_all add: file_bases_of_def nth_append)

text \<open>
  Claim C3, amended.  In Mode 1, when the run reaches its end (there is a node, and a TDR
  code or the last TDR is asked for, and every set has a cutline position), the
  \<^verbatim>\<open>create_cutline\<close> command of the file base at position \<open>i\<close> of a (set, parameter)
  pair uses the cutline position at index \<open>i mod length(cutline positions)\<close>.  With the
  last TDR asked for, the file base made from the node prefix is at position
  \<open>nodes * codes\<close>, so with one cutline position per TDR code it uses the position at
  index 0, the first TDR's.  A first set with a parameter and no cutline position makes
  the generator raise \<^verbatim>\<open>ZeroDivisionError\<close>.
\<close>

theorem mode1_cutline_wraps_around:
  "(m1_ready r \<and> (\<forall>cs\<in>set (m1_sets r). cutline_positions cs \<noteq> []) \<longrightarrow>
      (\<exists>out. mode1_commands to_list r = Return out
         \<and> commands_named ''create_cutline'' out =
             concat (map (\<lambda>(k, set_idx, cutset, param_idx, parameter).
                map (\<lambda>(i, fb). ''create_cutline -plot Plot_C'' @ str_nat set_idx @ ''('' @ fb
                       @ ''_des) -type '' @ cutline_axis cutset @ '' -at ''
                       @ cutline_positions cutset ! (i mod length (cutline_positions cutset)))
                    (enumerate 0 (file_bases_of r parameter)))
               (enumerate 0 (m1_pairs r)))))
   \<and> (wants_last_tdr r \<longrightarrow>
        file_bases_of r parameter ! (length (node_names r) * length (m1_tdr_codes r))
          = m1_file_base r parameter (hd (py_split CHR ''_'' (hd (node_names r))))
        \<and> length (file_bases_of r parameter) = length (node_names r) * length (m1_tdr_codes r) + 1)
   \<and> (length (cutline_positions cs) = length (m1_tdr_codes r) \<and> m1_tdr_codes r \<noteq> [] \<longrightarrow>
        cutline_positions cs
          ! ((length (node_names r) * length (m1_tdr_codes r)) mod length (cutline_positions cs))
        = hd (cutline_positions cs))
   \<and> (m1_ready r \<and> m1_sets r = cs0 # others \<and> parameters cs0 \<noteq> [] \<and> cutline_positions cs0 = []
        \<longrightarrow> mode1_commands to_list r = Raise ZeroDivisionError)"
proof (intro conjI impI)
  assume "m1_ready r \<and> (\<forall>cs\<in>set (m1_sets r). cutline_positions cs \<noteq> [])"
  then have ret: "mode1_commands to_list r
       = Return (console_header @ concat (map (m1_lines to_list r) (enumerate 0 (m1_pairs r))))"
    by (intro mode1_commands_ok) simp_all
  show "\<exists>out. mode1_commands to_list r = Return out
         \<and> commands_named ''create_cutline'' out =
             concat (map (\<lambda>(k, set_idx, cutset, param_idx, parameter).
                map (\<lambda>(i, fb). ''create_cutline -plot Plot_C'' @ str_nat set_idx @ ''('' @ fb
                       @ ''_des) -type '' @ cutline_axis cutset @ '' -at ''
                       @ cutline_positions cutset ! (i mod length (cutline_positions cutset)))
                    (enumerate 0 (file_bases_of r parameter)))
               (enumerate 0 (m1_pairs r)))"
    apply (rule exI [where x = "console_header @ concat (map (m1_lines to_list r) (enumerate 0 (m1_pairs r)))"])
    apply (intro conjI)
     apply (rule ret)
    apply (rule m1_out_create_cutline)
    done
next
  assume w: "wants_last_tdr r"
  show "file_bases_of r parameter ! (length (node_names r) * length (m1_tdr_codes r))
          = m1_file_base r parameter (hd (py_split CHR ''_'' (hd (node_names r))))"
    using w by (rule file_bases_of_last(1))
  show "length (file_bases_of r parameter) = length (node_names r) * length (m1_tdr_codes r) + 1"
    using w by (rule file_bases_of_last(2))
next
  assume h: "length (cutline_positions cs) = length (m1_tdr_codes r) \<and> m1_tdr_codes r \<noteq> []"
  then have ne: "cutline_positions cs \<noteq> []" by auto
  from h have "(length (node_names r) * length (m1_tdr_codes r)) mod length (cutline_positions cs) = 0"
    by simp
  with ne show "cutline_positions cs
          ! ((length (node_names r) * length (m1_tdr_codes r)) mod length (cutline_positions cs))
        = hd (cutline_positions cs)"
    by (simp add: hd_conv_nth)
next
  assume "m1_ready r \<and> m1_sets r = cs0 # others \<and> parameters cs0 \<noteq> [] \<and> cutline_positions cs0 = []"
  then show "mode1_commands to_list r = Raise ZeroDivisionError"
    by (intro mode1_commands_no_position [of r cs0 others]) simp_all
qed

lemma demo_mode1_ready: "m1_ready demo_mode1"
  by (simp add: m1_ready_def demo_mode1_def)

lemma demo_mode1_positions: "\<forall>cs\<in>set (m1_sets demo_mode1). cutline_positions cs \<noteq> []"
  by (simp add: demo_mode1_def)

lemma demo_mode1_pairs:
  "enumerate 0 (m1_pairs demo_mode1) =
     [(0, 1, \<lparr> cutplane_axis = ''x'', cutplane_position = ''0.5'', cutline_axis = ''y'',
             cutline_positions = [''10'', ''20''], parameters = [''eDensity''] \<rparr>, 0, ''eDensity'')]"
  by (simp add: m1_pairs_def pairs_of_def demo_mode1_def)

lemma demo_mode1_file_bases:
  "file_bases_of demo_mode1 ''eDensity'' = [''5A_eDensity_0001'', ''5A_eDensity_0002'', ''5A_eDensity_n1257'']"
  by (simp add: file_bases_of_def cross_file_bases_def m1_file_base_def demo_mode1_def wants_last_tdr_def)

lemma demo_mode1_cutlines:
  "commands_named ''create_cutline''
     (console_header @ concat (map (m1_lines axis_order demo_mode1) (enumerate 0 (m1_pairs demo_mode1)))) =
     [''create_cutline -plot Plot_C1(5A_eDensity_0001_des) -type y -at 10'',
      ''create_cutline -plot Plot_C1(5A_eDensity_0002_des) -type y -at 20'',
      ''create_cutline -plot Plot_C1(5A_eDensity_n1257_des) -type y -at 10'']"
  unfolding m1_out_create_cutline demo_mode1_pairs
  by (simp add: demo_mode1_file_bases str_nat_Suc_0 mod_two_Suc)

theorem mode1_cutline_wraps_around_witness:
  "\<exists>out. mode1_commands axis_order demo_mode1 = Return out
     \<and> commands_named ''create_cutline'' out =
        [''create_cutline -plot Plot_C1(5A_eDensity_0001_des) -type y -at 10'',
         ''create_cutline -plot Plot_C1(5A_eDensity_0002_des) -type y -at 20'',
         ''create_cutline -plot Plot_C1(5A_eDensity_n1257_des) -type y -at 10'']"
proof -
  from mode1_cutline_wraps_around [of demo_mode1 axis_order] demo_mode1_ready demo_mode1_positions
  obtain out where ret: "mode1_commands axis_order demo_mode1 = Return out"
    and cl: "commands_named ''create_cutline'' out =
             concat (map (\<lambda>(k, set_idx, cutset, param_idx, parameter).
                map (\<lambda>(i, fb). ''create_cutline -plot Plot_C'' @ str_nat set_idx @ ''('' @ fb
                       @ ''_des) -type '' @ cutline_axis cutset @ '' -at ''
                       @ cutline_positions cutset ! (i mod length (cutline_positions cutset)))
                    (enumerate 0 (file_bases_of demo_mode1 parameter)))
               (enumerate 0 (m1_pairs demo_mode1)))"
    by blast
  have "commands_named ''create_cutline'' out =
        [''create_cutline -plot Plot_C1(5A_eDensity_0001_des) -type y -at 10'',
         ''create_cutline -plot Plot_C1(5A_eDensity_0002_des) -type y -at 20'',
         ''create_cutline -plot Plot_C1(5A_eDensity_n1257_des) -type y -at 10'']"
    unfolding cl demo_mode1_pairs
    by (simp add: demo_mode1_file_bases str_nat_Suc_0 mod_two_Suc)
  with ret show ?thesis by blast
qed

theorem mode1_cutline_wraps_around_counterexample:
  "last (commands_named ''create_cutline'' (returned (mode1_commands axis_order demo_mode1)))
     = ''create_cutline -plot Plot_C1(5A_eDensity_n1257_des) -type y -at 10''
   \<and> last (cutline_positions (hd (m1_sets demo_mode1))) = ''20''
   \<and> wants_last_tdr demo_mode1"
proof -
  have "mode1_commands axis_order demo_mode1
       = Return (console_header @ concat (map (m1_lines axis_order demo_mode1) (enumerate 0 (m1_pairs demo_mode1))))"
    using demo_mode1_ready demo_mode1_positions by (rule mode1_commands_ok)
  then have "commands_named ''create_cutline'' (returned (mode1_commands axis_order demo_mode1)) =
     [''create_cutline -plot Plot_C1(5A_eDensity_0001_des) -type y -at 10'',
      ''create_cutline -plot Plot_C1(5A_eDensity_0002_des) -type y -at 20'',
      ''create_cutline -plot Plot_C1(5A_eDensity_n1257_des) -type y -at 10'']"
    by (simp only: returned_def flow.case demo_mode1_cutlines)
  then show ?thesis
    by (simp add: demo_mode1_def wants_last_tdr_def)
qed

section \<open>Properties of the reading phase\<close>

lemma read_set_conflict:
  assumes "read_axis inp = Next (a, inp1)" and "input_line inp1 = Next (pos, inp2)"
    and "read_axis inp2 = Next (a, inp3)"
  shows "read_set tdr_codes inp = Return []"
  using assms by (simp add: read_set_def bind_flow_def)

lemma read_sets_conflict:
  assumes "read_axis inp = Next (a, inp1)" and "input_line inp1 = Next (pos, inp2)"
    and "read_axis inp2 = Next (a, inp3)"
  shows "read_sets tdr_codes sets inp = Return []"
  by (subst read_sets.simps) (simp add: read_set_conflict [OF assms] bind_flow_def)

lemma read_sets_invalid:
  assumes "read_axis inp = Next (a, inp1)" and "input_line inp1 = Next (pos, inp2)"
    and "read_axis inp2 = Next (b, inp3)" and "a \<noteq> b"
    and "read_lines (length tdr_codes) inp3 = Next (positions, inp4)"
    and "input_line inp4 = Next (param_input, inp5)"
    and "\<exists>p\<in>set (parse_parameters param_input). p \<notin> set parameter_names"
  shows "read_sets tdr_codes sets inp = read_sets tdr_codes sets inp5"
proof -
  from assms(7) have "filter (\<lambda>p. p \<notin> set parameter_names) (parse_parameters param_input) \<noteq> []"
    by (simp add: filter_empty_conv)
  with assms(1-6) have "read_set tdr_codes inp = Next (Again, inp5)"
    by (simp add: read_set_def bind_flow_def Let_def)
  then show ?thesis
    by (subst read_sets.simps) (simp add: bind_flow_def)
qed

lemma read_axis_letter: "read_axis inp = Next (a, inp') \<Longrightarrow> a \<in> set [''x'', ''y'', ''z'']"
  by (induction inp) (auto split: if_splits)

lemma read_lines_length: "read_lines k inp = Next (ls, inp') \<Longrightarrow> length ls = k"
proof (induction k arbitrary: inp ls inp')
  case 0
  then show ?case by simp
next
  case (Suc k)
  from Suc.prems obtain l inp1 ls1 where
    1: "input_line inp = Next (l, inp1)" and 2: "read_lines k inp1 = Next (ls1, inp')"
    and 3: "ls = l # ls1"
    by (auto simp: bind_flow_def split: flow.splits)
  from Suc.IH [OF 2] 3 show ?case by simp
qed

lemma read_set_entry:
  assumes "read_set tdr_codes inp = Next (Entry cs m, inp')"
  shows "accepted_set tdr_codes cs"
proof -
  from assms obtain cp_axis inp1 cp_position inp2 cl_axis inp3 cl_positions inp4 param_input inp5
    where 1: "read_axis inp = Next (cp_axis, inp1)"
      and 3: "read_axis inp2 = Next (cl_axis, inp3)"
      and 4: "read_lines (length tdr_codes) inp3 = Next (cl_positions, inp4)"
      and ne: "cl_axis \<noteq> cp_axis"
      and inv: "filter (\<lambda>p. p \<notin> set parameter_names) (parse_parameters param_input) = []"
      and cs: "cs = \<lparr> cutplane_axis = cp_axis, cutplane_position = cp_position,
                      cutline_axis = cl_axis, cutline_positions = cl_positions,
                      parameters = parse_parameters param_input \<rparr>"
    by (auto simp: read_set_def bind_flow_def Let_def split: flow.splits if_splits)
  from inv have "set (parse_parameters param_input) \<subseteq> set parameter_names"
    by (auto simp: filter_empty_conv)
  with read_axis_letter [OF 1] read_axis_letter [OF 3] read_lines_length [OF 4] ne cs
  show ?thesis by (simp add: accepted_set_def)
qed

lemma read_set_Return: "read_set tdr_codes inp = Return c \<Longrightarrow> c = []"
proof -
  have a: "\<And>i x. read_axis i \<noteq> Return x"
  proof -
    fix i x show "read_axis i \<noteq> Return x" by (induction i) auto
  qed
  have b: "\<And>i x. input_line i \<noteq> Return x"
    by (simp add: input_line_def split: list.splits)
  have c: "\<And>k i x. read_lines k i \<noteq> Return x"
  proof -
    fix k i x show "read_lines k i \<noteq> Return x"
      using b by (induction k arbitrary: i) (auto simp: bind_flow_def split: flow.splits)
  qed
  assume "read_set tdr_codes inp = Return c"
  then show "c = []"
    using a b c
    by (auto simp: read_set_def bind_flow_def Let_def split: flow.splits if_splits)
qed

lemma read_sets_Return: "read_sets tdr_codes sets inp = Return c \<Longrightarrow> c = []"
proof (induction tdr_codes sets inp rule: read_sets.induct)
  case (1 tdr_codes sets inp)
  show ?case
  proof (cases "read_set tdr_codes inp")
    case (Raise e)
    with "1.prems" show ?thesis by (subst (asm) read_sets.simps) (simp add: bind_flow_def)
  next
    case (Return c')
    with "1.prems" have "c = c'" by (subst (asm) read_sets.simps) (simp add: bind_flow_def)
    with Return show ?thesis by (auto dest: read_set_Return)
  next
    case (Next x)
    obtain step inp' where x: "x = (step, inp')" by (cases x)
    show ?thesis
    proof (cases step)
      case Again
      with "1.prems" Next x have "read_sets tdr_codes sets inp' = Return c"
        by (subst (asm) read_sets.simps) (simp add: bind_flow_def)
      with "1.IH"(1) [OF Next x [symmetric] Again] show ?thesis by simp
    next
      case (Entry cs m)
      show ?thesis
      proof (cases "m \<notin> set [''yes'', ''y'']")
        case True
        with "1.prems" Next x Entry show ?thesis
          by (subst (asm) read_sets.simps) (simp add: bind_flow_def)
      next
        case False
        with "1.prems" Next x Entry have "read_sets tdr_codes (sets @ [cs]) inp' = Return c"
          by (subst (asm) read_sets.simps) (auto simp: bind_flow_def)
        with "1.IH"(2) [OF Next x [symmetric] Entry False] show ?thesis by simp
      qed
    qed
  qed
qed

lemma read_sets_accepted:
  assumes "read_sets tdr_codes sets inp = Next (sets', inp')"
    and "\<forall>cs\<in>set sets. accepted_set tdr_codes cs"
  shows "\<forall>cs\<in>set sets'. accepted_set tdr_codes cs"
  using assms
proof (induction tdr_codes sets inp rule: read_sets.induct)
  case (1 tdr_codes sets inp)
  show ?case
  proof (cases "read_set tdr_codes inp")
    case (Raise e)
    with "1.prems"(1) show ?thesis by (subst (asm) read_sets.simps) (simp add: bind_flow_def)
  next
    case (Return c')
    with "1.prems"(1) show ?thesis by (subst (asm) read_sets.simps) (simp add: bind_flow_def)
  next
    case (Next x)
    obtain step inp1 where x: "x = (step, inp1)" by (cases x)
    show ?thesis
    proof (cases step)
      case Again
      with "1.prems"(1) Next x have "read_sets tdr_codes sets inp1 = Next (sets', inp')"
        by (subst (asm) read_sets.simps) (simp add: bind_flow_def)
      with "1.IH"(1) [OF Next x [symmetric] Again] "1.prems"(2) show ?thesis by simp
    next
      case (Entry cs m)
      from Next x Entry have acc: "accepted_set tdr_codes cs" by (auto dest: read_set_entry)
      with "1.prems"(2) have all: "\<forall>c\<in>set (sets @ [cs]). accepted_set tdr_codes c" by simp
      show ?thesis
      proof (cases "m \<notin> set [''yes'', ''y'']")
        case True
        with "1.prems"(1) Next x Entry have "sets' = sets @ [cs]"
          by (subst (asm) read_sets.simps) (simp add: bind_flow_def)
        with all show ?thesis by simp
      next
        case False
        with "1.prems"(1) Next x Entry
        have "read_sets tdr_codes (sets @ [cs]) inp1 = Next (sets', inp')"
          by (subst (asm) read_sets.simps) (auto simp: bind_flow_def)
        with "1.IH"(2) [OF Next x [symmetric] Entry False] all show ?thesis by simp
      qed
    qed
  qed
qed

lemma bind_flow_Next: "bind_flow m f = Next y \<longleftrightarrow> (\<exists>x. m = Next x \<and> f x = Next y)"
  by (cases m) (simp_all add: bind_flow_def)

lemma bind_flow_Return:
  "bind_flow m f = Return c \<longleftrightarrow> m = Return c \<or> (\<exists>x. m = Next x \<and> f x = Return c)"
  by (cases m) (simp_all add: bind_flow_def)

lemma input_line_not_Return: "input_line inp \<noteq> Return c"
  by (simp add: input_line_def split: list.splits)

lemma py_int_not_Return: "py_int s \<noteq> Return c"
  by (simp add: py_int_def Let_def split: list.splits option.splits)

lemma read_lines_not_Return: "read_lines k inp \<noteq> Return c"
  by (induction k arbitrary: inp c)
     (auto simp: bind_flow_Return input_line_not_Return)

lemma read_mode3_accepted:
  assumes "read_mode3 inp = Next r"
  shows "\<forall>cs\<in>set (m3_sets r). accepted_set (m3_tdr_codes r) cs"
proof -
  from assms obtain codes sets inp5 inp6
    where rs: "read_sets (map format_tdr_code codes) [] inp5 = Next (sets, inp6)"
      and r: "m3_sets r = sets" "m3_tdr_codes r = map format_tdr_code codes"
    by (auto simp: read_mode3_def bind_flow_Next Let_def)
  from read_sets_accepted [OF rs] r show ?thesis by simp
qed

lemma read_mode3_Return: "read_mode3 inp = Return c \<Longrightarrow> c = []"
  by (auto simp: read_mode3_def bind_flow_Return Let_def input_line_not_Return py_int_not_Return
      read_lines_not_Return dest: read_sets_Return)

lemma read_mode1_accepted:
  assumes "read_mode1 inp = Next r"
  shows "\<forall>cs\<in>set (m1_sets r). accepted_set (m1_tdr_codes r) cs"
proof -
  from assms obtain codes sets inp7 inp8
    where rs: "read_sets (map format_tdr_code codes) [] inp7 = Next (sets, inp8)"
      and r: "m1_sets r = sets" "m1_tdr_codes r = map format_tdr_code codes"
    by (auto simp: read_mode1_def bind_flow_Next Let_def)
  from read_sets_accepted [OF rs] r show ?thesis by simp
qed

lemma read_mode1_Return: "read_mode1 inp = Return c \<Longrightarrow> c = []"
  by (auto simp: read_mode1_def bind_flow_Return Let_def input_line_not_Return py_int_not_Return
      read_lines_not_Return dest: read_sets_Return)

lemma mode3_commands_not_Next: "mode3_commands to_list r \<noteq> Next x"
  by (auto simp: mode3_commands_def bind_flow_Next)

lemma mode1_commands_not_Next: "mode1_commands to_list r \<noteq> Next x"
  by (auto simp: mode1_commands_def bind_flow_Next)

lemma handler_nonempty:
  assumes "handler body = Inr out" and "out \<noteq> []"
  shows "body = Return out \<or> body = Next out"
  using assms by (cases body) (auto simp: handler_def split: if_splits)

lemma generate_mode3_nonempty:
  assumes "generate_mode3_commands to_list inp = Inr out" and "out \<noteq> []"
  shows "\<exists>r. read_mode3 inp = Next r \<and> mode3_commands to_list r = Return out
           \<and> (\<forall>cs\<in>set (m3_sets r). accepted_set (m3_tdr_codes r) cs)"
proof -
  from assms have "bind_flow (read_mode3 inp) (mode3_commands to_list) = Return out
      \<or> bind_flow (read_mode3 inp) (mode3_commands to_list) = Next out"
    unfolding generate_mode3_commands_def by (rule handler_nonempty)
  then have "bind_flow (read_mode3 inp) (mode3_commands to_list) = Return out"
    by (auto simp: bind_flow_Next mode3_commands_not_Next)
  then have "read_mode3 inp = Return out
      \<or> (\<exists>r. read_mode3 inp = Next r \<and> mode3_commands to_list r = Return out)"
    by (simp add: bind_flow_Return)
  with assms(2) obtain r where r: "read_mode3 inp = Next r" "mode3_commands to_list r = Return out"
    by (auto dest: read_mode3_Return)
  with read_mode3_accepted [OF r(1)] show ?thesis by blast
qed

lemma generate_mode1_nonempty:
  assumes "generate_mode1_commands to_list inp = Inr out" and "out \<noteq> []"
  shows "\<exists>r. read_mode1 inp = Next r \<and> mode1_commands to_list r = Return out
           \<and> (\<forall>cs\<in>set (m1_sets r). accepted_set (m1_tdr_codes r) cs)"
proof -
  from assms have "bind_flow (read_mode1 inp) (mode1_commands to_list) = Return out
      \<or> bind_flow (read_mode1 inp) (mode1_commands to_list) = Next out"
    unfolding generate_mode1_commands_def by (rule handler_nonempty)
  then have "bind_flow (read_mode1 inp) (mode1_commands to_list) = Return out"
    by (auto simp: bind_flow_Next mode1_commands_not_Next)
  then have "read_mode1 inp = Return out
      \<or> (\<exists>r. read_mode1 inp = Next r \<and> mode1_commands to_list r = Return out)"
    by (simp add: bind_flow_Return)
  with assms(2) obtain r where r: "read_mode1 inp = Next r" "mode1_commands to_list r = Return out"
    by (auto dest: read_mode1_Return)
  with read_mode1_accepted [OF r(1)] show ?thesis by blast
qed

text \<open>
  Claim C5, amended.  In Modes 1 and 3, a set whose cutline axis equals its cutplane axis
  makes the generator return the empty list at once.  A set entered with a parameter
  outside the list of 23 is not stored and the set is asked again: the generation goes
  on.  The only list the reading phase returns is the empty one, and a non-empty result
  is the whole command list of a request that was read to its end, in which every set
  has two different axes, only listed parameters and one cutline position per TDR code;
  no partial list is ever returned.
\<close>

theorem rejected_sets_never_reach_the_commands:
  "(read_axis inp = Next (a, inp1) \<and> input_line inp1 = Next (pos, inp2)
      \<and> read_axis inp2 = Next (a, inp3)
      \<longrightarrow> read_sets tdr_codes sets inp = Return [])
   \<and> (read_axis inp = Next (a, inp1) \<and> input_line inp1 = Next (pos, inp2)
      \<and> read_axis inp2 = Next (b, inp3) \<and> a \<noteq> b
      \<and> read_lines (length tdr_codes) inp3 = Next (positions, inp4)
      \<and> input_line inp4 = Next (param_input, inp5)
      \<and> (\<exists>p\<in>set (parse_parameters param_input). p \<notin> set parameter_names)
      \<longrightarrow> read_sets tdr_codes sets inp = read_sets tdr_codes sets inp5)
   \<and> (read_mode1 lines1 = Return c1 \<longrightarrow>
        c1 = [] \<and> generate_mode1_commands to_list lines1 = Inr [])
   \<and> (read_mode3 lines3 = Return c3 \<longrightarrow>
        c3 = [] \<and> generate_mode3_commands to_list lines3 = Inr [])
   \<and> (generate_mode1_commands to_list lines1 = Inr out1 \<and> out1 \<noteq> [] \<longrightarrow>
        (\<exists>r. read_mode1 lines1 = Next r \<and> mode1_commands to_list r = Return out1
           \<and> (\<forall>cs\<in>set (m1_sets r). accepted_set (m1_tdr_codes r) cs)))
   \<and> (generate_mode3_commands to_list lines3 = Inr out3 \<and> out3 \<noteq> [] \<longrightarrow>
        (\<exists>r. read_mode3 lines3 = Next r \<and> mode3_commands to_list r = Return out3
           \<and> (\<forall>cs\<in>set (m3_sets r). accepted_set (m3_tdr_codes r) cs)))"
proof (intro conjI impI)
  assume "read_axis inp = Next (a, inp1) \<and> input_line inp1 = Next (pos, inp2)
      \<and> read_axis inp2 = Next (a, inp3)"
  then show "read_sets tdr_codes sets inp = Return []"
    by (intro read_sets_conflict [of inp a inp1 pos inp2 inp3]) simp_all
next
  assume "read_axis inp = Next (a, inp1) \<and> input_line inp1 = Next (pos, inp2)
      \<and> read_axis inp2 = Next (b, inp3) \<and> a \<noteq> b
      \<and> read_lines (length tdr_codes) inp3 = Next (positions, inp4)
      \<and> input_line inp4 = Next (param_input, inp5)
      \<and> (\<exists>p\<in>set (parse_parameters param_input). p \<notin> set parameter_names)"
  then show "read_sets tdr_codes sets inp = read_sets tdr_codes sets inp5"
    by (intro read_sets_invalid [of inp a inp1 pos inp2 b inp3 tdr_codes positions inp4 param_input])
       simp_all
next
  assume r: "read_mode1 lines1 = Return c1"
  then show "c1 = []" by (rule read_mode1_Return)
  with r show "generate_mode1_commands to_list lines1 = Inr []"
    by (simp add: generate_mode1_commands_def bind_flow_def handler_def)
next
  assume r: "read_mode3 lines3 = Return c3"
  then show "c3 = []" by (rule read_mode3_Return)
  with r show "generate_mode3_commands to_list lines3 = Inr []"
    by (simp add: generate_mode3_commands_def bind_flow_def handler_def)
next
  assume "generate_mode1_commands to_list lines1 = Inr out1 \<and> out1 \<noteq> []"
  then show "\<exists>r. read_mode1 lines1 = Next r \<and> mode1_commands to_list r = Return out1
           \<and> (\<forall>cs\<in>set (m1_sets r). accepted_set (m1_tdr_codes r) cs)"
    by (intro generate_mode1_nonempty) simp_all
next
  assume "generate_mode3_commands to_list lines3 = Inr out3 \<and> out3 \<noteq> []"
  then show "\<exists>r. read_mode3 lines3 = Next r \<and> mode3_commands to_list r = Return out3
           \<and> (\<forall>cs\<in>set (m3_sets r). accepted_set (m3_tdr_codes r) cs)"
    by (intro generate_mode3_nonempty) simp_all
qed

lemma py_int_one: "py_int ''1'' = Next 1"
  by (simp add: py_int_def is_int_space_def is_digit_def digit_val_def)

lemma lower_x: "py_lower ''x'' = ''x''" "py_lower ''X'' = ''x''" "py_lower ''Y'' = ''y''"
  "py_lower ''y'' = ''y''" "py_lower ''z'' = ''z''" "py_lower ''q'' = ''q''" "py_lower ''no'' = ''no''"
  by (simp_all add: py_lower_def lower_char_def)

lemma format_one: "format_tdr_code ''1'' = ''0001''"
  by (simp add: format_tdr_code_def zfill_def)

lemma parse_bad: "parse_parameters '' eDensity ,X'' = [''eDensity'', ''X'']"
  by (simp add: parse_parameters_def py_strip_def is_space_def)

lemma parse_good: "parse_parameters ''hDensity'' = [''hDensity'']"
  by (simp add: parse_parameters_def py_strip_def is_space_def)

lemma X_not_listed: "''X'' \<notin> set parameter_names"
  by (simp add: parameter_names_def)

lemma hDensity_listed: "''hDensity'' \<in> set parameter_names"
  by (simp add: parameter_names_def)

lemma add_slash_b: "add_slash ''/b'' = ''/b/''" "add_slash ''/c'' = ''/c/''"
  by (simp_all add: add_slash_def endswith_def suffix_to_prefix)

lemma retry_first_pass:
  "read_sets [''0001''] []
     [''x'', ''0.5'', ''Y'', ''7'', '' eDensity ,X'', ''q'', ''z'', ''0.1'', ''y'', ''8'', ''hDensity'',
      ''no'', ''linear'', ''/c'', ''out'']
   = read_sets [''0001''] []
     [''q'', ''z'', ''0.1'', ''y'', ''8'', ''hDensity'', ''no'', ''linear'', ''/c'', ''out'']"
  by (subst read_sets.simps)
     (simp add: read_set_def lower_x input_line_def bind_flow_def parse_bad X_not_listed Let_def)

lemma retry_second_pass:
  "read_sets [''0001''] []
     [''q'', ''z'', ''0.1'', ''y'', ''8'', ''hDensity'', ''no'', ''linear'', ''/c'', ''out'']
   = Next ([\<lparr> cutplane_axis = ''z'', cutplane_position = ''0.1'', cutline_axis = ''y'',
             cutline_positions = [''8''], parameters = [''hDensity''] \<rparr>],
           [''linear'', ''/c'', ''out''])"
  by (subst read_sets.simps)
     (simp add: read_set_def lower_x input_line_def bind_flow_def parse_good hDensity_listed Let_def)

lemma y_axis_linear: "y_axis_type_of ''linear'' = ''linear''"
  by (simp add: y_axis_type_of_def py_lower_def lower_char_def Let_def)

lemma read_retry_lines: "read_mode3 retry_lines = Next retry_request"
  by (simp add: read_mode3_def retry_lines_def retry_request_def input_line_def bind_flow_def
      py_int_one format_one retry_first_pass retry_second_pass add_slash_b y_axis_linear)

lemma retry_request_ok:
  "mode3_commands axis_order retry_request
   = Return (concat (map (m3_lines axis_order retry_request) (enumerate 0 (m3_pairs retry_request))))"
  by (rule mode3_commands_ok) (simp_all add: retry_request_def)

lemma retry_request_pairs:
  "enumerate 0 (m3_pairs retry_request) =
     [(0, 1, \<lparr> cutplane_axis = ''z'', cutplane_position = ''0.1'', cutline_axis = ''y'',
             cutline_positions = [''8''], parameters = [''hDensity''] \<rparr>, 0, ''hDensity'')]"
  by (simp add: m3_pairs_def pairs_of_def retry_request_def)

lemma retry_request_export:
  "commands_named ''export_curves'' (returned (mode3_commands axis_order retry_request)) =
     [''export_curves {Curve_1} -plot Plot_C1(C1(5A_hDensity_0001_des)) -filename /c/out_set1_param1_hDensity.csv -format csv'']"
  unfolding retry_request_ok returned_def flow.case m3_out_export_curves retry_request_pairs
  by (simp add: retry_request_def m3_dset_def str_nat_Suc_0)

theorem rejected_sets_never_reach_the_commands_counterexample:
  "generate_mode3_commands axis_order retry_lines
     = Inr (returned (mode3_commands axis_order retry_request))
   \<and> commands_named ''export_curves'' (returned (mode3_commands axis_order retry_request)) =
       [''export_curves {Curve_1} -plot Plot_C1(C1(5A_hDensity_0001_des)) -filename /c/out_set1_param1_hDensity.csv -format csv'']
   \<and> parse_parameters (retry_lines ! 9) = [''eDensity'', ''X'']
   \<and> ''X'' \<notin> set parameter_names"
proof -
  have 1: "generate_mode3_commands axis_order retry_lines
     = Inr (returned (mode3_commands axis_order retry_request))"
    by (simp add: generate_mode3_commands_def read_retry_lines bind_flow_def retry_request_ok
        handler_def returned_def)
  have 3: "parse_parameters (retry_lines ! 9) = [''eDensity'', ''X'']"
    by (simp add: retry_lines_def parse_bad)
  from 1 retry_request_export 3 X_not_listed show ?thesis by (intro conjI)
qed

theorem rejected_sets_never_reach_the_commands_witness:
  "read_sets [''0001''] [] [''x'', ''0.5'', ''X''] = Return []
   \<and> read_sets [''0001''] []
        [''x'', ''0.5'', ''Y'', ''7'', '' eDensity ,X'', ''q'', ''z'', ''0.1'', ''y'', ''8'', ''hDensity'', ''no'']
      = read_sets [''0001''] [] [''q'', ''z'', ''0.1'', ''y'', ''8'', ''hDensity'', ''no'']
   \<and> generate_mode3_commands axis_order [''1'', ''/b'', ''n1_'', ''5A'', ''1'', ''x'', ''0.5'', ''X'']
      = Inr []"
proof -
  have a: "read_axis [''x'', ''0.5'', ''X''] = Next (''x'', [''0.5'', ''X''])
      \<and> input_line [''0.5'', ''X''] = Next (''0.5'', [''X''])
      \<and> read_axis [''X''] = Next (''x'', [])"
    by (simp add: lower_x input_line_def)
  from rejected_sets_never_reach_the_commands
    [of "[''x'', ''0.5'', ''X'']" "''x''" "[''0.5'', ''X'']" "''0.5''" "[''X'']" "[]" "[''0001'']" "[]"] a
  have 1: "read_sets [''0001''] [] [''x'', ''0.5'', ''X''] = Return []" by blast
  let ?inp = "[''x'', ''0.5'', ''Y'', ''7'', '' eDensity ,X'', ''q'', ''z'', ''0.1'', ''y'', ''8'', ''hDensity'', ''no'']"
  let ?inp1 = "[''0.5'', ''Y'', ''7'', '' eDensity ,X'', ''q'', ''z'', ''0.1'', ''y'', ''8'', ''hDensity'', ''no'']"
  let ?inp2 = "[''Y'', ''7'', '' eDensity ,X'', ''q'', ''z'', ''0.1'', ''y'', ''8'', ''hDensity'', ''no'']"
  let ?inp3 = "[''7'', '' eDensity ,X'', ''q'', ''z'', ''0.1'', ''y'', ''8'', ''hDensity'', ''no'']"
  let ?inp4 = "['' eDensity ,X'', ''q'', ''z'', ''0.1'', ''y'', ''8'', ''hDensity'', ''no'']"
  let ?inp5 = "[''q'', ''z'', ''0.1'', ''y'', ''8'', ''hDensity'', ''no'']"
  have b: "read_axis ?inp = Next (''x'', ?inp1) \<and> input_line ?inp1 = Next (''0.5'', ?inp2)
      \<and> read_axis ?inp2 = Next (''y'', ?inp3) \<and> ''x'' \<noteq> ''y''
      \<and> read_lines (length [''0001'']) ?inp3 = Next ([''7''], ?inp4)
      \<and> input_line ?inp4 = Next ('' eDensity ,X'', ?inp5)
      \<and> (\<exists>p\<in>set (parse_parameters '' eDensity ,X''). p \<notin> set parameter_names)"
    by (simp add: lower_x input_line_def bind_flow_def parse_bad X_not_listed)
  from rejected_sets_never_reach_the_commands
    [of ?inp "''x''" ?inp1 "''0.5''" ?inp2 ?inp3 "[''0001'']" "[]" "''y''" "[''7'']" ?inp4
        "'' eDensity ,X''" ?inp5] b
  have 2: "read_sets [''0001''] [] ?inp = read_sets [''0001''] [] ?inp5" by blast
  have c: "read_mode3 [''1'', ''/b'', ''n1_'', ''5A'', ''1'', ''x'', ''0.5'', ''X''] = Return []"
    by (simp add: read_mode3_def input_line_def bind_flow_def py_int_one format_one 1)
  from rejected_sets_never_reach_the_commands
    [where ?lines3.0 = "[''1'', ''/b'', ''n1_'', ''5A'', ''1'', ''x'', ''0.5'', ''X'']" and ?c3.0 = "[]"
       and to_list = axis_order] c
  have 3: "generate_mode3_commands axis_order [''1'', ''/b'', ''n1_'', ''5A'', ''1'', ''x'', ''0.5'', ''X'']
      = Inr []" by blast
  from 1 2 3 show ?thesis by (intro conjI)
qed

end
